(* ===== verification/Prelude.thy ===== *)
theory Prelude
  imports Complex_Main
begin

text \<open>
  Shared vocabulary of the development: the JavaScript array helpers the sources use
  (\<open>Array.prototype.indexOf\<close>, \<open>splice\<close>), the index sequences that the
  container's \<open>for (i = 0; i < n; i += step)\<close> loops visit, powers of two for the load
  steps, and the collections of facts the component theories share.
\<close>

named_theorems frame_query_simps "evaluation rules of the frame queries"
named_theorems stride_simps "facts about the strided index sequences"

subsection \<open>Array helpers\<close>

text \<open>
  \<open>indexOf\<close> as the polyfill of \<open>Utils.js\<close> computes it: the first position of the
  element, or \<open>-1\<close> when it is absent.
\<close>

primrec index_of :: "'a list \<Rightarrow> 'a \<Rightarrow> int" where
  "index_of [] x = -1"
| "index_of (y # ys) x = (if y = x then 0 else (let r = index_of ys x in if r < 0 then -1 else r + 1))"

text \<open>\<open>array.splice(i, 1)\<close>: remove the element at position \<open>i\<close>.\<close>

definition splice1 :: "'a list \<Rightarrow> nat \<Rightarrow> 'a list" where
  "splice1 xs i = take i xs @ drop (Suc i) xs"

text \<open>The loops \<open>for (i = lo; i < n; i += step)\<close> with a positive step.\<close>

function strides :: "nat \<Rightarrow> nat \<Rightarrow> nat \<Rightarrow> nat list" where
  "strides i step n = (if 0 < step \<and> i < n then i # strides (i + step) step n else [])"
  by pat_completeness auto
termination
  by (relation "measure (\<lambda>(i, step, n). n - i)") auto

declare strides.simps [simp del]

text \<open>Powers of two, decided by halving.\<close>

fun is_pow2 :: "nat \<Rightarrow> bool" where
  "is_pow2 n = (if n \<le> 1 then n = 1 else even n \<and> is_pow2 (n div 2))"

declare is_pow2.simps [simp del]

subsection \<open>Lemmas on the helpers\<close>

lemma index_of_absent [simp]: "x \<notin> set xs \<Longrightarrow> index_of xs x = -1"
  by (induction xs) auto

lemma index_of_nonneg: "x \<in> set xs \<Longrightarrow> 0 \<le> index_of xs x"
  by (induction xs) (auto simp: Let_def)

lemma index_of_bound: "index_of xs x < int (length xs)"
  by (induction xs) (auto simp: Let_def)

lemma index_of_nth:
  "x \<in> set xs \<Longrightarrow> xs ! nat (index_of xs x) = x"
proof (induction xs)
  case Nil
  then show ?case by simp
next
  case (Cons y ys)
  show ?case
  proof (cases "y = x")
    case True
    then show ?thesis by simp
  next
    case False
    with Cons.prems have "x \<in> set ys" by simp
    with Cons.IH index_of_nonneg [OF this] False show ?thesis
      by (simp add: Let_def nat_add_distrib)
  qed
qed

lemma index_of_distinct_nth [simp]:
  "distinct xs \<Longrightarrow> i < length xs \<Longrightarrow> index_of xs (xs ! i) = int i"
proof (induction xs arbitrary: i)
  case Nil
  then show ?case by simp
next
  case (Cons y ys)
  then show ?case
    by (cases i) (auto simp: Let_def index_of_nonneg nth_mem)
qed

lemma index_of_upt [simp]: "i < n \<Longrightarrow> index_of [0..<n] i = int i"
  using index_of_distinct_nth [of "[0..<n]" i] by simp

lemma index_of_upt_absent [simp]: "n \<le> i \<Longrightarrow> index_of [0..<n] i = -1"
  by simp

lemma set_splice1:
  assumes "distinct xs" and "i < length xs"
  shows "set (splice1 xs i) = set xs - {xs ! i}"
proof -
  from assms(2) have e: "xs = take i xs @ xs ! i # drop (Suc i) xs"
    by (simp add: id_take_nth_drop)
  with assms(1) have "distinct (take i xs @ xs ! i # drop (Suc i) xs)" by simp
  moreover have "set xs = set (take i xs @ xs ! i # drop (Suc i) xs)"
    using arg_cong [OF e, of set] .
  ultimately show ?thesis unfolding splice1_def by auto
qed

lemma distinct_splice1 [simp]: "distinct xs \<Longrightarrow> distinct (splice1 xs i)"
  by (auto simp: splice1_def distinct_take distinct_drop set_take_disj_set_drop_if_distinct)

lemma length_splice1 [simp]: "i < length xs \<Longrightarrow> length (splice1 xs i) = length xs - 1"
  by (simp add: splice1_def)

lemma strides_nonempty_iff [stride_simps]:
  "strides i step n \<noteq> [] \<longleftrightarrow> 0 < step \<and> i < n"
  by (subst strides.simps) simp

lemma mem_strides:
  "0 < step \<Longrightarrow> j \<in> set (strides i step n) \<longleftrightarrow> j < n \<and> (\<exists>k. j = i + k * step)"
proof (induction i step n rule: strides.induct)
  case (1 i step n)
  have shift: "(\<exists>k. j = i + k * step) \<longleftrightarrow> j = i \<or> (\<exists>k. j = i + step + k * step)"
  proof
    assume "\<exists>k. j = i + k * step"
    then obtain k where "j = i + k * step" by blast
    then show "j = i \<or> (\<exists>k. j = i + step + k * step)"
      by (cases k) auto
  next
    assume "j = i \<or> (\<exists>k. j = i + step + k * step)"
    then show "\<exists>k. j = i + k * step"
      by (metis add.assoc add_0_right mult_Suc mult_zero_left add.commute)
  qed
  show ?case
  proof (cases "i < n")
    case False
    then show ?thesis by (subst strides.simps) auto
  next
    case True
    with "1.IH" "1.prems" shift show ?thesis
      by (subst strides.simps) auto
  qed
qed

lemma set_strides0 [stride_simps]:
  "0 < step \<Longrightarrow> set (strides 0 step n) = {j. j < n \<and> j mod step = 0}"
  by (auto simp: mem_strides elim!: dvdE dest!: mod_0_imp_dvd)

lemma strides_bound [stride_simps]: "j \<in> set (strides i step n) \<Longrightarrow> j < n"
  by (cases "0 < step") (auto simp: mem_strides strides.simps [of i 0 n])

lemma strides_one [simp]: "strides i 1 n = [i..<n]"
proof (induction i "1::nat" n rule: strides.induct)
  case (1 i n)
  then show ?case
    by (cases "i < n") (simp_all add: strides.simps [of i "Suc 0" n] upt_conv_Cons)
qed

lemma is_pow2_iff: "is_pow2 n \<longleftrightarrow> (\<exists>k. n = 2 ^ k)"
proof (induction n rule: less_induct)
  case (less n)
  show ?case
  proof (cases "n \<le> 1")
    case True
    show ?thesis
    proof -
      have "(\<exists>k. n = 2 ^ k) \<longleftrightarrow> n = 1"
      proof
        assume "\<exists>k. n = 2 ^ k"
        then obtain k where k: "n = 2 ^ k" by blast
        then have "0 < n" by simp
        with True show "n = 1" by simp
      next
        assume "n = 1"
        then have "n = 2 ^ 0" by simp
        then show "\<exists>k. n = 2 ^ k" ..
      qed
      then show ?thesis using True by (subst is_pow2.simps) simp
    qed
  next
    case False
    then have "n div 2 < n" by simp
    note IH = less.IH [OF this]
    have "(even n \<and> (\<exists>k. n div 2 = 2 ^ k)) \<longleftrightarrow> (\<exists>k. n = 2 ^ k)"
    proof
      assume "even n \<and> (\<exists>k. n div 2 = 2 ^ k)"
      then obtain k where "even n" "n div 2 = 2 ^ k" by blast
      then have "n = 2 ^ Suc k" by (metis dvd_mult_div_cancel power_Suc)
      then show "\<exists>k. n = 2 ^ k" ..
    next
      assume "\<exists>k. n = 2 ^ k"
      then obtain k where k: "n = 2 ^ k" by blast
      with False obtain k' where "k = Suc k'" by (cases k) auto
      with k show "even n \<and> (\<exists>k. n div 2 = 2 ^ k)" by auto
    qed
    with False IH show ?thesis by (subst is_pow2.simps) simp
  qed
qed

lemma is_pow2_pos: "is_pow2 n \<Longrightarrow> 0 < n"
  by (auto simp: is_pow2_iff)

lemma is_pow2_double [simp]: "is_pow2 (2 * n) \<longleftrightarrow> is_pow2 n"
  by (cases "n = 0") (simp_all add: is_pow2.simps [of "2 * n"])

lemma is_pow2_half: "is_pow2 n \<Longrightarrow> 1 < n \<Longrightarrow> is_pow2 (n div 2)"
  by (subst (asm) is_pow2.simps) simp

lemma is_pow2_one [simp]: "is_pow2 1"
  by (simp add: is_pow2.simps)

lemma is_pow2_Suc0 [simp]: "is_pow2 (Suc 0)"
  by (simp add: is_pow2.simps)

lemma is_pow2_zero [simp]: "\<not> is_pow2 0"
  by (simp add: is_pow2.simps)

lemma is_pow2_even: "is_pow2 n \<Longrightarrow> 1 < n \<Longrightarrow> even n"
  by (subst (asm) is_pow2.simps) simp

lemma is_pow2_dvd_half: "is_pow2 n \<Longrightarrow> 1 < n \<Longrightarrow> 2 * (n div 2) = n"
  using is_pow2_even by auto


lemma distinct_map_remove1[simp]:
  "distinct (map f xs) \<Longrightarrow> distinct (map f (remove1 x xs))"
  by (induction xs) (auto dest: subsetD[OF set_remove1_subset])

end
