(* ===== verification/Config.thy ===== *)
theory Config
  imports Prelude "HOL-Library.AList"
begin

text \<open>
  The configuration objects of the library and the functions of \<open>ConfigUtils.js\<close> that
  read, clone and update them, with the per-period layer information of the container
  (\<open>getLayerInfo\<close> and its users in \<open>LayerContainer.js\<close>), the configuration each frame
  is created with in \<open>loadAnimation\<close>, and the \<open>setConfig\<close> wrappers of \<open>Wms.js\<close> and
  \<open>Wmts.js\<close>. Configurations are JavaScript objects that the code updates in place and
  shares between clones, so they live in an explicit store: an object is the list of
  its properties in creation order, named by its address, and a value refers to an
  object by address. Writes through a value that is not an object throw a
  \<open>TypeError\<close> (the files are in strict mode); every property read of the code is
  guarded by a truthiness test of the object read from.
\<close>

section \<open>Values and the object store\<close>

text \<open>
  JavaScript values as the configurations hold them. \<open>JTime t\<close> is the string
  \<open>new Date(t).toISOString()\<close> gives for the time \<open>t\<close> (in ms), \<open>JDate t\<close> a \<open>Date\<close>
  object with that time value; arrays are held by value (the code never updates one).
\<close>

datatype jsval =
    JUndef | JNull | JBool bool | JNum int | JStr string
  | JTime int | JDate int | JArr "jsval list" | JRef nat

type_synonym props = "(string \<times> jsval) list"
type_synonym heap = "props list"

text \<open>A computation that may throw: \<open>Inl\<close> carries the exception's message.\<close>

type_synonym 'a js = "string + 'a"

definition js_bind :: "'a js \<Rightarrow> ('a \<Rightarrow> 'b js) \<Rightarrow> 'b js" where
  "js_bind r f = (case r of Inl e \<Rightarrow> Inl e | Inr a \<Rightarrow> f a)"

fun truthy :: "jsval \<Rightarrow> bool" where
  "truthy JUndef = False"
| "truthy JNull = False"
| "truthy (JBool b) = b"
| "truthy (JNum n) = (n \<noteq> 0)"
| "truthy (JStr s) = (s \<noteq> [])"
| "truthy (JTime t) = True"
| "truthy (JDate t) = True"
| "truthy (JArr vs) = True"
| "truthy (JRef a) = True"

text \<open>\<open>v === undefined || v === null\<close>.\<close>

definition nullish :: "jsval \<Rightarrow> bool" where
  "nullish v \<longleftrightarrow> v = JUndef \<or> v = JNull"

definition obj_props :: "heap \<Rightarrow> jsval \<Rightarrow> props" where
  "obj_props h v = (case v of JRef a \<Rightarrow> if a < length h then h ! a else [] | _ \<Rightarrow> [])"

text \<open>\<open>v.k\<close>: a missing property reads as \<open>undefined\<close>.\<close>

definition get_prop :: "heap \<Rightarrow> jsval \<Rightarrow> string \<Rightarrow> jsval" where
  "get_prop h v k = (case map_of (obj_props h v) k of Some x \<Rightarrow> x | None \<Rightarrow> JUndef)"

text \<open>\<open>v.k1.k2...\<close>\<close>

definition get_path :: "heap \<Rightarrow> jsval \<Rightarrow> string list \<Rightarrow> jsval" where
  "get_path h v ks = fold (\<lambda>k v. get_prop h v k) ks v"

text \<open>A property write on an object the code has just created.\<close>

definition put :: "heap \<Rightarrow> jsval \<Rightarrow> string \<Rightarrow> jsval \<Rightarrow> heap" where
  "put h v k x = (case v of JRef a \<Rightarrow> h[a := AList.update k x (h ! a)] | _ \<Rightarrow> h)"

text \<open>\<open>v.k = x\<close> in strict mode.\<close>

definition set_prop :: "heap \<Rightarrow> jsval \<Rightarrow> string \<Rightarrow> jsval \<Rightarrow> heap js" where
  "set_prop h v k x =
     (case v of
        JRef a \<Rightarrow> if a < length h then Inr (put h v k x) else Inl ''TypeError''
      | JUndef \<Rightarrow> Inl ''TypeError: Cannot set properties of undefined''
      | JNull \<Rightarrow> Inl ''TypeError: Cannot set properties of null''
      | _ \<Rightarrow> Inl ''TypeError: Cannot create property on primitive'')"

text \<open>\<open>{}\<close> and object literals: a new object at the next address.\<close>

definition alloc :: "heap \<Rightarrow> props \<Rightarrow> jsval \<times> heap" where
  "alloc h p = (JRef (length h), h @ [p])"

text \<open>
  \<open>for (var property in source)\<close> as \<open>OpenLayers.Util.extend\<close> runs it: the properties
  of a truthy source whose value is not \<open>undefined\<close>, in order.
\<close>

definition enum_props :: "heap \<Rightarrow> jsval \<Rightarrow> props" where
  "enum_props h src = (if truthy src then filter (\<lambda>(k, x). x \<noteq> JUndef) (obj_props h src) else [])"

text \<open>\<open>OpenLayers.Util.extend(destination, source)\<close>: copies those properties.\<close>

definition extend :: "heap \<Rightarrow> jsval \<Rightarrow> jsval \<Rightarrow> heap" where
  "extend h dst src = fold (\<lambda>(k, x) h. put h dst k x) (enum_props h src) h"

section \<open>Cloning\<close>

definition cloneWmsAnimationConfig :: "heap \<Rightarrow> jsval \<Rightarrow> jsval \<Rightarrow> jsval \<times> heap" where
  "cloneWmsAnimationConfig h config time =
     (if truthy config \<and> truthy (get_prop h config ''wms'') then
        (let (clone, h1) = alloc h [];
             h2 = extend h1 clone config;
             (cw, h3) = alloc h2 [];
             h4 = put h3 clone ''wms'' cw;
             h5 = extend h4 cw (get_prop h4 config ''wms'');
             h6 = (if truthy (get_path h5 config [''wms'', ''params'']) \<or> \<not> nullish time then
                     (let (p, h6a) = alloc h5 [];
                          h6b = put h6a cw ''params'' p;
                          h6c = extend h6b p (get_path h6b config [''wms'', ''params''])
                      in put h6c p ''time'' time)
                   else h5);
             h7 = (if truthy (get_path h6 config [''wms'', ''options'']) then
                     (let (opts, h7a) = alloc h6 [];
                          h7b = put h7a cw ''options'' opts;
                          h7c = extend h7b opts (get_path h7b config [''wms'', ''options''])
                      in if truthy (get_path h7c config [''wms'', ''options'', ''animation'']) then
                           (let (an, h7d) = alloc h7c [];
                                h7e = put h7d opts ''animation'' an
                            in extend h7e an (get_path h7e config [''wms'', ''options'', ''animation'']))
                         else h7c)
                   else h6)
         in (clone, h7))
      else (JUndef, h))"

definition cloneWmtsAnimationConfig :: "heap \<Rightarrow> jsval \<Rightarrow> jsval \<Rightarrow> jsval \<times> heap" where
  "cloneWmtsAnimationConfig h config time =
     (if truthy config \<and> truthy (get_prop h config ''wmts'') then
        (let (clone, h1) = alloc h [];
             h2 = extend h1 clone config;
             (cw, h3) = alloc h2 [];
             h4 = put h3 clone ''wmts'' cw;
             h5 = extend h4 cw (get_prop h4 config ''wmts'');
             h6 = (if truthy (get_path h5 config [''wmts'', ''params'']) \<or> \<not> nullish time then
                     (let (p, h6a) = alloc h5 [];
                          h6b = put h6a cw ''params'' p;
                          h6c = extend h6b p (get_path h6b config [''wmts'', ''params''])
                      in put h6c p ''time'' time)
                   else h5);
             h7 = (if truthy (get_path h6 config [''wmts'', ''animation'']) then
                     (let (an, h7a) = alloc h6 [];
                          h7b = put h7a cw ''animation'' an
                      in extend h7b an (get_path h7b config [''wmts'', ''animation'']))
                   else h6)
         in (clone, h7))
      else (JUndef, h))"

definition cloneAnimationConfig :: "heap \<Rightarrow> jsval \<Rightarrow> jsval \<Rightarrow> jsval \<times> heap" where
  "cloneAnimationConfig h config time =
     (if truthy config then
        (if truthy (get_prop h config ''wmts'') then cloneWmtsAnimationConfig h config time
         else if truthy (get_prop h config ''wms'') then cloneWmsAnimationConfig h config time
         else (JUndef, h))
      else (JUndef, h))"


section \<open>Reading a configuration\<close>

text \<open>
  \<open>getTimeFromConfig\<close>: the WMTS parameters first, then the WMS parameters; the
  lower-case \<open>time\<close>, then \<open>TIME\<close>.
\<close>

definition time_of_params :: "heap \<Rightarrow> jsval \<Rightarrow> jsval" where
  "time_of_params h params =
     (if \<not> nullish (get_prop h params ''time'') then get_prop h params ''time''
      else if \<not> nullish (get_prop h params ''TIME'') then get_prop h params ''TIME''
      else JUndef)"

definition getTimeFromConfig :: "heap \<Rightarrow> jsval \<Rightarrow> jsval" where
  "getTimeFromConfig h config =
     (if truthy config then
        (if truthy (get_prop h config ''wmts'') \<and> truthy (get_path h config [''wmts'', ''params''])
         then time_of_params h (get_path h config [''wmts'', ''params''])
         else if truthy (get_prop h config ''wms'') \<and> truthy (get_path h config [''wms'', ''params''])
         then time_of_params h (get_path h config [''wms'', ''params''])
         else JUndef)
      else JUndef)"

definition getAnimation :: "heap \<Rightarrow> jsval \<Rightarrow> jsval" where
  "getAnimation h config =
     (if truthy config then
        (if truthy (get_prop h config ''wmts'') \<and> truthy (get_path h config [''wmts'', ''animation''])
         then get_path h config [''wmts'', ''animation'']
         else if truthy (get_prop h config ''wms'') \<and> truthy (get_path h config [''wms'', ''options''])
                 \<and> truthy (get_path h config [''wms'', ''options'', ''animation''])
         then get_path h config [''wms'', ''options'', ''animation'']
         else JUndef)
      else JUndef)"

definition getAnimationName :: "heap \<Rightarrow> jsval \<Rightarrow> jsval" where
  "getAnimationName h config =
     (let animation = getAnimation h config in
      if truthy animation then get_prop h animation ''name'' else JUndef)"

definition getAnimationHasLegend :: "heap \<Rightarrow> jsval \<Rightarrow> jsval" where
  "getAnimationHasLegend h config =
     (let animation = getAnimation h config in
      if truthy animation then get_prop h animation ''hasLegend'' else JUndef)"

definition getLayer :: "heap \<Rightarrow> jsval \<Rightarrow> jsval" where
  "getLayer h config =
     (if truthy config then
        (if truthy (get_prop h config ''wmts'') \<and> truthy (get_path h config [''wmts'', ''layer''])
         then get_path h config [''wmts'', ''layer'']
         else if truthy (get_prop h config ''wms'') \<and> truthy (get_path h config [''wms'', ''params''])
                 \<and> truthy (get_path h config [''wms'', ''params'', ''layers''])
         then get_path h config [''wms'', ''params'', ''layers'']
         else JUndef)
      else JUndef)"

definition getLayerName :: "heap \<Rightarrow> jsval \<Rightarrow> jsval" where
  "getLayerName h config =
     (if truthy config then
        (if truthy (get_prop h config ''wmts'') \<and> truthy (get_path h config [''wmts'', ''name''])
         then get_path h config [''wmts'', ''name'']
         else if truthy (get_prop h config ''wms'') \<and> truthy (get_prop h config ''name'')
         then get_prop h config ''name''
         else JUndef)
      else JUndef)"

section \<open>Updating a configuration in place\<close>

text \<open>
  \<open>setAnimationHasLegend\<close>. In the WMS branch the animation object is only created
  together with a missing \<open>options\<close> object; the final write goes through
  \<open>config.wms.options.animation\<close> whatever it is.
\<close>

definition setAnimationHasLegend :: "heap \<Rightarrow> jsval \<Rightarrow> jsval \<Rightarrow> heap js" where
  "setAnimationHasLegend h config hasLegend =
     (if truthy config then
        (if truthy (get_prop h config ''wmts'') then
           js_bind
             (if \<not> truthy (get_path h config [''wmts'', ''animation'']) then
                (let (an, h1) = alloc h [] in set_prop h1 (get_prop h1 config ''wmts'') ''animation'' an)
              else Inr h)
             (\<lambda>h2. set_prop h2 (get_path h2 config [''wmts'', ''animation'']) ''hasLegend'' hasLegend)
         else if truthy (get_prop h config ''wms'') then
           js_bind
             (if \<not> truthy (get_path h config [''wms'', ''options'']) then
                (let (opts, h1) = alloc h [] in
                 js_bind (set_prop h1 (get_prop h1 config ''wms'') ''options'' opts)
                   (\<lambda>h2. if \<not> truthy (get_path h2 config [''wms'', ''options'', ''animation'']) then
                           (let (an, h3) = alloc h2 [] in
                            set_prop h3 (get_path h3 config [''wms'', ''options'']) ''animation'' an)
                         else Inr h2))
              else Inr h)
             (\<lambda>h4. set_prop h4 (get_path h4 config [''wms'', ''options'', ''animation'']) ''hasLegend'' hasLegend)
         else Inr h)
      else Inr h)"

definition setLayer :: "heap \<Rightarrow> jsval \<Rightarrow> jsval \<Rightarrow> heap js" where
  "setLayer h config layer =
     (if truthy config \<and> truthy layer then
        js_bind
          (if truthy (get_prop h config ''wmts'') then set_prop h (get_prop h config ''wmts'') ''layer'' layer
           else Inr h)
          (\<lambda>h1. if truthy (get_prop h1 config ''wms'') then
                  js_bind
                    (if \<not> truthy (get_path h1 config [''wms'', ''params'']) then
                       (let (p, h2) = alloc h1 [] in set_prop h2 (get_prop h2 config ''wms'') ''params'' p)
                     else Inr h1)
                    (\<lambda>h3. set_prop h3 (get_path h3 config [''wms'', ''params'']) ''layers'' layer)
                else Inr h1)
      else Inr h)"

definition setLayerName :: "heap \<Rightarrow> jsval \<Rightarrow> jsval \<Rightarrow> heap js" where
  "setLayerName h config name =
     (if truthy config \<and> truthy name then
        (if truthy (get_prop h config ''wmts'') then set_prop h (get_prop h config ''wmts'') ''name'' name
         else if truthy (get_prop h config ''wms'') then set_prop h config ''name'' name
         else Inr h)
      else Inr h)"

definition setFrameStyleClass :: "heap \<Rightarrow> jsval \<Rightarrow> jsval \<Rightarrow> heap js" where
  "setFrameStyleClass h config styleClassName =
     (if truthy config \<and> truthy styleClassName then
        js_bind
          (if truthy (get_prop h config ''wmts'') \<and> \<not> truthy (get_path h config [''wmts'', ''className''])
           then set_prop h (get_prop h config ''wmts'') ''className'' styleClassName
           else Inr h)
          (\<lambda>h1. if truthy (get_prop h1 config ''wms'') then
                  js_bind
                    (if \<not> truthy (get_path h1 config [''wms'', ''options'']) then
                       (let (opts, h2) = alloc h1 [] in set_prop h2 (get_prop h2 config ''wms'') ''options'' opts)
                     else Inr h1)
                    (\<lambda>h3. if \<not> truthy (get_path h3 config [''wms'', ''options'', ''className''])
                          then set_prop h3 (get_path h3 config [''wms'', ''options'']) ''className'' styleClassName
                          else Inr h3)
                else Inr h1)
      else Inr h)"

text \<open>\<open>setGridBuffer\<close>, called with a number (\<open>None\<close>: \<open>undefined\<close> or \<open>null\<close>).\<close>

definition setGridBuffer :: "heap \<Rightarrow> jsval \<Rightarrow> int option \<Rightarrow> heap js" where
  "setGridBuffer h config buffer =
     (case buffer of
        Some b \<Rightarrow>
          if truthy config \<and> 0 \<le> b then
            js_bind
              (if truthy (get_prop h config ''wmts'') \<and> nullish (get_path h config [''wmts'', ''buffer''])
               then set_prop h (get_prop h config ''wmts'') ''buffer'' (JNum b)
               else Inr h)
              (\<lambda>h1. if truthy (get_prop h1 config ''wms'') then
                      js_bind
                        (if \<not> truthy (get_path h1 config [''wms'', ''options'']) then
                           (let (opts, h2) = alloc h1 [] in set_prop h2 (get_prop h2 config ''wms'') ''options'' opts)
                         else Inr h1)
                        (\<lambda>h3. if nullish (get_path h3 config [''wms'', ''options'', ''buffer''])
                              then set_prop h3 (get_path h3 config [''wms'', ''options'']) ''buffer'' (JNum b)
                              else Inr h3)
                    else Inr h1)
          else Inr h
      | None \<Rightarrow> Inr h)"


section \<open>Per-period layer information of the container\<close>

text \<open>
  \<open>isNaN(v)\<close> and \<open>v instanceof Date\<close> for the values a period may give as its begin
  and end. A string is a number when it is digits only (the empty string is 0).
\<close>

fun js_isNaN :: "jsval \<Rightarrow> bool" where
  "js_isNaN JUndef = True"
| "js_isNaN JNull = False"
| "js_isNaN (JBool b) = False"
| "js_isNaN (JNum n) = False"
| "js_isNaN (JStr s) = (\<not> list_all (\<lambda>c. c \<in> set ''0123456789'') s)"
| "js_isNaN (JTime t) = True"
| "js_isNaN (JDate t) = False"
| "js_isNaN (JArr vs) = True"
| "js_isNaN (JRef a) = True"

fun is_date :: "jsval \<Rightarrow> bool" where
  "is_date (JDate t) = True"
| "is_date _ = False"

text \<open>
  \<open>(v instanceof Date ? v : new Date(v)).getTime()\<close>, \<open>None\<close> for an invalid date
  (\<open>NaN\<close>, which compares false). Strings other than ISO time strings are taken as
  invalid dates.
\<close>

fun date_time :: "jsval \<Rightarrow> int option" where
  "date_time (JDate t) = Some t"
| "date_time (JNum n) = Some n"
| "date_time (JBool b) = Some (if b then 1 else 0)"
| "date_time JNull = Some 0"
| "date_time (JTime t) = Some t"
| "date_time _ = None"

definition js_le :: "int option \<Rightarrow> int option \<Rightarrow> bool" where
  "js_le a b = (case (a, b) of (Some x, Some y) \<Rightarrow> x \<le> y | _ \<Rightarrow> False)"

text \<open>The loop of \<open>getLayerInfo\<close> over \<open>animation.layers\<close>, left at the first match.\<close>

fun layer_info_scan :: "heap \<Rightarrow> int \<Rightarrow> jsval list \<Rightarrow> (jsval \<times> jsval \<times> jsval) option" where
  "layer_info_scan h t [] = None"
| "layer_info_scan h t (info # infos) =
     (let beginTime = get_prop h info ''beginTime''; endTime = get_prop h info ''endTime'' in
      if truthy info \<and> \<not> nullish beginTime \<and> (is_date beginTime \<or> \<not> js_isNaN beginTime)
         \<and> (nullish endTime \<or> is_date endTime \<or> \<not> js_isNaN endTime)
         \<and> js_le (date_time beginTime) (Some t)
         \<and> (nullish endTime \<or> js_le (Some t) (date_time endTime))
      then Some (get_prop h info ''layer'', get_prop h info ''name'', get_prop h info ''hasLegend'')
      else layer_info_scan h t infos)"

definition getLayerInfo :: "heap \<Rightarrow> jsval \<Rightarrow> jsval \<Rightarrow> (jsval \<times> jsval \<times> jsval) option" where
  "getLayerInfo h config time =
     (case time of
        JDate t \<Rightarrow>
          (let animation = getAnimation h config in
           if truthy animation \<and> truthy (get_prop h animation ''layers'') then
             (case get_prop h animation ''layers'' of JArr infos \<Rightarrow> layer_info_scan h t infos | _ \<Rightarrow> None)
           else None)
      | _ \<Rightarrow> None)"

definition getLayerIdName :: "heap \<Rightarrow> jsval \<Rightarrow> jsval \<Rightarrow> jsval \<Rightarrow> jsval" where
  "getLayerIdName h config time defaultIdName =
     (case getLayerInfo h config time of
        Some (layer, _, _) \<Rightarrow> if truthy layer then layer else defaultIdName
      | None \<Rightarrow> defaultIdName)"

definition lc_getLayerName :: "heap \<Rightarrow> jsval \<Rightarrow> jsval \<Rightarrow> jsval \<Rightarrow> jsval" where
  "lc_getLayerName h config time defaultName =
     (case getLayerInfo h config time of
        Some (_, name, _) \<Rightarrow> if name \<noteq> JUndef then name else defaultName
      | None \<Rightarrow> defaultName)"

definition getLayerHasLegend :: "heap \<Rightarrow> jsval \<Rightarrow> jsval \<Rightarrow> jsval \<Rightarrow> jsval" where
  "getLayerHasLegend h config time defaultHasLegend =
     (case getLayerInfo h config time of
        Some (_, _, hasLegend) \<Rightarrow> if hasLegend \<noteq> JUndef then hasLegend else defaultHasLegend
      | None \<Rightarrow> defaultHasLegend)"

section \<open>The configuration of one frame\<close>

definition defaultGridBuffer :: int where
  "defaultGridBuffer = 1"

text \<open>
  The body of \<open>loadAnimation\<close>'s loop for the frame time \<open>t\<close>: clone the container's
  configuration with the time string, set the grid buffer default, then the layer id,
  layer name and legend flag of the period \<open>t\<close> falls in (or the clone's own).
\<close>

definition frame_config_for :: "heap \<Rightarrow> jsval \<Rightarrow> int \<Rightarrow> (jsval \<times> heap) js" where
  "frame_config_for h config t =
     (let (clone, h1) = cloneAnimationConfig h config (JTime t) in
      js_bind (setGridBuffer h1 clone (Some defaultGridBuffer)) (\<lambda>h2.
      js_bind (setLayer h2 clone (getLayerIdName h2 config (JDate t) (getLayer h2 clone))) (\<lambda>h3.
      js_bind (setLayerName h3 clone (lc_getLayerName h3 config (JDate t) (getAnimationName h3 clone))) (\<lambda>h4.
      js_bind (setAnimationHasLegend h4 clone
                 (getLayerHasLegend h4 config (JDate t) (getAnimationHasLegend h4 clone))) (\<lambda>h5.
      Inr (clone, h5))))))"

section \<open>The configuration wrappers of the WMS and WMTS layers\<close>

text \<open>\<open>if (v === undefined || v === null) { v = d; }\<close> on a property.\<close>

definition set_default :: "heap \<Rightarrow> jsval \<Rightarrow> string \<Rightarrow> jsval \<Rightarrow> heap js" where
  "set_default h obj k d = (if nullish (get_prop h obj k) then set_prop h obj k d else Inr h)"

text \<open>
  \<open>Wms.setConfig(url, params, options)\<close> up to the call of \<open>doSetConfig\<close>: the wrapper
  \<open>{url, wms : {params, options : options || {}}}\<close> with the defaults set on the
  caller's \<open>params\<close> and \<open>options\<close> objects.
\<close>

definition wms_setConfig :: "heap \<Rightarrow> jsval \<Rightarrow> jsval \<Rightarrow> jsval \<Rightarrow> (jsval \<times> heap) js" where
  "wms_setConfig h url params options =
     (if \<not> truthy url \<or> \<not> truthy params \<or> \<not> truthy (get_prop h params ''layers'')
      then Inl ''ERROR: Configuration error!''
      else
        (let (wrapper, h1) = alloc h [];
             (wms, h2) = alloc h1 [];
             (opts, h3) = (if truthy options then (options, h2) else alloc h2 []);
             h4 = put h3 wms ''params'' params;
             h5 = put h4 wms ''options'' opts;
             h6 = put h5 wrapper ''url'' url;
             h7 = put h6 wrapper ''wms'' wms
         in js_bind (set_default h7 params ''transparent'' (JBool True)) (\<lambda>h8.
            js_bind (set_default h8 params ''format'' (JStr ''image/png'')) (\<lambda>h9.
            js_bind (set_default h9 opts ''singleTile'' (JBool False)) (\<lambda>h10.
            js_bind (set_default h10 opts ''displayInLayerSwitcher'' (JBool False)) (\<lambda>h11.
            js_bind (set_default h11 opts ''isBaseLayer'' (JBool False)) (\<lambda>h12.
            Inr (wrapper, h12))))))))"

text \<open>
  \<open>Wmts.setConfig(config)\<close> up to the call of \<open>doSetConfig\<close>: the wrapper
  \<open>{wmts : config}\<close> with the defaults set on the caller's object.
\<close>

definition wmts_setConfig :: "heap \<Rightarrow> jsval \<Rightarrow> (jsval \<times> heap) js" where
  "wmts_setConfig h config =
     (if \<not> truthy config \<or> \<not> truthy (get_prop h config ''url'') \<or> \<not> truthy (get_prop h config ''layer'')
         \<or> \<not> truthy (get_prop h config ''matrixSet'') \<or> nullish (get_prop h config ''style'')
      then Inl ''ERROR: Configuration error!''
      else
        (let (wrapper, h1) = alloc h [];
             h2 = put h1 wrapper ''wmts'' config
         in js_bind (set_default h2 config ''format'' (JStr ''image/png'')) (\<lambda>h3.
            js_bind (set_default h3 config ''displayInLayerSwitcher'' (JBool False)) (\<lambda>h4.
            js_bind (set_default h4 config ''isBaseLayer'' (JBool False)) (\<lambda>h5.
            Inr (wrapper, h5))))))"


section \<open>Invariants of the store\<close>

text \<open>Every object of the store has distinct property names.\<close>

definition heap_wf :: "heap \<Rightarrow> bool" where
  "heap_wf h \<longleftrightarrow> (\<forall>p \<in> set h. distinct (map fst p))"

text \<open>The store is closed: every reference it holds names one of its objects.\<close>

fun refs_below :: "nat \<Rightarrow> jsval \<Rightarrow> bool" where
  "refs_below n (JRef a) = (a < n)"
| "refs_below n (JArr vs) = (\<forall>v \<in> set vs. refs_below n v)"
| "refs_below n _ = True"

definition heap_closed :: "heap \<Rightarrow> bool" where
  "heap_closed h \<longleftrightarrow> (\<forall>p \<in> set h. \<forall>(k, v) \<in> set p. refs_below (length h) v)"

text \<open>A property of a property list, \<open>undefined\<close> when missing.\<close>

definition lookup :: "props \<Rightarrow> string \<Rightarrow> jsval" where
  "lookup p k = (case map_of p k of Some x \<Rightarrow> x | None \<Rightarrow> JUndef)"

text \<open>
  The state of a frame configuration of a WMS layer whose configuration has no
  \<open>options.animation\<close> object, once \<open>setGridBuffer\<close> has made sure of \<open>options\<close>:
  a WMS part with parameters and options, no WMTS part, and no animation object.
\<close>

definition noanim_clone :: "heap \<Rightarrow> jsval \<Rightarrow> bool" where
  "noanim_clone H c \<longleftrightarrow>
     \<not> truthy (get_prop H c ''wmts'') \<and> truthy (get_prop H c ''wms'')
     \<and> (\<exists>b. get_path H c [''wms'', ''params''] = JRef b \<and> b < length H)
     \<and> truthy (get_path H c [''wms'', ''options''])
     \<and> \<not> truthy (get_path H c [''wms'', ''options'', ''animation''])"

text \<open>
  Example stores: a configuration with both a WMTS and a WMS part whose animation
  names the layer \<open>P\<close> from time 100 on, and the WMS parameters \<open>{layers : "L"}\<close> a
  caller gives \<open>Wms.setConfig\<close>.
\<close>

definition ex_both_store :: heap where
  "ex_both_store =
     [[(''wmts'', JRef 1), (''wms'', JRef 2)],
      [(''layer'', JStr ''T''), (''animation'', JRef 4)],
      [(''params'', JRef 3)],
      [(''layers'', JStr ''L'')],
      [(''layers'', JArr [JRef 5])],
      [(''beginTime'', JNum 100), (''layer'', JStr ''P'')]]"

definition ex_wms_store :: heap where
  "ex_wms_store = [[(''layers'', JStr ''L'')]]"

section \<open>Reading and writing the store\<close>

lemma length_put[simp]: "length (put h v k x) = length h"
  by (simp add: put_def split: jsval.split)

lemma length_extend[simp]: "length (extend h dst src) = length h"
proof -
  have "\<And>ps h. length (fold (\<lambda>(k, x) h. put h dst k x) ps h) = length h"
    subgoal for ps h by (induction ps arbitrary: h) auto
    done
  then show ?thesis by (simp add: extend_def)
qed

lemma obj_props_put:
  "obj_props (put h d k x) v =
     (if v = d \<and> (\<exists>a. d = JRef a \<and> a < length h) then AList.update k x (obj_props h v) else obj_props h v)"
  by (auto simp: put_def obj_props_def split: jsval.split)

lemma get_prop_put[simp]:
  "get_prop (put h d k x) v k' =
     (if v = d \<and> (\<exists>a. d = JRef a \<and> a < length h) \<and> k' = k then x else get_prop h v k')"
  by (auto simp: get_prop_def obj_props_put update_conv')

lemma obj_props_alloc:
  "obj_props (h @ [p]) v = (if v = JRef (length h) then p else obj_props h v)"
  by (auto simp: obj_props_def nth_append split: jsval.split)

lemma get_prop_append[simp]:
  "get_prop (h @ [p]) v k =
     (if v = JRef (length h) then (case map_of p k of Some x \<Rightarrow> x | None \<Rightarrow> JUndef) else get_prop h v k)"
  by (simp add: get_prop_def obj_props_alloc)

lemma get_prop_extend_other[simp]:
  "v \<noteq> dst \<Longrightarrow> get_prop (extend h dst src) v k = get_prop h v k"
proof -
  assume ne: "v \<noteq> dst"
  have "\<And>ps h. get_prop (fold (\<lambda>(k, x) h. put h dst k x) ps h) v k = get_prop h v k"
    subgoal for ps h using ne by (induction ps arbitrary: h) auto
    done
  then show ?thesis by (simp add: extend_def)
qed

lemma get_prop_nonobj[simp]:
  "get_prop h JUndef k = JUndef" "get_prop h JNull k = JUndef" "get_prop h (JBool b) k = JUndef"
  "get_prop h (JNum n) k = JUndef" "get_prop h (JStr s) k = JUndef" "get_prop h (JTime t) k = JUndef"
  "get_prop h (JDate t) k = JUndef" "get_prop h (JArr vs) k = JUndef"
  by (simp_all add: get_prop_def obj_props_def)

lemma get_path_simps[simp]:
  "get_path h v [] = v" "get_path h v (k # ks) = get_path h (get_prop h v k) ks"
  by (simp_all add: get_path_def)

lemma set_prop_Inr:
  "set_prop h v k x = Inr h' \<longleftrightarrow> (\<exists>a. v = JRef a \<and> a < length h) \<and> h' = put h v k x"
  by (auto simp: set_prop_def split: jsval.split)

lemma js_bind_Inr:
  "js_bind r f = Inr y \<longleftrightarrow> (\<exists>x. r = Inr x \<and> f x = Inr y)"
  by (simp add: js_bind_def split: sum.split)

lemma js_bind_simps[simp]:
  "js_bind (Inl e) f = Inl e" "js_bind (Inr a) f = f a"
  by (simp_all add: js_bind_def)

lemma get_prop_obj: "get_prop h v k \<noteq> JUndef \<Longrightarrow> \<exists>a. v = JRef a \<and> a < length h"
  by (auto simp: get_prop_def obj_props_def split: jsval.splits if_splits)

lemma truthy_get_prop_obj: "truthy (get_prop h v k) \<Longrightarrow> \<exists>a. v = JRef a \<and> a < length h"
  using get_prop_obj[of h v k] by (metis truthy.simps(1))

section \<open>Round trips of the accessors\<close>

text \<open>
  C23: \<open>getLayer\<close> reads back the layer id \<open>setLayer\<close> wrote, for every configuration with a
  WMS or WMTS part, whatever objects its parts share.
\<close>

lemma getLayer_setLayer:
  "setLayer h c l = Inr h' \<Longrightarrow> truthy l \<Longrightarrow> truthy (get_prop h c ''wmts'') \<or> truthy (get_prop h c ''wms'') \<Longrightarrow>
   getLayer h' c = l"
  by (frule disjE[OF _ truthy_get_prop_obj truthy_get_prop_obj])
     (auto simp: setLayer_def getLayer_def js_bind_Inr set_prop_Inr alloc_def Let_def split: if_splits)

text \<open>
  C24: \<open>getLayerName\<close> reads back the name \<open>setLayerName\<close> wrote, for every configuration
  with a WMS or WMTS part.
\<close>

lemma getLayerName_setLayerName:
  "setLayerName h c n = Inr h' \<Longrightarrow> truthy n \<Longrightarrow> truthy (get_prop h c ''wmts'') \<or> truthy (get_prop h c ''wms'') \<Longrightarrow>
   getLayerName h' c = n"
  by (frule disjE[OF _ truthy_get_prop_obj truthy_get_prop_obj])
     (auto simp: setLayerName_def getLayerName_def set_prop_Inr split: if_splits)

text \<open>
  C25: When \<open>setAnimationHasLegend\<close> returns, \<open>getAnimationHasLegend\<close> reads back the value
  it wrote.
\<close>

lemma getAnimationHasLegend_set:
  "setAnimationHasLegend h c x = Inr h' \<Longrightarrow> truthy (get_prop h c ''wmts'') \<or> truthy (get_prop h c ''wms'') \<Longrightarrow>
   getAnimationHasLegend h' c = x"
  by (frule disjE[OF _ truthy_get_prop_obj truthy_get_prop_obj])
     (auto simp: setAnimationHasLegend_def getAnimationHasLegend_def getAnimation_def js_bind_Inr set_prop_Inr
        alloc_def Let_def split: if_splits)

section \<open>Fresh objects and the closed form of a clone\<close>

lemma heap_wf_put[simp]: "heap_wf h \<Longrightarrow> heap_wf (put h v k x)"
proof (cases v)
  case (JRef a)
  assume wf: "heap_wf h"
  show ?thesis
  proof (cases "a < length h")
    case True
    then have "distinct (map fst (AList.update k x (h ! a)))"
      using wf by (simp add: heap_wf_def distinct_update)
    then show ?thesis
      using wf JRef by (auto simp: heap_wf_def put_def dest!: set_update_subset_insert[THEN subsetD])
  qed (use wf JRef in \<open>simp add: put_def list_update_beyond\<close>)
qed (simp_all add: put_def)

lemma heap_wf_extend[simp]: "heap_wf h \<Longrightarrow> heap_wf (extend h dst src)"
proof -
  assume wf: "heap_wf h"
  have "\<And>ps h. heap_wf h \<Longrightarrow> heap_wf (fold (\<lambda>(k, x) h. put h dst k x) ps h)"
    subgoal for ps h by (induction ps arbitrary: h) auto
    done
  with wf show ?thesis by (simp add: extend_def)
qed

lemma fold_update_Nil:
  "distinct (map fst ps) \<Longrightarrow> fold (\<lambda>(k, x) al. AList.update k x al) ps [] = ps"
proof (induction ps rule: rev_induct)
  case (snoc kx ps)
  obtain k x where kx: "kx = (k, x)" by fastforce
  have "k \<notin> set (map fst ps)" using snoc.prems by (simp add: kx)
  then have "AList.update k x ps = ps @ [(k, x)]"
    by (induction ps) auto
  with snoc show ?case by (simp add: kx)
qed simp

lemma fold_put_fresh:
  "a < length h \<Longrightarrow>
   fold (\<lambda>(k, x) h. put h (JRef a) k x) ps h = h[a := fold (\<lambda>(k, x) al. AList.update k x al) ps (h ! a)]"
  by (induction ps arbitrary: h) (auto simp: put_def)

lemma extend_fresh:
  assumes "heap_wf h" "a < length h" "h ! a = []" "src \<noteq> JRef a"
  shows "extend h (JRef a) src = h[a := enum_props h src]"
proof -
  have "distinct (map fst (obj_props h src))"
    using assms(1) by (auto simp: heap_wf_def obj_props_def split: jsval.split)
  then have "distinct (map fst (enum_props h src))"
    by (simp add: distinct_map_filter enum_props_def)
  then show ?thesis
    using assms by (simp add: extend_def fold_put_fresh fold_update_Nil list_update_id[of h a, simplified assms])
qed

lemma get_prop_closed:
  "heap_closed h \<Longrightarrow> refs_below (length h) (get_prop h v k)"
  by (auto simp: heap_closed_def get_prop_def obj_props_def split: option.split jsval.split
      dest!: map_of_SomeD)

lemma get_prop_not_fresh[simp]:
  "heap_closed h \<Longrightarrow> length h \<le> b \<Longrightarrow> get_prop h v k \<noteq> JRef b"
  using get_prop_closed[of h v k] by auto

lemma get_prop_list_update[simp]:
  "get_prop (h[a := p]) v k =
     (if v = JRef a \<and> a < length h then (case map_of p k of Some x \<Rightarrow> x | None \<Rightarrow> JUndef) else get_prop h v k)"
  by (auto simp: get_prop_def obj_props_def split: jsval.split)

lemma lookup_simps[simp]:
  "lookup [] k = JUndef" "lookup ((k', x) # p) k = (if k = k' then x else lookup p k)"
  by (simp_all add: lookup_def)

lemma lookup_update[simp]: "lookup (AList.update k x p) k' = (if k' = k then x else lookup p k')"
  by (simp add: lookup_def update_conv')

lemma get_prop_suffix[simp]:
  "get_prop (h @ ys) (JRef b) k =
     (if length h \<le> b \<and> b < length h + length ys then lookup (ys ! (b - length h)) k
      else get_prop h (JRef b) k)"
  by (auto simp: get_prop_def obj_props_def nth_append lookup_def)

lemma get_prop_suffix_closed[simp]:
  "heap_closed h \<Longrightarrow> get_prop (h @ ys) (get_prop h v k) k' = get_prop h (get_prop h v k) k'"
proof -
  assume "heap_closed h"
  then have "refs_below (length h) (get_prop h v k)" by (rule get_prop_closed)
  then show ?thesis by (cases "get_prop h v k") (auto simp: get_prop_def obj_props_def nth_append)
qed

lemma put_suffix[simp]:
  "length h \<le> b \<Longrightarrow> b < length h + length ys \<Longrightarrow>
   put (h @ ys) (JRef b) k x = h @ ys[b - length h := AList.update k x (ys ! (b - length h))]"
  by (simp add: put_def list_update_append nth_append)

lemma extend_suffix:
  assumes "heap_wf (h @ ys)" "length h \<le> b" "b < length h + length ys" "ys ! (b - length h) = []" "src \<noteq> JRef b"
  shows "extend (h @ ys) (JRef b) src =
           h @ ys[b - length h := enum_props (h @ ys) src]"
  using assms by (simp add: extend_fresh nth_append list_update_append)

lemma obj_props_append_old[simp]:
  "refs_below (length h) v \<Longrightarrow> obj_props (h @ ys) v = obj_props h v"
  by (auto simp: obj_props_def nth_append split: jsval.split)

lemma heap_wf_append_list[simp]: "heap_wf (h @ ys) \<longleftrightarrow> heap_wf h \<and> (\<forall>p \<in> set ys. distinct (map fst p))"
  by (auto simp: heap_wf_def)

lemma obj_props_suffix_closed[simp]:
  "heap_closed h \<Longrightarrow> obj_props (h @ ys) (get_prop h v k) = obj_props h (get_prop h v k)"
  by (rule obj_props_append_old) (rule get_prop_closed)

lemma enum_props_append_old[simp]:
  "refs_below (length h) v \<Longrightarrow> enum_props (h @ ys) v = enum_props h v"
  by (simp add: enum_props_def)

lemma enum_props_suffix_closed[simp]:
  "heap_closed h \<Longrightarrow> enum_props (h @ ys) (get_prop h v k) = enum_props h (get_prop h v k)"
  by (rule enum_props_append_old) (rule get_prop_closed)

lemma distinct_obj_props[simp]: "heap_wf h \<Longrightarrow> distinct (map fst (obj_props h v))"
  by (auto simp: heap_wf_def obj_props_def split: jsval.split)

lemma distinct_enum_props[simp]: "heap_wf h \<Longrightarrow> distinct (map fst (enum_props h v))"
  by (simp add: enum_props_def distinct_map_filter)

lemmas heap_shape_simps = distinct_update distinct_map_filter extend_suffix nth_append

lemma clone_wmts_closed:
  assumes "heap_wf h" "heap_closed h" "c = JRef a" "a < length h" "truthy (get_prop h c ''wmts'')"
    "\<not> nullish time"
  shows "cloneWmtsAnimationConfig h c time =
    (let n = length h; W = get_prop h c ''wmts''; A = get_prop h W ''animation'';
         cw = AList.update ''params'' (JRef (Suc (Suc n))) (enum_props h W)
     in (JRef n,
         h @ [AList.update ''wmts'' (JRef (Suc n)) (enum_props h c),
              (if truthy A then AList.update ''animation'' (JRef (Suc (Suc (Suc n)))) cw else cw),
              AList.update ''time'' time (enum_props h (get_prop h W ''params''))]
           @ (if truthy A then [enum_props h A] else [])))"
  using assms unfolding cloneWmtsAnimationConfig_def Let_def alloc_def
  by (simp only: prod.case split_conv) (simp add: heap_shape_simps)

lemma clone_time_wmts:
  assumes "heap_wf h" "heap_closed h" "truthy (get_prop h c ''wmts'')"
  shows "getTimeFromConfig (snd (cloneWmtsAnimationConfig h c (JTime t))) (fst (cloneWmtsAnimationConfig h c (JTime t))) = JTime t"
proof -
  obtain a where c: "c = JRef a" "a < length h" using truthy_get_prop_obj[OF assms(3)] by blast
  show ?thesis
    using assms c by (simp add: clone_wmts_closed nullish_def Let_def getTimeFromConfig_def time_of_params_def)
qed

lemma clone_wms_closed:
  assumes "heap_wf h" "heap_closed h" "c = JRef a" "a < length h" "truthy (get_prop h c ''wms'')"
    "\<not> nullish time"
  shows "cloneWmsAnimationConfig h c time =
    (let n = length h; W = get_prop h c ''wms''; Opt = get_prop h W ''options''; A = get_prop h Opt ''animation'';
         cw = AList.update ''params'' (JRef (Suc (Suc n))) (enum_props h W)
     in (JRef n,
         h @ [AList.update ''wms'' (JRef (Suc n)) (enum_props h c),
              (if truthy Opt then AList.update ''options'' (JRef (Suc (Suc (Suc n)))) cw else cw),
              AList.update ''time'' time (enum_props h (get_prop h W ''params''))]
           @ (if truthy Opt then
                [if truthy A then AList.update ''animation'' (JRef (Suc (Suc (Suc (Suc n))))) (enum_props h Opt)
                 else enum_props h Opt] @ (if truthy A then [enum_props h A] else [])
              else [])))"
  using assms unfolding cloneWmsAnimationConfig_def Let_def alloc_def
  by (simp only: prod.case split_conv) (simp add: heap_shape_simps)

lemma lookup_notin: "k \<notin> fst ` set ps \<Longrightarrow> lookup ps k = JUndef"
  by (simp add: lookup_def map_of_eq_None_iff[THEN iffD2])

lemma lookup_filter_undef:
  "distinct (map fst ps) \<Longrightarrow> lookup (filter (\<lambda>(k, x). x \<noteq> JUndef) ps) k = lookup ps k"
proof (induction ps)
  case (Cons kx ps)
  obtain k' x where kx: "kx = (k', x)" by fastforce
  show ?case
    using Cons lookup_notin[of k ps] by (auto simp: kx)
qed simp

lemma lookup_enum_props[simp]:
  "heap_wf h \<Longrightarrow> lookup (enum_props h v) k = (if truthy v then get_prop h v k else JUndef)"
  by (simp add: enum_props_def lookup_filter_undef) (simp add: get_prop_def lookup_def)

lemma clone_time_wms:
  assumes "heap_wf h" "heap_closed h" "truthy (get_prop h c ''wms'')" "\<not> truthy (get_prop h c ''wmts'')"
  shows "getTimeFromConfig (snd (cloneWmsAnimationConfig h c (JTime t))) (fst (cloneWmsAnimationConfig h c (JTime t))) = JTime t"
proof -
  obtain a where c: "c = JRef a" "a < length h" using truthy_get_prop_obj[OF assms(3)] by blast
  show ?thesis
    using assms c by (simp add: clone_wms_closed nullish_def Let_def getTimeFromConfig_def time_of_params_def)
qed

text \<open>
  C22: A cloned configuration of a WMS or WMTS layer reads back the frame time it was
  cloned with: \<open>getTimeFromConfig(cloneAnimationConfig(config, time)) = time\<close>.
\<close>

lemma clone_time:
  assumes "heap_wf h" "heap_closed h" "truthy (get_prop h c ''wmts'') \<or> truthy (get_prop h c ''wms'')"
  shows "getTimeFromConfig (snd (cloneAnimationConfig h c (JTime t))) (fst (cloneAnimationConfig h c (JTime t))) = JTime t"
proof (cases "truthy (get_prop h c ''wmts'')")
  case True
  then have "truthy c" using truthy_get_prop_obj by fastforce
  then show ?thesis using True assms(1,2) by (simp add: cloneAnimationConfig_def clone_time_wmts)
next
  case False
  then have "truthy c" using assms(3) truthy_get_prop_obj by fastforce
  then show ?thesis using False assms by (simp add: cloneAnimationConfig_def clone_time_wms)
qed

section \<open>A WMS configuration without animation options\<close>

lemma set_prop_falsy: "\<not> truthy v \<Longrightarrow> \<exists>e. set_prop H v k x = Inl e"
  by (cases v) (auto simp: set_prop_def)

lemma noanim_obj: "noanim_clone H c \<Longrightarrow> \<exists>a. c = JRef a \<and> a < length H"
  unfolding noanim_clone_def using truthy_get_prop_obj by blast

lemma noanim_hasLegend:
  assumes "noanim_clone H c"
  shows "\<exists>e. setAnimationHasLegend H c x = Inl e"
proof -
  obtain a where "c = JRef a" using noanim_obj[OF assms] by blast
  have f: "\<not> truthy (get_prop H c ''wmts'')" "truthy (get_prop H c ''wms'')"
    "truthy (get_path H c [''wms'', ''options''])"
    using assms by (simp_all add: noanim_clone_def)
  have "truthy c" using \<open>c = JRef a\<close> by simp
  have "setAnimationHasLegend H c x = set_prop H (get_path H c [''wms'', ''options'', ''animation'']) ''hasLegend'' x"
    unfolding setAnimationHasLegend_def using f \<open>truthy c\<close> by (simp only: if_True if_False get_path_simps js_bind_simps simp_thms)
  then show ?thesis
    using assms set_prop_falsy by (simp add: noanim_clone_def)
qed

lemma get_prop_put_other: "k' \<noteq> k \<Longrightarrow> get_prop (put H d k x) v k' = get_prop H v k'"
  by simp

lemma noanim_put:
  assumes "k \<notin> {''wmts'', ''wms'', ''params'', ''options'', ''animation''}"
  shows "noanim_clone (put H d k x) c = noanim_clone H c"
proof -
  have "''wmts'' \<noteq> k" "''wms'' \<noteq> k" "''params'' \<noteq> k" "''options'' \<noteq> k" "''animation'' \<noteq> k"
    using assms by auto
  then show ?thesis
    unfolding noanim_clone_def by (simp only: get_path_simps get_prop_put_other length_put simp_thms)
qed

lemma set_prop_ref: "b < length H \<Longrightarrow> set_prop H (JRef b) k x = Inr (put H (JRef b) k x)"
  by (simp add: set_prop_def)

lemma noanim_facts:
  assumes "noanim_clone H c"
  obtains a b where "c = JRef a" "a < length H" "\<not> truthy (get_prop H c ''wmts'')" "truthy (get_prop H c ''wms'')"
    "get_path H c [''wms'', ''params''] = JRef b" "b < length H"
    "truthy (get_path H c [''wms'', ''options''])"
  using assms noanim_obj[OF assms] unfolding noanim_clone_def by blast

lemma noanim_setLayer:
  assumes "noanim_clone H c"
  shows "\<exists>H'. setLayer H c l = Inr H' \<and> noanim_clone H' c"
proof -
  obtain a b where f: "c = JRef a" "a < length H" "\<not> truthy (get_prop H c ''wmts'')" "truthy (get_prop H c ''wms'')"
    "get_path H c [''wms'', ''params''] = JRef b" "b < length H"
    "truthy (get_path H c [''wms'', ''options''])"
    using noanim_facts[OF assms] by blast
  have t: "truthy c" "truthy (get_prop H (get_prop H c ''wms'') ''params'')" using f by simp_all
  have "setLayer H c l = (if truthy l then Inr (put H (JRef b) ''layers'' l) else Inr H)"
    unfolding setLayer_def using f t
    by (simp only: if_True if_False get_path_simps js_bind_simps simp_thms set_prop_ref)
  then show ?thesis using assms by (simp add: noanim_put)
qed

lemma noanim_setLayerName:
  assumes "noanim_clone H c"
  shows "\<exists>H'. setLayerName H c n = Inr H' \<and> noanim_clone H' c"
proof -
  obtain a b where f: "c = JRef a" "a < length H" "\<not> truthy (get_prop H c ''wmts'')" "truthy (get_prop H c ''wms'')"
    using noanim_facts[OF assms] by blast
  have "setLayerName H c n = (if truthy n then Inr (put H c ''name'' n) else Inr H)"
    unfolding setLayerName_def using f
    by (simp only: if_True if_False simp_thms set_prop_ref truthy.simps)
  then show ?thesis using assms by (simp add: noanim_put)
qed

lemma wms_clone_noanim:
  assumes "heap_wf h" "heap_closed h" "c = JRef a" "a < length h" "truthy (get_prop h c ''wms'')"
    "\<not> truthy (get_prop h c ''wmts'')" "\<not> truthy (getAnimation h c)"
  shows "\<exists>H2. setGridBuffer (snd (cloneWmsAnimationConfig h c (JTime t))) (JRef (length h)) (Some 1) = Inr H2
              \<and> noanim_clone H2 (JRef (length h))"
  using assms
  by (simp add: clone_wms_closed Let_def setGridBuffer_def getAnimation_def noanim_clone_def alloc_def
      set_prop_def nullish_def cong: if_cong split: if_split_asm)

text \<open>
  C20: For a WMS configuration (no WMTS part) without an \<open>options.animation\<close> object,
  building the configuration of a frame in \<open>loadAnimation\<close> always throws: once
  \<open>setGridBuffer\<close> has created \<open>options\<close>, \<open>setAnimationHasLegend\<close> no longer creates the
  animation object and writes \<open>hasLegend\<close> through \<open>undefined\<close>.
\<close>

theorem wms_frame_config_throws:
  assumes "heap_wf h" "heap_closed h" "truthy (get_prop h c ''wms'')" "\<not> truthy (get_prop h c ''wmts'')"
    "\<not> truthy (getAnimation h c)"
  shows "\<exists>e. frame_config_for h c t = Inl e"
proof -
  obtain a where a: "c = JRef a" "a < length h" using truthy_get_prop_obj[OF assms(3)] by blast
  let ?n = "JRef (length h)"
  obtain H1 where cl: "cloneAnimationConfig h c (JTime t) = (?n, H1)"
    "H1 = snd (cloneWmsAnimationConfig h c (JTime t))"
    using assms a by (simp add: cloneAnimationConfig_def clone_wms_closed Let_def nullish_def)
  obtain H2 where H2: "setGridBuffer H1 ?n (Some defaultGridBuffer) = Inr H2" "noanim_clone H2 ?n"
    using wms_clone_noanim[OF assms(1,2) a assms(3-5), of t] cl(2) by (auto simp: defaultGridBuffer_def)
  obtain H3 where H3: "setLayer H2 ?n (getLayerIdName H2 c (JDate t) (getLayer H2 ?n)) = Inr H3"
    "noanim_clone H3 ?n"
    using noanim_setLayer[OF H2(2)] by blast
  obtain H4 where H4: "setLayerName H3 ?n (lc_getLayerName H3 c (JDate t) (getAnimationName H3 ?n)) = Inr H4"
    "noanim_clone H4 ?n"
    using noanim_setLayerName[OF H3(2)] by blast
  obtain e where "setAnimationHasLegend H4 ?n (getLayerHasLegend H4 c (JDate t) (getAnimationHasLegend H4 ?n)) = Inl e"
    using noanim_hasLegend[OF H4(2)] by blast
  then show ?thesis
    by (simp add: frame_config_for_def cl(1) H2(1) H3(1) H4(1))
qed

section \<open>Configurations with both parts\<close>


theorem wms_frame_config_throws_witness:
  "(\<exists>w h'. wms_setConfig ex_wms_store (JStr ''url'') (JRef 0) JUndef = Inr (w, h')
      \<and> (\<exists>e. frame_config_for h' w 0 = Inl e))"
proof -
  have s: "wms_setConfig ex_wms_store (JStr ''url'') (JRef 0) JUndef =
       Inr (JRef 1, [[(''layers'', JStr ''L''), (''transparent'', JBool True), (''format'', JStr ''image/png'')],
                     [(''url'', JStr ''url''), (''wms'', JRef 2)],
                     [(''params'', JRef 0), (''options'', JRef 3)],
                     [(''singleTile'', JBool False), (''displayInLayerSwitcher'', JBool False), (''isBaseLayer'', JBool False)]])"
    by code_simp
  show ?thesis
    using wms_frame_config_throws[of "[[(''layers'', JStr ''L''), (''transparent'', JBool True), (''format'', JStr ''image/png'')],
                     [(''url'', JStr ''url''), (''wms'', JRef 2)],
                     [(''params'', JRef 0), (''options'', JRef 3)],
                     [(''singleTile'', JBool False), (''displayInLayerSwitcher'', JBool False), (''isBaseLayer'', JBool False)]]"
        "JRef 1" 0]
    by (simp add: s heap_wf_def heap_closed_def get_prop_def obj_props_def getAnimation_def)
qed

theorem clone_time_witness:
  "heap_wf ex_both_store \<and> heap_closed ex_both_store
   \<and> getTimeFromConfig (snd (cloneAnimationConfig ex_both_store (JRef 0) (JTime 5)))
        (fst (cloneAnimationConfig ex_both_store (JRef 0) (JTime 5))) = JTime 5"
proof -
  have h: "heap_wf ex_both_store" "heap_closed ex_both_store"
    "truthy (get_prop ex_both_store (JRef 0) ''wmts'')" by code_simp+
  show ?thesis using h clone_time[OF h(1,2), of "JRef 0" 5] by blast
qed

theorem getLayer_setLayer_witness:
  "getLayer (projr (setLayer ex_both_store (JRef 0) (JStr ''X''))) (JRef 0) = JStr ''X''"
proof -
  have s: "setLayer ex_both_store (JRef 0) (JStr ''X'') = Inr (projr (setLayer ex_both_store (JRef 0) (JStr ''X'')))"
    by code_simp
  have t: "truthy (JStr ''X'')" "truthy (get_prop ex_both_store (JRef 0) ''wmts'')" by code_simp+
  show ?thesis using getLayer_setLayer[OF s t(1)] t(2) by blast
qed

theorem getLayerName_setLayerName_witness:
  "getLayerName (projr (setLayerName ex_both_store (JRef 0) (JStr ''X''))) (JRef 0) = JStr ''X''"
proof -
  have s: "setLayerName ex_both_store (JRef 0) (JStr ''X'') = Inr (projr (setLayerName ex_both_store (JRef 0) (JStr ''X'')))"
    by code_simp
  have t: "truthy (JStr ''X'')" "truthy (get_prop ex_both_store (JRef 0) ''wmts'')" by code_simp+
  show ?thesis using getLayerName_setLayerName[OF s t(1)] t(2) by blast
qed

theorem getAnimationHasLegend_set_witness:
  "getAnimationHasLegend (projr (setAnimationHasLegend ex_both_store (JRef 0) (JBool True))) (JRef 0) = JBool True"
proof -
  have s: "setAnimationHasLegend ex_both_store (JRef 0) (JBool True)
           = Inr (projr (setAnimationHasLegend ex_both_store (JRef 0) (JBool True)))"
    by code_simp
  have t: "truthy (get_prop ex_both_store (JRef 0) ''wmts'')" by code_simp
  show ?thesis using getAnimationHasLegend_set[OF s] t by blast
qed

end
