(* ===== verification/Frame.thy ===== *)
theory Frame
  imports Config
begin

text \<open>
  One animation frame: \<open>OpenLayers.Layer.Animation.LayerObject\<close>
  (\<open>src/src/addins/lib/OpenLayers/Layer/Animation/internal/LayerObject.js\<close>).
  The object keeps its configuration, the OpenLayers layer it creates on first load
  (\<open>_layer\<close>) and a load state (\<open>_state.id\<close>, \<open>_state.error\<close>). The OpenLayers
  layer is modelled by the attributes the frame reads and writes: whether it has
  been added to the map, its visibility, its opacity, its z-index and the style of the
  tile images in its \<open>div\<close>. The three layer events the frame
  listens to (\<open>loadstart\<close>, \<open>loadend\<close>, \<open>tileerror\<close>) are operations of their own;
  the callbacks they forward to the container are modelled in the container theory.
\<close>

section \<open>Data\<close>

text \<open>\<open>_STATE_PRE_LOADING\<close>, \<open>_STATE_LOADING\<close>, \<open>_STATE_READY\<close>; \<open>undefined\<close> is \<open>None\<close>.\<close>

datatype load_state = PreLoading | Loading | Ready

text \<open>
  The four transition properties of an \<open>olTileImage\<close> element's style, the ones
  \<open>setCssTransition\<close> writes.
\<close>

record tile_style =
  ts_WebkitTransition :: string
  ts_MozTransition :: string
  ts_OTransition :: string
  ts_transition :: string

text \<open>
  The OpenLayers layer: \<open>map\<close> set, \<open>getVisibility()\<close>, \<open>opacity\<close>, the value
  \<open>getZIndex()\<close> returns (what \<open>setZIndex\<close> stored in the div's style) and the
  \<open>olTileImage\<close> elements of \<open>div\<close> (\<open>None\<close> when the layer has no div).
  OpenLayers creates and replaces the tiles while it loads; that is not modelled.
\<close>

record ol_layer =
  ol_in_map :: bool
  ol_visibility :: bool
  ol_opacity :: real
  ol_zIndex :: jsval
  ol_div :: "tile_style list option"

text \<open>
  The part of the frame configuration the frame itself reads: the frame time
  (\<open>getTimeFromConfig\<close>, in epoch milliseconds) and the layer that
  \<open>new OpenLayers.Layer.WMTS(config.wmts)\<close> or \<open>new OpenLayers.Layer.WMS(\<dots>)\<close>
  constructs (\<open>None\<close> when the configuration has no such part).
\<close>

record frame_config =
  cfg_time :: int
  cfg_wmts :: "ol_layer option"
  cfg_wms :: "ol_layer option"

record frame =
  f_config :: frame_config
  f_layer :: "ol_layer option"
  f_state :: "load_state option"
  f_error :: "string option"

definition new_frame :: "frame_config \<Rightarrow> frame" where
  "new_frame c = \<lparr>f_config = c, f_layer = None, f_state = None, f_error = None\<rparr>"

section \<open>Operations\<close>

definition resetState :: "frame \<Rightarrow> frame" where
  "resetState f = f\<lparr>f_state := None, f_error := None\<rparr>"

text \<open>WMTS configuration is the first choice, then WMS.\<close>

definition createLayer :: "frame_config \<Rightarrow> ol_layer option" where
  "createLayer c = (case cfg_wmts c of Some l \<Rightarrow> Some l | None \<Rightarrow> cfg_wms c)"

definition frame_setVisibility :: "bool \<Rightarrow> frame \<Rightarrow> frame" where
  "frame_setVisibility v f =
     (case f_layer f of
        None \<Rightarrow> f
      | Some l \<Rightarrow> (if \<not> v then resetState f else f)\<lparr>f_layer := Some (l\<lparr>ol_visibility := v\<rparr>)\<rparr>)"

text \<open>
  \<open>loadLayer\<close>: create the layer on first use, add it to the map if it is not there
  (state \<open>PreLoading\<close>), and make it visible if it is hidden (state \<open>PreLoading\<close>).
\<close>

definition loadLayer :: "frame \<Rightarrow> frame" where
  "loadLayer f =
     (let f1 = (if f_layer f = None then f\<lparr>f_layer := createLayer (f_config f)\<rparr> else f) in
      case f_layer f1 of
        None \<Rightarrow> f1
      | Some l \<Rightarrow>
          (let f2 = (if \<not> ol_in_map l
                     then f1\<lparr>f_state := Some PreLoading, f_layer := Some (l\<lparr>ol_in_map := True\<rparr>)\<rparr>
                     else f1)
           in if \<not> ol_visibility l
              then frame_setVisibility True (f2\<lparr>f_state := Some PreLoading\<rparr>)
              else f2))"

definition releaseContent :: "frame \<Rightarrow> frame" where
  "releaseContent f = resetState (f\<lparr>f_layer := None\<rparr>)"

definition frame_getVisibility :: "frame \<Rightarrow> bool option" where
  "frame_getVisibility f = map_option ol_visibility (f_layer f)"

definition frame_getOpacity :: "frame \<Rightarrow> real option" where
  "frame_getOpacity f = map_option ol_opacity (f_layer f)"

definition frame_setOpacity :: "real \<Rightarrow> frame \<Rightarrow> frame" where
  "frame_setOpacity v f =
     (case f_layer f of None \<Rightarrow> f | Some l \<Rightarrow> f\<lparr>f_layer := Some (l\<lparr>ol_opacity := v\<rparr>)\<rparr>)"

definition frame_getZIndex :: "frame \<Rightarrow> jsval" where
  "frame_getZIndex f = (case f_layer f of None \<Rightarrow> JUndef | Some l \<Rightarrow> ol_zIndex l)"

definition frame_setZIndex :: "jsval \<Rightarrow> frame \<Rightarrow> frame" where
  "frame_setZIndex index f =
     (case f_layer f of
        None \<Rightarrow> f
      | Some l \<Rightarrow>
          (if \<not> nullish index \<and> \<not> js_isNaN index
           then f\<lparr>f_layer := Some (l\<lparr>ol_zIndex := index\<rparr>)\<rparr> else f))"

text \<open>One tile of the loop in \<open>setCssTransition\<close>: the four vendor properties.\<close>

definition set_tile_transition :: "string \<Rightarrow> tile_style \<Rightarrow> tile_style" where
  "set_tile_transition v t =
     t\<lparr>ts_WebkitTransition := v, ts_MozTransition := v, ts_OTransition := v, ts_transition := v\<rparr>"

text \<open>\<open>undefined\<close> and \<open>null\<close> (\<open>None\<close>) become the empty string.\<close>

definition setCssTransition :: "string option \<Rightarrow> frame \<Rightarrow> frame" where
  "setCssTransition value f =
     (case f_layer f of
        None \<Rightarrow> f
      | Some l \<Rightarrow>
          (let v = (case value of None \<Rightarrow> [] | Some s \<Rightarrow> s) in
           case ol_div l of
             None \<Rightarrow> f
           | Some tiles \<Rightarrow> f\<lparr>f_layer := Some (l\<lparr>ol_div := Some (map (set_tile_transition v) tiles)\<rparr>)\<rparr>))"

subsection \<open>Layer events\<close>

definition frame_loadstart :: "frame \<Rightarrow> frame" where
  "frame_loadstart f = (resetState f)\<lparr>f_state := Some Loading\<rparr>"

text \<open>
  \<open>loadend\<close> is ignored when the content was released while loading; the boolean
  says whether the container's \<open>layerLoadEndCallback\<close> is called.
\<close>

definition frame_loadend :: "frame \<Rightarrow> frame \<times> bool" where
  "frame_loadend f = (if f_state f \<noteq> None then (f\<lparr>f_state := Some Ready\<rparr>, True) else (f, False))"

definition frame_tileerror :: "string \<Rightarrow> frame \<Rightarrow> frame" where
  "frame_tileerror e f = f\<lparr>f_error := Some e\<rparr>"

subsection \<open>Queries\<close>

definition isDefaultState :: "frame \<Rightarrow> bool" where
  "isDefaultState f \<longleftrightarrow> f_state f = None \<and> f_error f = None"

definition isLoading :: "frame \<Rightarrow> bool" where
  "isLoading f \<longleftrightarrow> f_state f = Some Loading \<or> f_state f = Some PreLoading"

definition isLoaded :: "frame \<Rightarrow> bool" where
  "isLoaded f \<longleftrightarrow> f_state f = Some Ready"

section \<open>The frame as a state machine\<close>

text \<open>
  Every way the frame changes: the public methods that write (load, release, visibility,
  opacity, z-index, CSS transition) and the events of the OpenLayers layer. OpenLayers starts a load
  (\<open>loadstart\<close>) only for a layer that is in the map and visible; \<open>loadend\<close> and
  \<open>tileerror\<close> may arrive at any time, also for requests started before a release.
\<close>

inductive frame_step :: "frame \<Rightarrow> frame \<Rightarrow> bool" where
  load: "frame_step f (loadLayer f)"
| release: "frame_step f (releaseContent f)"
| visibility: "frame_step f (frame_setVisibility v f)"
| opacity: "frame_step f (frame_setOpacity x f)"
| zindex: "frame_step f (frame_setZIndex i f)"
| css: "frame_step f (setCssTransition v f)"
| loadstart: "f_layer f = Some l \<Longrightarrow> ol_in_map l \<Longrightarrow> ol_visibility l \<Longrightarrow> frame_step f (frame_loadstart f)"
| loadend: "frame_step f (fst (frame_loadend f))"
| tileerror: "frame_step f (frame_tileerror e f)"

inductive_cases frame_step_cases: "frame_step f f'"

text \<open>A frame whose load has been requested has its layer in the map and visible.\<close>

definition layer_shown :: "frame \<Rightarrow> bool" where
  "layer_shown f = (case f_layer f of None \<Rightarrow> False | Some l \<Rightarrow> ol_in_map l \<and> ol_visibility l)"

definition frame_inv :: "frame \<Rightarrow> bool" where
  "frame_inv f \<longleftrightarrow> (f_state f \<noteq> None \<longrightarrow> layer_shown f)"

definition layer_to_load :: "frame \<Rightarrow> ol_layer option" where
  "layer_to_load f = (case f_layer f of None \<Rightarrow> createLayer (f_config f) | Some l \<Rightarrow> Some l)"

subsection \<open>The public interface\<close>

text \<open>
  The public methods of \<open>LayerObject\<close>, declared on the class and assigned at the end
  of \<open>initialize\<close>, as one interface: a call and the frame after it with the value
  returned (\<open>undefined\<close> is \<open>None\<close>, \<open>JUndef\<close> or \<open>FRNone\<close>). \<open>getLegendInfo\<close>
  reads the configuration objects and is \<open>Legend.lo_getLegendInfo\<close>.
\<close>

datatype frame_call =
    FLoadLayer | FReleaseContent | FGetLayer | FGetConfig | FGetVisibility
  | FSetVisibility bool | FGetZIndex | FSetZIndex jsval | FGetOpacity | FSetOpacity real
  | FSetCssTransition "string option" | FIsDefaultState | FIsLoading | FIsLoaded | FGetError

datatype frame_result =
    FRNone | FRLayer "ol_layer option" | FRConfig frame_config | FRBool "bool option"
  | FRValue jsval | FROpacity "real option" | FRError "string option"

definition frame_api :: "frame_call \<Rightarrow> frame \<Rightarrow> frame \<times> frame_result" where
  "frame_api c f =
     (case c of
        FLoadLayer \<Rightarrow> (loadLayer f, FRNone)
      | FReleaseContent \<Rightarrow> (releaseContent f, FRNone)
      | FGetLayer \<Rightarrow> (f, FRLayer (f_layer f))
      | FGetConfig \<Rightarrow> (f, FRConfig (f_config f))
      | FGetVisibility \<Rightarrow> (f, FRBool (frame_getVisibility f))
      | FSetVisibility v \<Rightarrow> (frame_setVisibility v f, FRNone)
      | FGetZIndex \<Rightarrow> (f, FRValue (frame_getZIndex f))
      | FSetZIndex i \<Rightarrow> (frame_setZIndex i f, FRNone)
      | FGetOpacity \<Rightarrow> (f, FROpacity (frame_getOpacity f))
      | FSetOpacity x \<Rightarrow> (frame_setOpacity x f, FRNone)
      | FSetCssTransition v \<Rightarrow> (setCssTransition v f, FRNone)
      | FIsDefaultState \<Rightarrow> (f, FRBool (Some (isDefaultState f)))
      | FIsLoading \<Rightarrow> (f, FRBool (Some (isLoading f)))
      | FIsLoaded \<Rightarrow> (f, FRBool (Some (isLoaded f)))
      | FGetError \<Rightarrow> (f, FRError (f_error f)))"

subsection \<open>Example frames\<close>

text \<open>
  Concrete frames used by the witness theorems: a WMS frame every second, and the same
  frame after its load completed.
\<close>

definition ex_layer :: ol_layer where
  "ex_layer = \<lparr>ol_in_map = False, ol_visibility = True, ol_opacity = 1, ol_zIndex = JStr [],
                ol_div = Some []\<rparr>"

definition ex_frames :: "nat \<Rightarrow> frame list" where
  "ex_frames n =
     map (\<lambda>i. new_frame \<lparr>cfg_time = int i * 1000, cfg_wmts = None, cfg_wms = Some ex_layer\<rparr>) [0..<n]"

definition ex_ready :: "frame \<Rightarrow> frame" where
  "ex_ready f = f\<lparr>f_layer := Some (ex_layer\<lparr>ol_in_map := True\<rparr>), f_state := Some Ready\<rparr>"

fun ex_mark_ready :: "nat list \<Rightarrow> frame list \<Rightarrow> frame list" where
  "ex_mark_ready [] fs = fs"
| "ex_mark_ready (i # is) fs = ex_mark_ready is (fs[i := ex_ready (fs ! i)])"

lemmas frame_op_defs = loadLayer_def releaseContent_def frame_setVisibility_def frame_setOpacity_def
  frame_loadstart_def frame_loadend_def frame_tileerror_def resetState_def createLayer_def
  frame_setZIndex_def setCssTransition_def

lemmas frame_query_defs [frame_query_simps] = isDefaultState_def isLoading_def isLoaded_def

section \<open>Properties\<close>

subsection \<open>The frame invariant\<close>

lemma frame_inv_new [simp]: "frame_inv (new_frame c)"
  by (simp add: frame_inv_def new_frame_def)

lemma frame_inv_loadLayer: "frame_inv f \<Longrightarrow> frame_inv (loadLayer f)"
  by (auto simp: frame_inv_def layer_shown_def frame_op_defs Let_def split: option.splits)

subsection \<open>Loading\<close>

lemma loadLayer_no_layer: "layer_to_load f = None \<Longrightarrow> loadLayer f = f"
  by (auto simp: layer_to_load_def frame_op_defs Let_def split: option.splits)

lemma loadLayer_idem: "loadLayer (loadLayer f) = loadLayer f"
  by (auto simp: frame_op_defs Let_def split: option.splits)

lemma loadLayer_keeps_config [simp]: "f_config (loadLayer f) = f_config f"
  by (auto simp: frame_op_defs Let_def split: option.splits)

lemma loadLayer_keeps_error [simp]: "f_error (loadLayer f) = f_error f"
  by (auto simp: frame_op_defs Let_def split: option.splits)

lemma loadLayer_shown_unchanged: "layer_shown f \<Longrightarrow> loadLayer f = f"
  by (auto simp: layer_shown_def frame_op_defs Let_def split: option.splits)

section \<open>Properties of the frame\<close>

text \<open>
  C29: every operation and every layer event keeps the frame invariant: a frame in a
  load state (pre-loading, loading, ready) has its OpenLayers layer in the map and visible.
\<close>

theorem frame_step_preserves_inv:
  "frame_step f f' \<Longrightarrow> frame_inv f \<Longrightarrow> frame_inv f'"
proof (induction rule: frame_step.induct)
  case (load f)
  then show ?case by (rule frame_inv_loadLayer)
qed (auto simp: frame_inv_def layer_shown_def frame_op_defs split: option.splits)

theorem frame_step_preserves_inv_witness:
  "frame_inv (loadLayer (new_frame \<lparr>cfg_time = 0, cfg_wmts = None, cfg_wms = Some ex_layer\<rparr>))"
  by (rule frame_step_preserves_inv [OF frame_step.load frame_inv_new])

text \<open>
  C30: \<open>loadLayer\<close> on a frame whose layer exists or can be created, and is not both in the
  map and visible, requests the load: the frame becomes pre-loading with its layer shown,
  its error untouched. When the configuration gives no layer, \<open>loadLayer\<close> does nothing.
\<close>

theorem loadLayer_requests_load:
  "layer_to_load f = Some l \<Longrightarrow> \<not> (ol_in_map l \<and> ol_visibility l) \<Longrightarrow>
   f_state (loadLayer f) = Some PreLoading \<and> layer_shown (loadLayer f) \<and> f_error (loadLayer f) = f_error f"
  by (auto simp: layer_to_load_def layer_shown_def frame_op_defs Let_def split: option.splits)

theorem loadLayer_requests_load_witness:
  "f_state (loadLayer (hd (ex_frames 1))) = Some PreLoading \<and> layer_shown (loadLayer (hd (ex_frames 1)))"
proof -
  have a: "layer_to_load (hd (ex_frames 1)) = Some ex_layer" by code_simp
  have b: "\<not> (ol_in_map ex_layer \<and> ol_visibility ex_layer)" by code_simp
  from loadLayer_requests_load [OF a b] show ?thesis by simp
qed

text \<open>
  C31: a frame becomes ready only after its load was requested: no step takes a frame
  from the unloaded state straight to ready (a \<open>loadend\<close> for a released frame is
  ignored).
\<close>

theorem frame_ready_only_after_request:
  "frame_step f f' \<Longrightarrow> f_state f' = Some Ready \<Longrightarrow> f_state f \<noteq> None"
  by (induction rule: frame_step.induct)
     (auto simp: frame_op_defs Let_def split: option.splits if_splits)

theorem frame_ready_only_after_request_witness:
  "f_state (fst (frame_loadend (loadLayer (hd (ex_frames 1))))) = Some Ready
   \<and> f_state (loadLayer (hd (ex_frames 1))) \<noteq> None"
proof -
  have r: "f_state (fst (frame_loadend (loadLayer (hd (ex_frames 1))))) = Some Ready" by code_simp
  from frame_ready_only_after_request [OF frame_step.loadend r] r show ?thesis by simp
qed

text \<open>
  C35: a ready frame leaves the ready state only to loading or to the unloaded state.
  Reaching loading from ready is possible: OpenLayers reloads the shown frame after a
  pan or zoom (\<open>loadstart\<close> on a ready frame), a transition the specification's linear
  life cycle Unloaded, PreLoading, Loading, Ready does not have.
\<close>

theorem frame_ready_exits:
  "frame_step f f' \<Longrightarrow> f_state f = Some Ready \<Longrightarrow> frame_inv f \<Longrightarrow>
   f_state f' \<in> {Some Ready, Some Loading, None}"
  by (induction rule: frame_step.induct)
     (auto simp: frame_inv_def layer_shown_def frame_op_defs Let_def split: option.splits if_splits)

theorem frame_ready_exits_witness:
  "f_state (frame_loadstart (ex_ready (hd (ex_frames 1)))) = Some Loading"
proof -
  let ?f = "ex_ready (hd (ex_frames 1))"
  have inv: "frame_inv ?f" and rd: "f_state ?f = Some Ready" by code_simp+
  have st: "frame_step ?f (frame_loadstart ?f)"
    by (rule frame_step.loadstart [of _ "ex_layer\<lparr>ol_in_map := True\<rparr>"]) code_simp+
  from frame_ready_exits [OF st rd inv]
  have "f_state (frame_loadstart ?f) \<in> {Some Ready, Some Loading, None}" .
  moreover have "f_state (frame_loadstart ?f) = Some Loading" by code_simp
  ultimately show ?thesis by simp
qed

subsection \<open>The remaining public methods\<close>


text \<open>
  C33: \<open>setCssTransition v\<close> on a frame whose layer has a div sets the four transition
  properties of every tile image to \<open>v\<close> (the empty string for \<open>undefined\<close> or
  \<open>null\<close>), keeps the number of tiles, and changes nothing else of the frame or its layer.
\<close>

theorem setCssTransition_sets_all_tiles:
  assumes "f_layer f = Some l" and "ol_div l = Some ts"
  shows "let w = (case v of None \<Rightarrow> [] | Some s \<Rightarrow> s) in
         \<exists>ts'. setCssTransition v f = f\<lparr>f_layer := Some (l\<lparr>ol_div := Some ts'\<rparr>)\<rparr> \<and> length ts' = length ts
           \<and> (\<forall>t \<in> set ts'. ts_WebkitTransition t = w \<and> ts_MozTransition t = w
                            \<and> ts_OTransition t = w \<and> ts_transition t = w)"
  using assms unfolding Let_def
  by (intro exI [of _ "map (set_tile_transition (case v of None \<Rightarrow> [] | Some s \<Rightarrow> s)) ts"])
     (auto simp: setCssTransition_def set_tile_transition_def)

theorem setCssTransition_sets_all_tiles_witness:
  "let f = (hd (ex_frames 1))\<lparr>f_layer := Some (ex_layer\<lparr>ol_div := Some [\<lparr>ts_WebkitTransition = [],
             ts_MozTransition = [], ts_OTransition = [], ts_transition = []\<rparr>]\<rparr>)\<rparr> in
   \<exists>ts'. setCssTransition (Some ''opacity 1s'') f = f\<lparr>f_layer := Some (ex_layer\<lparr>ol_div := Some ts'\<rparr>)\<rparr>
     \<and> length ts' = 1 \<and> (\<forall>t \<in> set ts'. ts_transition t = ''opacity 1s'')"
  using setCssTransition_sets_all_tiles [of "(hd (ex_frames 1))\<lparr>f_layer := Some (ex_layer\<lparr>ol_div := Some [\<lparr>ts_WebkitTransition = [],
             ts_MozTransition = [], ts_OTransition = [], ts_transition = []\<rparr>]\<rparr>)\<rparr>"
      "ex_layer\<lparr>ol_div := Some [\<lparr>ts_WebkitTransition = [], ts_MozTransition = [], ts_OTransition = [],
             ts_transition = []\<rparr>]\<rparr>" "[\<lparr>ts_WebkitTransition = [], ts_MozTransition = [], ts_OTransition = [],
             ts_transition = []\<rparr>]" "Some ''opacity 1s''"]
  by (auto simp: Let_def)



end
