(* ===== verification/Scheduler.thy ===== *)
theory Scheduler
  imports Frame
begin

text \<open>
  The load scheduler of \<open>LayerContainer.js\<close>: the load steps \<open>_loadStep\<close> and
  \<open>_groupLoadStep\<close>, \<open>resetLoadStep\<close>, \<open>nextLayerLoad\<close> (which frames to load next,
  coarse-to-fine, within the asynchronous load budget) and the group accounting of
  \<open>layerLoadEndCallback\<close> with \<open>groupLoadStepCheck\<close>. The functions take the
  container fields they read (\<open>_layers\<close>, the steps, \<open>_maxAsyncLoadCount\<close>) as
  arguments and return the fields they write; the container theory threads them.
\<close>

section \<open>Definitions\<close>

subsection \<open>resetLoadStep\<close>

text \<open>
  \<open>_loadStep = 1; while (_loadStep * 2 < _layers.length) _loadStep *= 2;\<close>
  The loop variable is always a power of two; the function carries its exponent.
\<close>

function grow_load_step :: "nat \<Rightarrow> nat \<Rightarrow> nat" where
  "grow_load_step n p = (if 2 ^ p * 2 < n then grow_load_step n (Suc p) else 2 ^ p)"
  by pat_completeness auto
termination
proof (relation "measure (\<lambda>(n, p). n - 2 ^ p)")
  fix n p :: nat
  assume "2 ^ p * 2 < n"
  moreover have "(0::nat) < 2 ^ p" by simp
  ultimately have "n - 2 * 2 ^ p < n - 2 ^ p" by arith
  then show "((n, Suc p), n, p) \<in> measure (\<lambda>(n, p). n - 2 ^ p)" by simp
qed simp

declare grow_load_step.simps [simp del]

text \<open>The new \<open>(_loadStep, _groupLoadStep)\<close>.\<close>

definition resetLoadStep :: "frame list \<Rightarrow> nat \<times> nat" where
  "resetLoadStep fs = (let s = grow_load_step (length fs) 0 in (s, s))"

subsection \<open>nextLayerLoad\<close>

definition count_loading :: "frame list \<Rightarrow> nat" where
  "count_loading fs = length (filter isLoading fs)"

text \<open>
  One pass \<open>for (i = 0; i < n; i += _loadStep)\<close> over the frames: load each frame in
  its default state and spend one unit of the budget; stop when the budget is zero.
\<close>

fun load_pass :: "nat list \<Rightarrow> int \<Rightarrow> frame list \<Rightarrow> frame list \<times> int" where
  "load_pass [] cnt fs = (fs, cnt)"
| "load_pass (i # is) cnt fs =
     (if isDefaultState (fs ! i)
      then (let fs' = fs[i := loadLayer (fs ! i)]; cnt' = cnt - 1 in
            if cnt' = 0 then (fs', cnt') else load_pass is cnt' fs')
      else load_pass is cnt fs)"

text \<open>
  \<open>while (loadCount > 0 && _loadStep > 0)\<close>: a pass, then halve the step if budget is
  left. Returns the new \<open>_loadStep\<close> and the frames.
\<close>

function load_rounds :: "int \<Rightarrow> nat \<Rightarrow> frame list \<Rightarrow> nat \<times> frame list" where
  "load_rounds cnt step fs =
     (if 0 < cnt \<and> 0 < step then
        (case load_pass (strides 0 step (length fs)) cnt fs of
           (fs', cnt') \<Rightarrow> if 0 < cnt' then load_rounds cnt' (step div 2) fs' else (step, fs'))
      else (step, fs))"
  by pat_completeness auto
termination
  by (relation "measure (\<lambda>(cnt, step, fs). step)") auto

declare load_rounds.simps [simp del]

definition load_budget :: "int \<Rightarrow> frame list \<Rightarrow> int" where
  "load_budget maxc fs = (if 0 < maxc then maxc else int (length fs)) - int (count_loading fs)"

definition nextLayerLoad :: "int \<Rightarrow> nat \<Rightarrow> frame list \<Rightarrow> nat \<times> frame list" where
  "nextLayerLoad maxc step fs =
     (if 0 < step then load_rounds (load_budget maxc fs) step fs else (step, fs))"

subsection \<open>Group accounting\<close>

text \<open>Every frame of the group \<open>0, step, 2 step, \<dots>\<close> is loaded.\<close>

definition group_complete :: "frame list \<Rightarrow> nat \<Rightarrow> bool" where
  "group_complete fs step = list_all (\<lambda>i. isLoaded (fs ! i)) (strides 0 step (length fs))"

text \<open>
  The \<open>while (tmpGroupLoadStep)\<close> loop of \<open>groupLoadStepCheck\<close>: halve while the
  group is complete; the result is the first incomplete group (or 0).
\<close>

function first_incomplete :: "frame list \<Rightarrow> nat \<Rightarrow> nat" where
  "first_incomplete fs tmp =
     (if tmp \<noteq> 0 \<and> group_complete fs tmp then first_incomplete fs (tmp div 2) else tmp)"
  by pat_completeness auto
termination
  by (relation "measure (\<lambda>(fs, tmp). tmp)") auto

declare first_incomplete.simps [simp del]

definition groupLoadStepCheck :: "frame list \<Rightarrow> nat \<Rightarrow> nat" where
  "groupLoadStepCheck fs gls =
     (if 1 < gls then
        (let tmp = first_incomplete fs gls in
         if tmp * 2 < gls then (if 2 * tmp = 0 then 1 else 2 * tmp) else gls)
      else gls)"

text \<open>
  The loop of \<open>layerLoadEndCallback\<close> that collects the group: the loaded prefix of the
  visited indices and whether all were loaded.
\<close>

fun group_scan :: "frame list \<Rightarrow> nat list \<Rightarrow> nat list \<times> bool" where
  "group_scan fs [] = ([], True)"
| "group_scan fs (i # is) =
     (if isLoaded (fs ! i) then (case group_scan fs is of (g, c) \<Rightarrow> (i # g, c)) else ([], False))"

text \<open>
  The group part of \<open>layerLoadEndCallback\<close>: the new \<open>_groupLoadStep\<close>, the group
  reported by \<open>loadGroupProgressCallback\<close> (if the group completed) and whether
  \<open>loadCompleteCallback\<close> fires.
\<close>

definition group_progress :: "frame list \<Rightarrow> nat \<Rightarrow> nat \<times> nat list option \<times> bool" where
  "group_progress fs gls =
     (let gls1 = groupLoadStepCheck fs gls;
          (group, complete) = group_scan fs (strides 0 (if gls1 = 0 then 1 else gls1) (length fs))
      in if complete then (gls1 div 2, Some group, gls1 div 2 = 0) else (gls1, None, False))"

text \<open>Two frame lists of the same length, the second with at least the loaded frames of the first.\<close>

definition loaded_le :: "frame list \<Rightarrow> frame list \<Rightarrow> bool" where
  "loaded_le fs1 fs2 \<longleftrightarrow> length fs1 = length fs2 \<and>
     list_all (\<lambda>i. isLoaded (fs1 ! i) \<longrightarrow> isLoaded (fs2 ! i)) [0..<length fs1]"

section \<open>Properties\<close>

subsection \<open>resetLoadStep\<close>

lemma grow_load_step_spec:
  "is_pow2 (grow_load_step n p) \<and> 2 ^ p \<le> grow_load_step n p \<and> n \<le> 2 * grow_load_step n p
   \<and> (2 ^ p < grow_load_step n p \<longrightarrow> grow_load_step n p < n)"
proof (induction n p rule: grow_load_step.induct)
  case (1 n p)
  show ?case
  proof (cases "2 ^ p * 2 < n")
    case True
    then have eq: "grow_load_step n p = grow_load_step n (Suc p)"
      by (simp add: grow_load_step.simps [of n p])
    from "1.IH" [OF True] have IH:
      "is_pow2 (grow_load_step n (Suc p)) \<and> 2 * 2 ^ p \<le> grow_load_step n (Suc p)
       \<and> n \<le> 2 * grow_load_step n (Suc p)
       \<and> (2 * 2 ^ p < grow_load_step n (Suc p) \<longrightarrow> grow_load_step n (Suc p) < n)"
      by simp
    have "(0::nat) < 2 ^ p" by simp
    with IH True show ?thesis unfolding eq by auto
  next
    case False
    then have eq: "grow_load_step n p = 2 ^ p"
      by (simp add: grow_load_step.simps [of n p])
    from False show ?thesis unfolding eq by (auto simp: is_pow2_iff)
  qed
qed

lemma pow2_le_half: "is_pow2 c \<Longrightarrow> is_pow2 g \<Longrightarrow> c < g \<Longrightarrow> 2 * c \<le> g"
proof -
  assume "is_pow2 c" "is_pow2 g" "c < g"
  then obtain a b where ab: "c = 2 ^ a" "g = 2 ^ b" by (auto simp: is_pow2_iff)
  with \<open>c < g\<close> have "a < b" by simp
  then have "Suc a \<le> b" by simp
  then have "(2::nat) ^ Suc a \<le> 2 ^ b" by (rule power_increasing) simp
  with ab show "2 * c \<le> g" by simp
qed

lemma pow2_least: "is_pow2 s \<Longrightarrow> is_pow2 t \<Longrightarrow> n \<le> 2 * t \<Longrightarrow> (1 < s \<longrightarrow> s < n) \<Longrightarrow> s \<le> t"
proof (rule ccontr)
  assume s: "is_pow2 s" and t: "is_pow2 t" and n: "n \<le> 2 * t" and lt: "1 < s \<longrightarrow> s < n" and "\<not> s \<le> t"
  then have "t < s" by simp
  have "2 * t \<le> s" using pow2_le_half [OF t s \<open>t < s\<close>] .
  moreover from t have "1 \<le> t" using is_pow2_pos by fastforce
  ultimately have "1 < s" by simp
  with lt n \<open>2 * t \<le> s\<close> show False by simp
qed

subsection \<open>Budget of one pass\<close>

lemma count_loading_update_le:
  "length (filter P (xs[i := x])) \<le> Suc (length (filter P xs))"
proof (induction xs arbitrary: i)
  case Nil
  then show ?case by simp
next
  case (Cons y ys)
  then show ?case by (cases i) auto
qed

lemma length_load_pass [simp]: "length (fst (load_pass is cnt fs)) = length fs"
  by (induction "is" cnt fs rule: load_pass.induct) (auto simp: Let_def)

lemma load_pass_budget:
  "0 < cnt \<Longrightarrow>
   0 \<le> snd (load_pass is cnt fs) \<and> snd (load_pass is cnt fs) \<le> cnt
   \<and> int (count_loading (fst (load_pass is cnt fs))) \<le> int (count_loading fs) + (cnt - snd (load_pass is cnt fs))"
proof (induction "is" cnt fs rule: load_pass.induct)
  case (1 cnt fs)
  then show ?case by simp
next
  case (2 i "is" cnt fs)
  define fs1 where "fs1 = fs[i := loadLayer (fs ! i)]"
  have step: "count_loading fs1 \<le> Suc (count_loading fs)"
    unfolding count_loading_def fs1_def by (rule count_loading_update_le)
  show ?case
  proof (cases "isDefaultState (fs ! i)")
    case False
    with "2.IH"(2) "2.prems" show ?thesis by simp
  next
    case True
    show ?thesis
    proof (cases "cnt - 1 = 0")
      case True
      with \<open>isDefaultState (fs ! i)\<close> step show ?thesis by (simp add: Let_def fs1_def)
    next
      case False
      with "2.prems" have pos: "0 < cnt - 1" by simp
      have eq: "load_pass (i # is) cnt fs = load_pass is (cnt - 1) fs1"
        using \<open>isDefaultState (fs ! i)\<close> False by (simp add: Let_def fs1_def)
      from "2.IH"(1) [OF True refl refl False pos] have
        "0 \<le> snd (load_pass is (cnt - 1) fs1) \<and> snd (load_pass is (cnt - 1) fs1) \<le> cnt - 1
         \<and> int (count_loading (fst (load_pass is (cnt - 1) fs1)))
           \<le> int (count_loading fs1) + (cnt - 1 - snd (load_pass is (cnt - 1) fs1))"
        by (simp add: fs1_def)
      with step show ?thesis unfolding eq by linarith
    qed
  qed
qed

lemma load_pass_nth:
  "fst (load_pass is cnt fs) ! j = fs ! j \<or> fst (load_pass is cnt fs) ! j = loadLayer (fs ! j)"
proof (induction "is" cnt fs rule: load_pass.induct)
  case (2 i "is" cnt fs)
  define fs1 where "fs1 = fs[i := loadLayer (fs ! i)]"
  have fs1: "fs1 ! j = fs ! j \<or> fs1 ! j = loadLayer (fs ! j)"
    by (cases "j = i"; cases "i < length fs") (simp_all add: fs1_def list_update_beyond)
  have "fst (load_pass is (cnt - 1) fs1) ! j = fs1 ! j
        \<or> fst (load_pass is (cnt - 1) fs1) ! j = loadLayer (fs1 ! j)"
    if "isDefaultState (fs ! i)" "cnt - 1 \<noteq> 0"
    using "2.IH"(1) [OF that(1) refl refl that(2)] by (simp add: fs1_def)
  with fs1 "2.IH"(2) show ?case
    by (auto simp: Let_def loadLayer_idem simp flip: fs1_def)
qed simp

lemma load_pass_keeps_busy:
  "\<not> isDefaultState (fs ! j) \<Longrightarrow> fst (load_pass is cnt fs) ! j = fs ! j"
proof (induction "is" cnt fs rule: load_pass.induct)
  case (2 i "is" cnt fs)
  then show ?case by (cases "j = i") (auto simp: Let_def)
qed simp

lemma length_load_rounds [simp]: "length (snd (load_rounds cnt step fs)) = length fs"
proof (induction cnt step fs rule: load_rounds.induct)
  case (1 cnt step fs)
  then show ?case
    by (subst load_rounds.simps) (auto split: prod.split simp: prod_eq_iff)
qed

lemma load_rounds_budget:
  "0 < cnt \<Longrightarrow> int (count_loading (snd (load_rounds cnt step fs))) \<le> int (count_loading fs) + cnt"
proof (induction cnt step fs rule: load_rounds.induct)
  case (1 cnt step fs)
  show ?case
  proof (cases "0 < step")
    case False
    then have "load_rounds cnt step fs = (step, fs)" by (subst load_rounds.simps) simp
    then show ?thesis using "1.prems" by simp
  next
    case True
    obtain fs' cnt' where pass: "load_pass (strides 0 step (length fs)) cnt fs = (fs', cnt')"
      by fastforce
    from load_pass_budget [OF "1.prems", of "strides 0 step (length fs)" fs] pass
    have b: "0 \<le> cnt'" "int (count_loading fs') \<le> int (count_loading fs) + (cnt - cnt')" by simp_all
    show ?thesis
    proof (cases "0 < cnt'")
      case True
      have conj: "0 < cnt \<and> 0 < step" using "1.prems" \<open>0 < step\<close> by simp
      from "1.IH" [OF conj pass [symmetric] True True]
      have "int (count_loading (snd (load_rounds cnt' (step div 2) fs'))) \<le> int (count_loading fs') + cnt'"
        by simp
      with b True "1.prems" \<open>0 < step\<close> pass show ?thesis
        by (simp add: load_rounds.simps [of cnt step fs])
    next
      case False
      with b "1.prems" \<open>0 < step\<close> pass show ?thesis
        by (simp add: load_rounds.simps [of cnt step fs])
    qed
  qed
qed

lemma load_rounds_keeps_busy:
  "\<not> isDefaultState (fs ! j) \<Longrightarrow> snd (load_rounds cnt step fs) ! j = fs ! j"
proof (induction cnt step fs rule: load_rounds.induct)
  case (1 cnt step fs)
  show ?case
  proof (cases "0 < cnt \<and> 0 < step")
    case False
    then have "load_rounds cnt step fs = (step, fs)" by (subst load_rounds.simps) auto
    then show ?thesis by simp
  next
    case True
    obtain fs' cnt' where pass: "load_pass (strides 0 step (length fs)) cnt fs = (fs', cnt')"
      by fastforce
    from load_pass_keeps_busy [OF "1.prems"] pass have same: "fs' ! j = fs ! j"
      by (metis fst_conv)
    with "1.prems" have nd: "\<not> isDefaultState (fs' ! j)" by simp
    show ?thesis
    proof (cases "0 < cnt'")
      case True
      from "1.IH" [OF \<open>0 < cnt \<and> 0 < step\<close> pass [symmetric] True nd] same True
        \<open>0 < cnt \<and> 0 < step\<close> pass show ?thesis
        by (simp add: load_rounds.simps [of cnt step fs])
    next
      case False
      with same \<open>0 < cnt \<and> 0 < step\<close> pass show ?thesis
        by (simp add: load_rounds.simps [of cnt step fs])
    qed
  qed
qed

lemma load_rounds_step_le: "fst (load_rounds cnt step fs) \<le> step"
proof (induction cnt step fs rule: load_rounds.induct)
  case (1 cnt step fs)
  then show ?case
    by (subst load_rounds.simps) (fastforce split: prod.split)
qed

lemma nextLayerLoad_keeps_busy:
  "\<not> isDefaultState (fs ! j) \<Longrightarrow> snd (nextLayerLoad maxc step fs) ! j = fs ! j"
  by (simp add: nextLayerLoad_def load_rounds_keeps_busy)

lemma length_nextLayerLoad [simp]: "length (snd (nextLayerLoad maxc step fs)) = length fs"
  by (simp add: nextLayerLoad_def)

lemma nextLayerLoad_step_le: "fst (nextLayerLoad maxc step fs) \<le> step"
  by (simp add: nextLayerLoad_def load_rounds_step_le)

lemma nextLayerLoad_budget:
  "int (count_loading (snd (nextLayerLoad maxc step fs)))
   \<le> max (int (count_loading fs)) (if 0 < maxc then maxc else int (length fs))"
proof (cases "0 < step \<and> 0 < load_budget maxc fs")
  case True
  then have "int (count_loading (snd (nextLayerLoad maxc step fs)))
             \<le> int (count_loading fs) + load_budget maxc fs"
    by (simp add: nextLayerLoad_def load_rounds_budget)
  then show ?thesis by (simp add: load_budget_def)
next
  case False
  then have "snd (nextLayerLoad maxc step fs) = fs"
    by (auto simp: nextLayerLoad_def load_rounds.simps [of "load_budget maxc fs" step fs])
  then show ?thesis by simp
qed

subsection \<open>Group accounting\<close>

lemma group_scan_complete: "snd (group_scan fs is) = list_all (\<lambda>i. isLoaded (fs ! i)) is"
  by (induction "is") (auto split: prod.split)

lemma group_scan_group:
  "snd (group_scan fs is) \<Longrightarrow> fst (group_scan fs is) = is"
  by (induction "is") (auto split: prod.split if_splits)

lemma group_complete_one: "group_complete fs (Suc 0) \<longleftrightarrow> list_all isLoaded fs"
  by (auto simp: group_complete_def list_all_iff strides_one [unfolded One_nat_def] all_set_conv_all_nth)

lemma group_complete_all: "list_all isLoaded fs \<Longrightarrow> group_complete fs c"
  by (auto simp: group_complete_def list_all_iff dest!: strides_bound)

lemma first_incomplete_le: "first_incomplete fs g \<le> g"
proof (induction fs g rule: first_incomplete.induct)
  case (1 fs tmp)
  then show ?case
    by (subst first_incomplete.simps) (auto intro: le_trans [OF _ div_le_dividend])
qed

lemma first_incomplete_stop:
  "first_incomplete fs g = 0 \<or> \<not> group_complete fs (first_incomplete fs g)"
proof (induction fs g rule: first_incomplete.induct)
  case (1 fs tmp)
  then show ?case by (subst (1 2) first_incomplete.simps) auto
qed

lemma first_incomplete_pow2:
  "is_pow2 g \<Longrightarrow> first_incomplete fs g = 0 \<or> is_pow2 (first_incomplete fs g)"
proof (induction fs g rule: first_incomplete.induct)
  case (1 fs tmp)
  show ?case
  proof (cases "tmp \<noteq> 0 \<and> group_complete fs tmp")
    case True
    then have eq: "first_incomplete fs tmp = first_incomplete fs (tmp div 2)"
      by (simp add: first_incomplete.simps [of fs tmp])
    show ?thesis
    proof (cases "1 < tmp")
      case True
      with "1.prems" have "is_pow2 (tmp div 2)" by (rule is_pow2_half)
      with "1.IH" \<open>tmp \<noteq> 0 \<and> group_complete fs tmp\<close> show ?thesis unfolding eq by blast
    next
      case False
      then have "tmp div 2 = 0" by simp
      then show ?thesis unfolding eq by (simp add: first_incomplete.simps [of fs 0])
    qed
  next
    case False
    then have "first_incomplete fs tmp = tmp" by (subst first_incomplete.simps) auto
    then show ?thesis using "1.prems" by simp
  qed
qed

lemma first_incomplete_chain:
  "is_pow2 g \<Longrightarrow> is_pow2 c \<Longrightarrow> first_incomplete fs g < c \<Longrightarrow> c \<le> g \<Longrightarrow> group_complete fs c"
proof (induction fs g rule: first_incomplete.induct)
  case (1 fs tmp)
  show ?case
  proof (cases "tmp \<noteq> 0 \<and> group_complete fs tmp")
    case False
    with "1.prems" show ?thesis by (simp add: first_incomplete.simps [of fs tmp])
  next
    case True
    then have eq: "first_incomplete fs tmp = first_incomplete fs (tmp div 2)"
      by (simp add: first_incomplete.simps [of fs tmp])
    show ?thesis
    proof (cases "c = tmp")
      case True
      with \<open>tmp \<noteq> 0 \<and> group_complete fs tmp\<close> show ?thesis by simp
    next
      case False
      with "1.prems" have "c < tmp" by simp
      with "1.prems" have "2 * c \<le> tmp" by (blast intro: pow2_le_half)
      then have le: "c \<le> tmp div 2" by simp
      with "1.prems" is_pow2_pos [OF \<open>is_pow2 c\<close>] have "1 < tmp" by simp
      with "1.prems" have "is_pow2 (tmp div 2)" by (blast intro: is_pow2_half)
      with "1.IH" [OF True] "1.prems" le show ?thesis unfolding eq by blast
    qed
  qed
qed

lemma first_incomplete_all:
  "list_all isLoaded fs \<Longrightarrow> first_incomplete fs g = 0"
proof (induction fs g rule: first_incomplete.induct)
  case (1 fs tmp)
  then show ?case
    by (subst first_incomplete.simps) (simp add: group_complete_all)
qed

lemma groupLoadStepCheck_pos: "0 < gls \<Longrightarrow> 0 < groupLoadStepCheck fs gls"
  by (simp add: groupLoadStepCheck_def Let_def)

lemma group_complete_mono:
  assumes le: "loaded_le fs1 fs2" and c: "group_complete fs1 c"
  shows "group_complete fs2 c"
  unfolding group_complete_def list_all_iff
proof
  fix i assume i: "i \<in> set (strides 0 c (length fs2))"
  from le have len: "length fs1 = length fs2" by (simp add: loaded_le_def)
  with c i have "isLoaded (fs1 ! i)" by (simp add: group_complete_def list_all_iff)
  moreover from i have "i < length fs1" using len by (simp add: strides_bound)
  ultimately show "isLoaded (fs2 ! i)" using le by (simp add: loaded_le_def list_all_iff)
qed

lemma first_incomplete_absorb:
  "loaded_le fs1 fs2 \<Longrightarrow> first_incomplete fs2 (first_incomplete fs1 g) = first_incomplete fs2 g"
proof (induction fs1 g rule: first_incomplete.induct)
  case (1 fs1 tmp)
  show ?case
  proof (cases "tmp \<noteq> 0 \<and> group_complete fs1 tmp")
    case True
    with group_complete_mono [OF "1.prems"] have "group_complete fs2 tmp" by blast
    with True "1.IH" [OF True "1.prems"] show ?thesis
      by (simp add: first_incomplete.simps [of fs1 tmp] first_incomplete.simps [of fs2 tmp])
  next
    case False
    then have "first_incomplete fs1 tmp = tmp" by (subst first_incomplete.simps) auto
    then show ?thesis by simp
  qed
qed

lemma group_scan_eq:
  "group_scan fs is =
     (if list_all (\<lambda>i. isLoaded (fs ! i)) is then (is, True)
      else (takeWhile (\<lambda>i. isLoaded (fs ! i)) is, False))"
  by (induction "is") auto

lemma group_progress_eq:
  "group_progress fs gls =
     (let gls1 = groupLoadStepCheck fs gls; s = (if gls1 = 0 then 1 else gls1) in
      if group_complete fs s then (gls1 div 2, Some (strides 0 s (length fs)), gls1 div 2 = 0)
      else (gls1, None, False))"
  unfolding group_progress_def Let_def group_scan_eq group_complete_def
  by simp

lemma first_incomplete_zero [simp]: "first_incomplete fs 0 = 0"
  by (simp add: first_incomplete.simps)

lemma first_incomplete_one:
  "first_incomplete fs (Suc 0) = (if group_complete fs (Suc 0) then 0 else Suc 0)"
  by (simp add: first_incomplete.simps [of fs "Suc 0"])

lemma group_progress_first_incomplete:
  assumes g: "is_pow2 gls \<or> gls = 0"
  shows "fst (group_progress fs gls) = first_incomplete fs gls"
proof (cases "1 < gls")
  case False
  with g have "gls = 0 \<or> gls = Suc 0" by (auto dest: is_pow2_pos)
  then show ?thesis
    by (auto simp: group_progress_eq groupLoadStepCheck_def first_incomplete_one)
next
  case True
  with g have pg: "is_pow2 gls" by auto
  define r where "r = first_incomplete fs gls"
  have chk: "groupLoadStepCheck fs gls = (if r * 2 < gls then (if 2 * r = 0 then 1 else 2 * r) else gls)"
    using True by (simp add: groupLoadStepCheck_def r_def)
  have r_le: "r \<le> gls" by (simp add: r_def first_incomplete_le)
  have r_stop: "r = 0 \<or> \<not> group_complete fs r" by (simp add: r_def first_incomplete_stop)
  have r_pow: "r = 0 \<or> is_pow2 r" using first_incomplete_pow2 [OF pg] by (simp add: r_def)
  have chain: "group_complete fs c" if "is_pow2 c" "r < c" "c \<le> gls" for c
    using first_incomplete_chain [OF pg that(1)] that by (simp add: r_def)
  show ?thesis
  proof (cases "r * 2 < gls")
    case True
    show ?thesis
    proof (cases "r = 0")
      case True
      with chain [of "Suc 0"] \<open>1 < gls\<close> have "group_complete fs (Suc 0)" by simp
      with True chk \<open>r * 2 < gls\<close> show ?thesis by (simp add: group_progress_eq r_def)
    next
      case False
      with r_pow have "is_pow2 (2 * r)" by simp
      with chain [of "2 * r"] False \<open>r * 2 < gls\<close> have "group_complete fs (2 * r)" by simp
      with False chk \<open>r * 2 < gls\<close> show ?thesis by (simp add: group_progress_eq r_def)
    qed
  next
    case False
    then have r_pos: "r \<noteq> 0" using \<open>1 < gls\<close> by auto
    with r_pow have pr: "is_pow2 r" by simp
    show ?thesis
    proof (cases "r = gls")
      case True
      with r_stop r_pos have "\<not> group_complete fs gls" by simp
      with chk False \<open>1 < gls\<close> True show ?thesis by (simp add: group_progress_eq r_def)
    next
      case r_ne: False
      with r_le have "r < gls" by simp
      with chain [OF pg] have gc: "group_complete fs gls" by simp
      from pow2_le_half [OF pr pg \<open>r < gls\<close>] False have "2 * r = gls" by simp
      with gc chk False \<open>1 < gls\<close> show ?thesis by (simp add: group_progress_eq r_def)
    qed
  qed
qed

lemma group_progress_step_bound:
  assumes "is_pow2 gls \<or> gls = 0"
  shows "fst (group_progress fs gls) \<le> gls
         \<and> (is_pow2 (fst (group_progress fs gls)) \<or> fst (group_progress fs gls) = 0)"
  using assms first_incomplete_pow2 [of gls fs] first_incomplete_le [of fs gls]
  by (auto simp: group_progress_first_incomplete)

lemma first_incomplete_zero_iff:
  "is_pow2 g \<Longrightarrow> first_incomplete fs g = 0 \<longleftrightarrow> list_all isLoaded fs"
proof
  assume "is_pow2 g" and z: "first_incomplete fs g = 0"
  from \<open>is_pow2 g\<close> have "Suc 0 \<le> g" using is_pow2_pos by fastforce
  with first_incomplete_chain [OF \<open>is_pow2 g\<close>, of "Suc 0" fs] z
  have "group_complete fs (Suc 0)" by simp
  then show "list_all isLoaded fs" by (simp add: group_complete_one)
qed (rule first_incomplete_all)

section \<open>Properties of the scheduler\<close>

text \<open>
  C1: \<open>resetLoadStep\<close> sets both steps to the least power of two \<open>s\<close> with
  \<open>n \<le> 2 s\<close> (at least 1). For five frames that is 4, not the 2 the specification's
  "largest power of two \<open>\<le> n/2\<close>" gives.
\<close>

theorem resetLoadStep_least_pow2:
  "is_pow2 (fst (resetLoadStep fs)) \<and> snd (resetLoadStep fs) = fst (resetLoadStep fs)
   \<and> length fs \<le> 2 * fst (resetLoadStep fs)
   \<and> (\<forall>t. is_pow2 t \<and> length fs \<le> 2 * t \<longrightarrow> fst (resetLoadStep fs) \<le> t)"
proof -
  define s where "s = grow_load_step (length fs) 0"
  from grow_load_step_spec [of "length fs" 0]
  have spec: "is_pow2 s" "length fs \<le> 2 * s" "1 < s \<longrightarrow> s < length fs"
    by (simp_all add: s_def)
  have "\<forall>t. is_pow2 t \<and> length fs \<le> 2 * t \<longrightarrow> s \<le> t"
    using pow2_least [OF spec(1) _ _ spec(3)] by blast
  with spec show ?thesis by (simp add: resetLoadStep_def s_def Let_def)
qed

theorem resetLoadStep_least_pow2_witness:
  "fst (resetLoadStep (ex_frames 5)) \<le> 4 \<and> fst (resetLoadStep (ex_frames 5)) = 4"
proof -
  have h: "is_pow2 (4::nat) \<and> length (ex_frames 5) \<le> 2 * 4" by code_simp
  have "fst (resetLoadStep (ex_frames 5)) \<le> 4"
    using resetLoadStep_least_pow2 [of "ex_frames 5"] h by blast
  moreover have "fst (resetLoadStep (ex_frames 5)) = 4" by code_simp
  ultimately show ?thesis by simp
qed

text \<open>
  C2: with a positive \<open>_maxAsyncLoadCount\<close>, \<open>nextLayerLoad\<close> never leaves more frames
  loading than the cap (or than were loading before it ran, if the cap was lowered).
\<close>

theorem nextLayerLoad_respects_cap:
  "0 < maxc \<Longrightarrow> count_loading (snd (nextLayerLoad maxc step fs)) \<le> max (count_loading fs) (nat maxc)"
  using nextLayerLoad_budget [of maxc step fs] by simp

theorem nextLayerLoad_respects_cap_witness:
  "count_loading (snd (nextLayerLoad 2 4 (ex_frames 5))) \<le> 2
   \<and> count_loading (snd (nextLayerLoad 2 4 (ex_frames 5))) = 2"
proof -
  have "count_loading (snd (nextLayerLoad 2 4 (ex_frames 5))) \<le> max (count_loading (ex_frames 5)) (nat 2)"
    by (rule nextLayerLoad_respects_cap) simp
  moreover have "count_loading (ex_frames 5) = 0" by code_simp
  moreover have "count_loading (snd (nextLayerLoad 2 4 (ex_frames 5))) = 2" by code_simp
  ultimately show ?thesis by simp
qed

text \<open>
  C3: on a load completion, the group step becomes the first group of the halving chain
  \<open>gls, gls/2, \<dots>, 1\<close> that is not completely loaded (0 when every frame is loaded):
  the finest complete group is recorded, however many nested groups the completion
  finished at once.
\<close>

theorem group_progress_finest_group:
  "is_pow2 gls \<or> gls = 0 \<Longrightarrow> fst (group_progress fs gls) = first_incomplete fs gls"
  by (rule group_progress_first_incomplete)

theorem group_progress_finest_group_witness:
  "fst (group_progress (ex_mark_ready [2] (ex_frames 4)) 2) = 2
   \<and> fst (group_progress (ex_mark_ready [2, 0] (ex_frames 4)) 2) = 1
   \<and> first_incomplete (ex_mark_ready [2, 0] (ex_frames 4)) 2 = 1"
proof -
  have p: "is_pow2 (2::nat) \<or> (2::nat) = 0" by code_simp
  have "fst (group_progress (ex_mark_ready [2, 0] (ex_frames 4)) 2)
        = first_incomplete (ex_mark_ready [2, 0] (ex_frames 4)) 2"
    by (rule group_progress_finest_group [OF p])
  moreover have "first_incomplete (ex_mark_ready [2, 0] (ex_frames 4)) 2 = 1" by code_simp
  moreover have "fst (group_progress (ex_mark_ready [2] (ex_frames 4)) 2) = 2" by code_simp
  ultimately show ?thesis by simp
qed

text \<open>
  C4: group accounting does not depend on the order of completions: processing a
  completion with the frames \<open>fs1\<close> and then one with more frames loaded \<open>fs2\<close> gives the
  step that processing \<open>fs2\<close> alone gives.
\<close>

theorem group_step_order_independent:
  "loaded_le fs1 fs2 \<Longrightarrow> is_pow2 g \<or> g = 0 \<Longrightarrow>
   fst (group_progress fs2 (fst (group_progress fs1 g))) = fst (group_progress fs2 g)"
proof -
  assume le: "loaded_le fs1 fs2" and g: "is_pow2 g \<or> g = 0"
  have g1: "is_pow2 (fst (group_progress fs1 g)) \<or> fst (group_progress fs1 g) = 0"
    using group_progress_step_bound [OF g, of fs1] by (rule conjunct2)
  show ?thesis
    using g g1 first_incomplete_absorb [OF le]
    by (simp add: group_progress_first_incomplete)
qed

theorem group_step_order_independent_witness:
  "fst (group_progress (ex_mark_ready [2, 0, 1, 3] (ex_frames 4))
         (fst (group_progress (ex_mark_ready [2, 0] (ex_frames 4)) 2)))
   = fst (group_progress (ex_mark_ready [0, 1, 2, 3] (ex_frames 4)) 2)"
proof -
  have le: "loaded_le (ex_mark_ready [2, 0] (ex_frames 4)) (ex_mark_ready [2, 0, 1, 3] (ex_frames 4))"
    by code_simp
  have p: "is_pow2 (2::nat) \<or> (2::nat) = 0" by code_simp
  have same: "ex_mark_ready [2, 0, 1, 3] (ex_frames 4) = ex_mark_ready [0, 1, 2, 3] (ex_frames 4)"
    by code_simp
  from group_step_order_independent [OF le p] same show ?thesis by simp
qed

text \<open>
  C5: \<open>loadCompleteCallback\<close> fires on a load completion exactly when every frame is
  loaded (successfully or not).
\<close>

theorem group_complete_signal:
  assumes "is_pow2 gls \<or> gls = 0"
  shows "snd (snd (group_progress fs gls)) \<longleftrightarrow> list_all isLoaded fs"
proof (cases "gls = 0")
  case True
  then show ?thesis
    by (simp add: group_progress_eq groupLoadStepCheck_def group_complete_one)
next
  case False
  with assms have pg: "is_pow2 gls" by simp
  then have pos: "0 < groupLoadStepCheck fs gls"
    by (simp add: groupLoadStepCheck_pos is_pow2_pos)
  have fst_eq: "fst (group_progress fs gls) = first_incomplete fs gls"
    using assms by (rule group_progress_first_incomplete)
  have "snd (snd (group_progress fs gls)) \<longleftrightarrow> fst (group_progress fs gls) = 0"
    using pos by (auto simp: group_progress_eq Let_def)
  with fst_eq first_incomplete_zero_iff [OF pg] show ?thesis by simp
qed

theorem group_complete_signal_witness:
  "snd (snd (group_progress (ex_mark_ready [0, 1, 2, 3] (ex_frames 4)) 1))
   \<and> \<not> snd (snd (group_progress (ex_mark_ready [0, 2] (ex_frames 4)) 2))"
proof -
  have p1: "is_pow2 (1::nat) \<or> (1::nat) = 0" by simp
  have p2: "is_pow2 (2::nat) \<or> (2::nat) = 0" by code_simp
  have a: "list_all isLoaded (ex_mark_ready [0, 1, 2, 3] (ex_frames 4))" by code_simp
  have b: "\<not> list_all isLoaded (ex_mark_ready [0, 2] (ex_frames 4))" by code_simp
  from group_complete_signal [OF p1] group_complete_signal [OF p2] a b show ?thesis by blast
qed

end
