(* ===== verification/Presentation.thy ===== *)
theory Presentation
  imports Scheduler
begin

text \<open>
  The presentation half of \<open>LayerContainer.js\<close>: the private state of the container
  (\<open>initialize\<close>), the fade stack \<open>_fadeOutLayers\<close> whose last element is the current
  frame, \<open>showLayer\<close> with its looping detection and fade-out opacity steps,
  \<open>allowShowLayer\<close>, \<open>fadeOutAll\<close>, and the navigation \<open>showFrame\<close>,
  \<open>showNextFrame\<close>, \<open>showPreviousFrame\<close>.
  Frames are referred to by their index in \<open>_layers\<close>: the layer objects of one
  \<open>_layers\<close> array are distinct, so \<open>_layers.indexOf(layer)\<close> is the identity of the
  object. The operations return the new container and the list of effects they cause on
  other components, in the order the code causes them: opacity transitions started
  through \<open>TransitionUtils.opacityTransition\<close> and observer notifications. The
  container theory runs these effects.
\<close>

section \<open>Container state\<close>

text \<open>
  A time value given to \<open>setBeginTime\<close>/\<open>setEndTime\<close>: \<open>undefined\<close> or \<open>null\<close>, a
  \<open>Date\<close>, a number of milliseconds, or anything else (\<open>isNaN\<close>).
\<close>

datatype time_arg = TimeUndefined | TimeDate int | TimeNumber int | TimeInvalid

text \<open>
  The part of the animation configuration (\<open>ConfigUtils.getAnimation(_config)\<close>) the
  container reads. A number is \<open>None\<close> when it is missing, \<open>null\<close> or not a number; a
  timing function is \<open>None\<close> when it is not a string; the fade-out opacities are \<open>None\<close>
  when the array is missing, and an element is \<open>None\<close> when it is not a number.
\<close>

record anim_config =
  an_beginTime :: time_arg
  an_endTime :: time_arg
  an_resolutionTime :: "real option"
  an_maxAsyncLoadCount :: "int option"
  an_frameRate :: "int option"
  an_fadeOut_opacities :: "real option list option"
  an_fadeIn :: bool
  an_fadeIn_time :: "real option"
  an_fadeIn_timing :: "string option"
  an_fadeOut :: bool
  an_fadeOut_time :: "real option"
  an_fadeOut_timing :: "string option"
  an_autoStart :: bool
  an_autoLoad :: bool

record container =
  c_anim :: "anim_config option"
  c_begin :: "int option"
  c_end :: "int option"
  c_resolution :: "int option"
  c_visibility :: bool
  c_frameRate :: int
  c_maxAsync :: int
  c_opacity :: real
  c_fadeOutOpacities :: "real list option"
  c_fade :: "nat list"
  c_reqTime :: "int option"
  c_map :: "nat option"
  c_config :: "frame_config option"
  c_layers :: "frame list"
  c_loadStep :: nat
  c_gls :: nat

text \<open>The initial values of \<open>initialize\<close>.\<close>

definition init_container :: container where
  "init_container =
     \<lparr>c_anim = None, c_begin = None, c_end = None, c_resolution = None, c_visibility = True,
      c_frameRate = 500, c_maxAsync = -1, c_opacity = 1, c_fadeOutOpacities = None, c_fade = [],
      c_reqTime = None, c_map = None, c_config = None, c_layers = [], c_loadStep = 1, c_gls = 1\<rparr>"

text \<open>Effects on the transition engine and on the observer.\<close>

datatype notification =
    LoadAnimationStarted
  | LoadFrameStarted nat
  | LoadFrameComplete nat
  | LoadGroupProgress "nat list"
  | LoadComplete "nat list"
  | FrameContentReleased nat
  | FrameChanged nat

datatype effect =
    FadeOut nat real
  | FadeIn nat real
  | Notify notification

section \<open>Current frame\<close>

definition getCurrentFrame :: "container \<Rightarrow> nat option" where
  "getCurrentFrame c = (if c_fade c = [] then None else Some (last (c_fade c)))"

text \<open>\<open>_layers.indexOf(getCurrentFrame())\<close>: \<open>-1\<close> when there is no current frame.\<close>

definition getCurrentFrameIndex :: "container \<Rightarrow> int" where
  "getCurrentFrameIndex c =
     (case getCurrentFrame c of None \<Rightarrow> -1 | Some i \<Rightarrow> index_of [0..<length (c_layers c)] i)"

definition getResolutionTime :: "container \<Rightarrow> int" where
  "getResolutionTime c = (case c_resolution c of None \<Rightarrow> 0 | Some r \<Rightarrow> r)"

section \<open>showLayer\<close>

definition allowShowLayer :: "container \<Rightarrow> int \<Rightarrow> bool" where
  "allowShowLayer c index \<longleftrightarrow>
     0 \<le> index \<and> index < int (length (c_layers c))
     \<and> (c_gls c = 0 \<or> nat index mod (c_gls c * 2) = 0)
     \<and> isLoaded (c_layers c ! nat index)"

text \<open>\<open>maxFadeOutFrameCount\<close>: at least one.\<close>

definition max_fade_count :: "real list option \<Rightarrow> nat" where
  "max_fade_count ops = (case ops of Some os \<Rightarrow> if os \<noteq> [] then length os else 1 | None \<Rightarrow> 1)"

text \<open>The target opacity of the \<open>i\<close>-th member of the fade stack of length \<open>len\<close>.\<close>

definition fade_out_opacity :: "real list option \<Rightarrow> real \<Rightarrow> bool \<Rightarrow> nat \<Rightarrow> nat \<Rightarrow> real" where
  "fade_out_opacity ops animOpacity looping len i =
     (case ops of
        Some os \<Rightarrow>
          if os \<noteq> [] then
            (if looping then os ! 0
             else (let idx = i + (if length os > len then length os - len else 0);
                       idx' = (if idx \<ge> length os then length os - 1 else idx)
                   in animOpacity * os ! idx'))
          else 0
      | None \<Rightarrow> 0)"

text \<open>
  Looping: the new index does not continue the direction from the previous frame of
  the stack to the current one.
\<close>

definition is_looping :: "int \<Rightarrow> int \<Rightarrow> int \<Rightarrow> bool" where
  "is_looping prevIndex currentIndex nextIndex \<longleftrightarrow>
     prevIndex \<noteq> -1 \<and>
     \<not> (prevIndex < currentIndex \<and> currentIndex < nextIndex
        \<or> prevIndex > currentIndex \<and> currentIndex > nextIndex)"

text \<open>
  The block of \<open>showLayer\<close> run when the frame changes, split along its statements:
  the stack without the new frame (\<open>_fadeOutLayers.splice(removeIndex, 1)\<close>), the
  looping flag, the number of oldest entries removed (\<open>removeCount\<close>, clamped at 0),
  and the fade-out transitions started for every member of that stack.
\<close>

definition show_fade1 :: "container \<Rightarrow> nat \<Rightarrow> nat list" where
  "show_fade1 c i =
     (let removeIndex = index_of (c_fade c) i
      in if removeIndex \<noteq> -1 then splice1 (c_fade c) (nat removeIndex) else c_fade c)"

definition show_looping :: "container \<Rightarrow> nat \<Rightarrow> bool" where
  "show_looping c i =
     (let fade1 = show_fade1 c i;
          prevIndex = (if length fade1 > 1
                       then index_of [0..<length (c_layers c)] (fade1 ! (length fade1 - 2))
                       else -1)
      in is_looping prevIndex (getCurrentFrameIndex c) (int i))"

definition show_remove_count :: "container \<Rightarrow> nat \<Rightarrow> nat" where
  "show_remove_count c i =
     (let len = int (length (show_fade1 c i));
          removeCount = (if show_looping c i then len
                         else len - int (max_fade_count (c_fadeOutOpacities c)) + 1)
      in if removeCount < 0 then 0 else nat removeCount)"

definition show_fade_outs :: "container \<Rightarrow> nat \<Rightarrow> effect list" where
  "show_fade_outs c i =
     (let fade1 = show_fade1 c i
      in map (\<lambda>j. FadeOut (fade1 ! j)
                  (fade_out_opacity (c_fadeOutOpacities c) (c_opacity c) (show_looping c i)
                     (length fade1) j))
             [0..<length fade1])"

definition showLayer :: "nat \<Rightarrow> bool \<Rightarrow> container \<Rightarrow> container \<times> effect list" where
  "showLayer i force c =
     (if i < length (c_layers c) \<and> (force \<or> allowShowLayer c (int i)) then
        (if getCurrentFrame c \<noteq> Some i then
           (c\<lparr>c_fade := drop (show_remove_count c i) (show_fade1 c i) @ [i]\<rparr>,
            show_fade_outs c i @ [FadeIn i (c_opacity c), Notify (FrameChanged i)])
         else (c, [FadeIn i (c_opacity c)]))
      else (c, []))"

text \<open>\<open>fadeOutAll\<close>: every member of the stack fades to 0, the stack is emptied.\<close>

definition fadeOutAll :: "container \<Rightarrow> container \<times> effect list" where
  "fadeOutAll c = (c\<lparr>c_fade := []\<rparr>, map (\<lambda>l. FadeOut l 0) (c_fade c))"

section \<open>Navigation\<close>

definition nav_step :: "container \<Rightarrow> nat" where
  "nav_step c = (if c_gls c = 0 then 1 else c_gls c * 2)"

definition showNextFrame :: "container \<Rightarrow> container \<times> effect list" where
  "showNextFrame c =
     (let step = nav_step c; n = length (c_layers c) in
      if 0 < n \<and> (step < n \<or> step = 1) then
        (let cur = getCurrentFrameIndex c;
             idx = (if cur < 0 \<or> cur + int step \<ge> int n then 0 else cur + int step - cur mod int step)
         in showLayer (nat idx) False c)
      else (c, []))"

definition showPreviousFrame :: "container \<Rightarrow> container \<times> effect list" where
  "showPreviousFrame c =
     (let step = nav_step c; n = length (c_layers c) in
      if 0 < n \<and> (step < n \<or> step = 1) then
        (let idx0 = getCurrentFrameIndex c - int step;
             idx = (if idx0 < 0 then int n - int (if n mod step = 0 then 1 else n mod step) else idx0)
         in showLayer (nat idx) False c)
      else (c, []))"

text \<open>
  The loop of \<open>showFrame\<close> over the frames: fade everything out when the time is a
  resolution step beyond either end, or behind the period after another animation
  looped; show the frame whose time equals the given one.
\<close>

fun showFrame_scan :: "container \<Rightarrow> int \<Rightarrow> int \<Rightarrow> int \<Rightarrow> nat list \<Rightarrow> container \<times> effect list" where
  "showFrame_scan c time cur res [] = (c, [])"
| "showFrame_scan c time cur res (i # is) =
     (let n = length (c_layers c);
          configTime = cfg_time (f_config (c_layers c ! i))
      in if i = 0 \<and> time \<le> configTime - res
            \<or> i = n - 1 \<and> time \<ge> configTime + res
            \<or> i = n - 1 \<and> cur = 0 \<and> time > configTime
            \<or> i = 0 \<and> cur = int n - 1 \<and> time < configTime
         then fadeOutAll c
         else if time = configTime then showLayer i False c
         else showFrame_scan c time cur res is)"

definition showFrame :: "int \<Rightarrow> container \<Rightarrow> container \<times> effect list" where
  "showFrame time c =
     showFrame_scan c time (getCurrentFrameIndex c) (getResolutionTime c) [0..<length (c_layers c)]"

text \<open>The navigation calls of the public API: \<open>showFrame(time)\<close>, \<open>showNextFrame\<close>, \<open>showPreviousFrame\<close>.\<close>

datatype nav_op = ShowAt int | Next | Previous

fun navigate :: "nav_op \<Rightarrow> container \<Rightarrow> container \<times> effect list" where
  "navigate (ShowAt t) c = showFrame t c"
| "navigate Next c = showNextFrame c"
| "navigate Previous c = showPreviousFrame c"

section \<open>Invariants of the presentation\<close>

text \<open>The fade stack holds distinct indices of frames.\<close>

definition fade_wf :: "container \<Rightarrow> bool" where
  "fade_wf c \<longleftrightarrow> distinct (c_fade c) \<and> list_all (\<lambda>i. i < length (c_layers c)) (c_fade c)"

definition fade_bounded :: "container \<Rightarrow> bool" where
  "fade_bounded c \<longleftrightarrow> length (c_fade c) \<le> max_fade_count (c_fadeOutOpacities c)"

definition next_index :: "container \<Rightarrow> nat" where
  "next_index c = (case getCurrentFrame c of None \<Rightarrow> 0 | Some k \<Rightarrow> Suc k mod length (c_layers c))"

fun run_nav :: "nav_op list \<Rightarrow> container \<Rightarrow> container" where
  "run_nav [] c = c"
| "run_nav (op # ops) c = run_nav ops (fst (navigate op c))"

text \<open>
  Example containers for the witnesses: \<open>n\<close> frames, those in \<open>loaded\<close> ready,
  group step \<open>gls\<close>, fade stack \<open>fade\<close>.
\<close>

definition ex_container :: "nat \<Rightarrow> nat list \<Rightarrow> nat \<Rightarrow> nat list \<Rightarrow> container" where
  "ex_container n loaded gls fade =
     init_container\<lparr>c_layers := ex_mark_ready loaded (ex_frames n), c_gls := gls, c_fade := fade\<rparr>"

lemmas presentation_defs = getCurrentFrame_def getCurrentFrameIndex_def allowShowLayer_def

section \<open>Properties\<close>

subsection \<open>showLayer\<close>

lemma index_of_splice1_remove1:
  "(if index_of xs x \<noteq> -1 then splice1 xs (nat (index_of xs x)) else xs) = remove1 x xs"
proof (induction xs)
  case Nil
  then show ?case by simp
next
  case (Cons y ys)
  show ?case
  proof (cases "y = x")
    case True
    then show ?thesis by (simp add: splice1_def)
  next
    case False
    show ?thesis
    proof (cases "x \<in> set ys")
      case True
      from index_of_nonneg [OF True] have "0 \<le> index_of ys x" .
      with False Cons.IH show ?thesis by (simp add: splice1_def Let_def nat_add_distrib)
    next
      case notin: False
      with False show ?thesis by (simp add: remove1_idem)
    qed
  qed
qed

lemma show_fade1_remove1: "show_fade1 c i = remove1 i (c_fade c)"
  using index_of_splice1_remove1 [of "c_fade c" i] by (simp add: show_fade1_def Let_def)

lemma showLayer_state:
  "fst (showLayer i force c) =
     (if i < length (c_layers c) \<and> (force \<or> allowShowLayer c (int i)) \<and> getCurrentFrame c \<noteq> Some i
      then c\<lparr>c_fade := drop (show_remove_count c i) (remove1 i (c_fade c)) @ [i]\<rparr>
      else c)"
  by (auto simp: showLayer_def show_fade1_remove1)

lemma showLayer_layers [simp]: "c_layers (fst (showLayer i force c)) = c_layers c"
  by (simp add: showLayer_state)

lemma showLayer_gls [simp]: "c_gls (fst (showLayer i force c)) = c_gls c"
  by (simp add: showLayer_state)

lemma showLayer_fadeOutOpacities [simp]:
  "c_fadeOutOpacities (fst (showLayer i force c)) = c_fadeOutOpacities c"
  by (simp add: showLayer_state)

lemma max_fade_count_pos: "1 \<le> max_fade_count ops"
  by (simp add: max_fade_count_def Suc_le_eq split: option.split)

lemma length_after_show:
  "length (drop (show_remove_count c i) (remove1 i (c_fade c)) @ [i]) \<le> max_fade_count (c_fadeOutOpacities c)"
  using max_fade_count_pos [of "c_fadeOutOpacities c"]
  by (auto simp: show_remove_count_def show_fade1_remove1 Let_def)

lemma showLayer_fade_wf: "fade_wf c \<Longrightarrow> fade_wf (fst (showLayer i force c))"
  by (auto simp: showLayer_state fade_wf_def list_all_iff dest: in_set_dropD)

lemma showLayer_current:
  "i < length (c_layers c) \<Longrightarrow> force \<or> allowShowLayer c (int i) \<Longrightarrow>
   getCurrentFrame (fst (showLayer i force c)) = Some i"
  by (auto simp: showLayer_state getCurrentFrame_def)

lemma showLayer_not_allowed:
  "\<not> force \<Longrightarrow> \<not> allowShowLayer c (int i) \<Longrightarrow> showLayer i force c = (c, [])"
  by (simp add: showLayer_def)

lemma showLayer_changes_to_loaded:
  "getCurrentFrame (fst (showLayer i False c)) \<noteq> getCurrentFrame c \<Longrightarrow>
   getCurrentFrame (fst (showLayer i False c)) = Some i \<and> isLoaded (c_layers c ! i)"
  by (auto simp: showLayer_state allowShowLayer_def getCurrentFrame_def split: if_splits)

subsection \<open>Navigation with every frame loaded\<close>

lemma current_index_of:
  "fade_wf c \<Longrightarrow> getCurrentFrame c = Some k \<Longrightarrow> getCurrentFrameIndex c = int k \<and> k < length (c_layers c)"
  by (auto simp: fade_wf_def getCurrentFrameIndex_def getCurrentFrame_def list_all_iff split: if_splits)

lemma no_current_index:
  "getCurrentFrame c = None \<Longrightarrow> getCurrentFrameIndex c = -1"
  by (simp add: getCurrentFrameIndex_def)

lemma showNextFrame_all_loaded:
  assumes wf: "fade_wf c" and g: "c_gls c = 0" and ld: "list_all isLoaded (c_layers c)"
    and n: "0 < length (c_layers c)"
  shows "fst (showNextFrame c) = fst (showLayer (next_index c) False c)"
proof (cases "getCurrentFrame c")
  case None
  with n g show ?thesis
    by (simp add: showNextFrame_def nav_step_def no_current_index next_index_def Let_def)
next
  case (Some k)
  with wf have k: "getCurrentFrameIndex c = int k" "k < length (c_layers c)"
    by (auto dest: current_index_of)
  show ?thesis
  proof (cases "Suc k < length (c_layers c)")
    case True
    have e: "nat (int k + 1) = Suc k" by simp
    with True k g Some n show ?thesis
      by (simp add: showNextFrame_def nav_step_def next_index_def Let_def)
  next
    case False
    with k have len: "length (c_layers c) = Suc k" by simp
    have "showNextFrame c = showLayer 0 False c"
      using k(1) g n False by (simp add: showNextFrame_def nav_step_def Let_def)
    moreover have "next_index c = 0"
      using Some len by (simp add: next_index_def)
    ultimately show ?thesis by simp
  qed
qed

lemma next_index_allowed:
  "c_gls c = 0 \<Longrightarrow> list_all isLoaded (c_layers c) \<Longrightarrow> 0 < length (c_layers c) \<Longrightarrow>
   next_index c < length (c_layers c) \<and> allowShowLayer c (int (next_index c))"
  by (auto simp: next_index_def allowShowLayer_def list_all_iff split: option.split)

subsection \<open>Every navigation call is a showLayer, a fade-out of all, or nothing\<close>

lemma showNextFrame_cases:
  "fst (showNextFrame c) = c \<or> (\<exists>j. fst (showNextFrame c) = fst (showLayer j False c))"
  by (auto simp: showNextFrame_def Let_def)

lemma showPreviousFrame_cases:
  "fst (showPreviousFrame c) = c \<or> (\<exists>j. fst (showPreviousFrame c) = fst (showLayer j False c))"
  by (auto simp: showPreviousFrame_def Let_def)

lemma showFrame_scan_cases:
  "fst (showFrame_scan c time cur res is) = c \<or> fst (showFrame_scan c time cur res is) = fst (fadeOutAll c)
   \<or> (\<exists>j. fst (showFrame_scan c time cur res is) = fst (showLayer j False c))"
  by (induction "is") (auto simp: Let_def)

lemma navigate_cases:
  "fst (navigate op c) = c \<or> fst (navigate op c) = fst (fadeOutAll c)
   \<or> (\<exists>j. fst (navigate op c) = fst (showLayer j False c))"
  using showNextFrame_cases [of c] showPreviousFrame_cases [of c] showFrame_scan_cases [of c]
  by (cases op) (auto simp: showFrame_def)

lemma fadeOutAll_wf: "fade_wf (fst (fadeOutAll c)) \<and> fade_bounded (fst (fadeOutAll c))"
  by (simp add: fadeOutAll_def fade_wf_def fade_bounded_def)

lemma showLayer_bounded: "fade_bounded c \<Longrightarrow> fade_bounded (fst (showLayer i force c))"
  using length_after_show [of c i] by (auto simp: showLayer_state fade_bounded_def)

lemma navigate_keeps_layers [simp]:
  "c_layers (fst (navigate op c)) = c_layers c \<and> c_gls (fst (navigate op c)) = c_gls c"
  using navigate_cases [of op c] by (auto simp: fadeOutAll_def)

lemma showNextFrame_keeps [simp]:
  "c_layers (fst (showNextFrame c)) = c_layers c \<and> c_gls (fst (showNextFrame c)) = c_gls c"
  using navigate_keeps_layers [of Next c] by simp

lemma navigate_wf: "fade_wf c \<Longrightarrow> fade_wf (fst (navigate op c))"
  using navigate_cases [of op c] fadeOutAll_wf [of c] showLayer_fade_wf [of c] by auto

lemma navigate_bounded: "fade_bounded c \<Longrightarrow> fade_bounded (fst (navigate op c))"
  using navigate_cases [of op c] fadeOutAll_wf [of c] showLayer_bounded [of c] by auto

lemma mod_pred_not_dvd:
  "n mod d = 0 \<Longrightarrow> 0 < n \<Longrightarrow> 1 < (d::nat) \<Longrightarrow> (n - 1) mod d \<noteq> 0"
proof
  assume "n mod d = 0" "0 < n" "1 < d" "(n - 1) mod d = 0"
  then have "d dvd n" "d dvd n - 1" by auto
  then have "d dvd n - (n - 1)" by (rule dvd_diff_nat)
  with \<open>0 < n\<close> have "d dvd 1" by simp
  with \<open>1 < d\<close> show False by simp
qed

section \<open>Properties of the presentation\<close>

text \<open>
  C6: after any sequence of \<open>showFrame\<close>, \<open>showNextFrame\<close> and \<open>showPreviousFrame\<close>
  calls, the fade stack holds distinct frames of the animation and at most
  \<open>max(1, len(fadeOutOpacities))\<close> of them, provided it did before.
\<close>

theorem navigation_keeps_fade_stack:
  "fade_wf c \<Longrightarrow> fade_bounded c \<Longrightarrow> fade_wf (run_nav ops c) \<and> fade_bounded (run_nav ops c)"
proof (induction ops arbitrary: c)
  case Nil
  then show ?case by simp
next
  case (Cons op ops)
  from navigate_wf [OF Cons.prems(1)] navigate_bounded [OF Cons.prems(2)]
  have "fade_wf (fst (navigate op c))" "fade_bounded (fst (navigate op c))" by auto
  with Cons.IH show ?case by simp
qed

theorem navigation_keeps_fade_stack_witness:
  "fade_wf (run_nav [Next, Next, Next, Previous, ShowAt 2000] (ex_container 4 [0, 1, 2, 3] 0 []))
   \<and> fade_bounded (run_nav [Next, Next, Next, Previous, ShowAt 2000] (ex_container 4 [0, 1, 2, 3] 0 []))"
proof -
  have "fade_wf (ex_container 4 [0, 1, 2, 3] 0 [])" "fade_bounded (ex_container 4 [0, 1, 2, 3] 0 [])"
    by code_simp+
  from navigation_keeps_fade_stack [OF this] show ?thesis .
qed

text \<open>
  C7: with every frame loaded (group step 0), \<open>showNextFrame\<close> steps through the frames
  one by one and wraps to frame 0 after the last: \<open>m\<close> calls from frame \<open>k\<close> show frame
  \<open>(k + m) mod n\<close>, so \<open>n\<close> calls return to the frame they started from.
\<close>

theorem showNextFrame_cycles:
  assumes wf: "fade_wf c" and g: "c_gls c = 0" and ld: "list_all isLoaded (c_layers c)"
    and cur: "getCurrentFrame c = Some k"
  shows "getCurrentFrame (((\<lambda>c. fst (showNextFrame c)) ^^ m) c) = Some ((k + m) mod length (c_layers c))"
proof (induction m)
  case 0
  from current_index_of [OF wf cur] cur show ?case by simp
next
  case (Suc m)
  let ?c = "((\<lambda>c. fst (showNextFrame c)) ^^ m) c"
  have keep: "c_layers ?c = c_layers c \<and> c_gls ?c = c_gls c \<and> fade_wf ?c"
  proof (induction m)
    case (Suc m)
    with navigate_wf [of "((\<lambda>c. fst (showNextFrame c)) ^^ m) c" Next] show ?case by simp
  qed (simp add: wf)
  from current_index_of [OF wf cur] have "k < length (c_layers c)" by simp
  then have n: "0 < length (c_layers c)" by linarith
  have nx: "next_index ?c = (k + Suc m) mod length (c_layers c)"
    using Suc.IH keep by (simp add: next_index_def mod_Suc_eq)
  have "fst (showNextFrame ?c) = fst (showLayer (next_index ?c) False ?c)"
    using keep g ld n by (intro showNextFrame_all_loaded) simp_all
  moreover have "getCurrentFrame (fst (showLayer (next_index ?c) False ?c)) = Some (next_index ?c)"
    using next_index_allowed [of ?c] keep g ld n by (intro showLayer_current) simp_all
  ultimately show ?case using nx by simp
qed

theorem showNextFrame_cycles_witness:
  "getCurrentFrame (((\<lambda>c. fst (showNextFrame c)) ^^ 4) (ex_container 4 [0, 1, 2, 3] 0 [1])) = Some 1"
proof -
  have h: "fade_wf (ex_container 4 [0, 1, 2, 3] 0 [1])" "c_gls (ex_container 4 [0, 1, 2, 3] 0 [1]) = 0"
    "list_all isLoaded (c_layers (ex_container 4 [0, 1, 2, 3] 0 [1]))"
    "getCurrentFrame (ex_container 4 [0, 1, 2, 3] 0 [1]) = Some 1"
    by code_simp+
  have "length (c_layers (ex_container 4 [0, 1, 2, 3] 0 [1])) = 4" by code_simp
  with showNextFrame_cycles [OF h, of 4] show ?thesis by simp
qed

text \<open>
  C8: \<open>showPreviousFrame\<close> does not wrap around when the number of frames is a multiple
  of the navigation step \<open>2 gls > 1\<close>: from a frame below the step (or from no frame) it
  picks index \<open>n - (n mod step || 1) = n - 1\<close>, which is never aligned to the step, so
  \<open>allowShowLayer\<close> refuses it and nothing is shown. The last aligned frame \<open>n - step\<close>
  is what the comment ("set correct starting position from end") intends.
\<close>

theorem showPreviousFrame_no_wrap:
  assumes wf: "fade_wf c" and g: "0 < c_gls c"
    and dv: "length (c_layers c) mod (2 * c_gls c) = 0" and lt: "2 * c_gls c < length (c_layers c)"
    and cur: "case getCurrentFrame c of None \<Rightarrow> True | Some k \<Rightarrow> k < 2 * c_gls c"
  shows "showPreviousFrame c = (c, [])"
proof -
  let ?n = "length (c_layers c)" and ?s = "2 * c_gls c"
  have step: "nav_step c = ?s" using g by (simp add: nav_step_def)
  have neg: "getCurrentFrameIndex c - int ?s < 0"
  proof (cases "getCurrentFrame c")
    case None
    then show ?thesis by (simp add: no_current_index)
  next
    case (Some k)
    with current_index_of [OF wf Some] cur show ?thesis by simp
  qed
  have ne: "0 < ?n" using lt by linarith
  have "(?n - 1) mod ?s \<noteq> 0"
    using mod_pred_not_dvd [OF dv ne] g by simp
  then have "\<not> allowShowLayer c (int (?n - 1))"
    using g by (simp add: allowShowLayer_def mult.commute)
  moreover have "int ?n - int (if ?n mod ?s = 0 then 1 else ?n mod ?s) = int (?n - 1)"
    using dv lt by simp
  ultimately show ?thesis
    using step neg lt dv by (simp add: showPreviousFrame_def Let_def showLayer_not_allowed)
qed

theorem showPreviousFrame_no_wrap_witness:
  "showPreviousFrame (ex_container 4 [0, 2] 1 [0]) = (ex_container 4 [0, 2] 1 [0], [])
   \<and> allowShowLayer (ex_container 4 [0, 2] 1 [0]) 2"
proof -
  have h: "fade_wf (ex_container 4 [0, 2] 1 [0])" "0 < c_gls (ex_container 4 [0, 2] 1 [0])"
    "length (c_layers (ex_container 4 [0, 2] 1 [0])) mod (2 * c_gls (ex_container 4 [0, 2] 1 [0])) = 0"
    "2 * c_gls (ex_container 4 [0, 2] 1 [0]) < length (c_layers (ex_container 4 [0, 2] 1 [0]))"
    "case getCurrentFrame (ex_container 4 [0, 2] 1 [0]) of None \<Rightarrow> True
       | Some k \<Rightarrow> k < 2 * c_gls (ex_container 4 [0, 2] 1 [0])"
    by code_simp+
  have "allowShowLayer (ex_container 4 [0, 2] 1 [0]) 2" by code_simp
  with showPreviousFrame_no_wrap [OF h] show ?thesis by simp
qed

text \<open>
  C9: a navigation call either leaves the current frame as it is, fades everything out,
  or makes a loaded frame current: a frame whose load has not completed is never shown.
\<close>

theorem navigate_shows_loaded_only:
  "getCurrentFrame (fst (navigate op c)) \<noteq> getCurrentFrame c \<Longrightarrow>
   getCurrentFrame (fst (navigate op c)) = None
   \<or> (\<exists>i. getCurrentFrame (fst (navigate op c)) = Some i \<and> isLoaded (c_layers c ! i))"
proof -
  assume ch: "getCurrentFrame (fst (navigate op c)) \<noteq> getCurrentFrame c"
  from navigate_cases [of op c] consider
      (same) "fst (navigate op c) = c"
    | (fade) "fst (navigate op c) = fst (fadeOutAll c)"
    | (shown) j where "fst (navigate op c) = fst (showLayer j False c)"
    by blast
  then show ?thesis
  proof cases
    case same
    with ch show ?thesis by simp
  next
    case fade
    then show ?thesis by (simp add: fadeOutAll_def getCurrentFrame_def)
  next
    case shown
    with ch have "getCurrentFrame (fst (showLayer j False c)) \<noteq> getCurrentFrame c" by simp
    from showLayer_changes_to_loaded [OF this] shown show ?thesis by auto
  qed
qed

theorem navigate_shows_loaded_only_witness:
  "getCurrentFrame (fst (navigate Next (ex_container 4 [0, 2] 1 []))) = Some 0
   \<and> isLoaded (c_layers (ex_container 4 [0, 2] 1 []) ! 0)"
proof -
  have ch: "getCurrentFrame (fst (navigate Next (ex_container 4 [0, 2] 1 [])))
            \<noteq> getCurrentFrame (ex_container 4 [0, 2] 1 [])" by code_simp
  have v: "getCurrentFrame (fst (navigate Next (ex_container 4 [0, 2] 1 []))) = Some 0" by code_simp
  from navigate_shows_loaded_only [OF ch] v show ?thesis by simp
qed


subsection \<open>Navigation changes only the fade stack\<close>

lemma showFrame_scan_cases2:
  "showFrame_scan c t cur res is = (c, []) \<or> showFrame_scan c t cur res is = fadeOutAll c
   \<or> (\<exists>j. showFrame_scan c t cur res is = showLayer j False c)"
  by (induction c t cur res "is" rule: showFrame_scan.induct) (auto simp: Let_def)


lemma navigate_cases2:
  "navigate op c = (c, []) \<or> navigate op c = fadeOutAll c \<or> (\<exists>j. navigate op c = showLayer j False c)"
  using showFrame_scan_cases2[of c]
  by (cases op) (auto simp: showFrame_def showNextFrame_def showPreviousFrame_def Let_def)


lemma navigate_only_fade:
  "fst (navigate op c) = c\<lparr>c_fade := c_fade (fst (navigate op c))\<rparr>"
  using navigate_cases2[of op c] by (auto simp: fadeOutAll_def showLayer_state)

end
