(* ===== verification/Transition.thy ===== *)
theory Transition
  imports Prelude
begin

text \<open>
  The opacity transition engine \<open>OpenLayers.Layer.Animation.TransitionUtils\<close>
  (\<open>internal/TransitionUtils.js\<close>). Its module state is the array
  \<open>_transitionArray\<close> of transition objects; a transition continues itself with
  \<open>requestAnimationFrame(function() { transition(object); })\<close>, a closure that keeps a
  reference to the object. A restart marks the old object \<open>removed\<close> and drops it from
  the array, and the pending closure then sees the flag. Because the flag is written
  through one reference and read through another, the model keeps the objects in an
  explicit store (a list indexed by object identity): the array and the queue of pending
  animation-frame callbacks hold identities.
  The engine is generic in the type \<open>'o\<close> of the animated objects and the type \<open>'w\<close>
  of the world that holds their opacity: \<open>object.getOpacity()\<close> and
  \<open>object.setOpacity(v)\<close> are parameters. Time is the integer millisecond clock of
  \<open>new Date()\<close>.
\<close>

section \<open>Easing formulas\<close>

definition ease_linear :: "real \<Rightarrow> real" where
  "ease_linear n = n"

definition ease_in :: "real \<Rightarrow> real" where
  "ease_in n = n powr 1.7"

definition ease_out :: "real \<Rightarrow> real" where
  "ease_out n = n powr 0.48"

text \<open>\<open>Math.pow(Math.abs(x), 1 / 3) * (x < 0 ? -1 : 1)\<close>\<close>

definition js_cbrt :: "real \<Rightarrow> real" where
  "js_cbrt x = \<bar>x\<bar> powr (1 / 3) * (if x < 0 then -1 else 1)"

definition ease_in_out :: "real \<Rightarrow> real" where
  "ease_in_out n =
     (let q = 0.48 - n / 1.04; Q = sqrt (0.1734 + q * q);
          X = js_cbrt (Q - q); Y = js_cbrt (- Q - q); t = X + Y + 0.5
      in (1 - t) * 3 * t * t + t * t * t)"

definition back_s :: real where
  "back_s = 1.70158"

definition back_in :: "real \<Rightarrow> real" where
  "back_in n = n * n * ((back_s + 1) * n - back_s)"

definition back_out :: "real \<Rightarrow> real" where
  "back_out n = (let m = n - 1 in m * m * ((back_s + 1) * m + back_s) + 1)"

definition elastic :: "real \<Rightarrow> real" where
  "elastic n = (if n = 0 \<or> n = 1 then n else 2 powr (-10 * n) * sin ((n - 0.075) * (2 * pi) / 0.3) + 1)"

definition bounce :: "real \<Rightarrow> real" where
  "bounce n =
     (let s = 7.5625; p = 2.75 in
      if n < 1 / p then s * n * n
      else if n < 2 / p then (let m = n - 1.5 / p in s * m * m + 0.75)
      else if n < 2.5 / p then (let m = n - 2.25 / p in s * m * m + 0.9375)
      else (let m = n - 2.625 / p in s * m * m + 0.984375))"

text \<open>\<open>_easingFormulas[name]\<close>, \<open>None\<close> when \<open>hasOwnProperty\<close> is false.\<close>

definition easing_formula :: "string \<Rightarrow> (real \<Rightarrow> real) option" where
  "easing_formula s =
     (if s = ''linear'' then Some ease_linear
      else if s = ''ease-in'' then Some ease_in
      else if s = ''ease-out'' then Some ease_out
      else if s = ''ease-in-out'' then Some ease_in_out
      else if s = ''back-in'' then Some back_in
      else if s = ''back-out'' then Some back_out
      else if s = ''elastic'' then Some elastic
      else if s = ''bounce'' then Some bounce
      else None)"

section \<open>Engine state\<close>

text \<open>
  A transition object: \<open>{object, callback, beginValue, targetValue, transitionStyle,
  transitionTime, beginTime, removed}\<close>. The callback is always \<open>object.setOpacity\<close>;
  \<open>beginValue\<close> is \<open>None\<close> when \<open>getOpacity()\<close> gave \<open>undefined\<close>.
\<close>

record 'o tobj =
  t_object :: 'o
  t_begin :: "real option"
  t_target :: real
  t_style :: string
  t_time :: real
  t_beginTime :: "int option"
  t_removed :: bool

record 'o engine =
  e_objs :: "'o tobj list"
  e_array :: "nat list"
  e_pending :: "nat list"

definition init_engine :: "'o engine" where
  "init_engine = \<lparr>e_objs = [], e_array = [], e_pending = []\<rparr>"

section \<open>Operations\<close>

definition removeTransitionObject :: "nat \<Rightarrow> 'o engine \<Rightarrow> 'o engine" where
  "removeTransitionObject oid e = e\<lparr>e_array := remove1 oid (e_array e)\<rparr>"

text \<open>\<open>checkRestart\<close>: the first array entry for the object is marked removed and dropped.\<close>

definition checkRestart :: "'o \<Rightarrow> 'o engine \<Rightarrow> 'o engine" where
  "checkRestart obj e =
     (case find (\<lambda>oid. t_object (e_objs e ! oid) = obj) (e_array e) of
        None \<Rightarrow> e
      | Some oid \<Rightarrow>
          e\<lparr>e_objs := (e_objs e)[oid := (e_objs e ! oid)\<lparr>t_removed := True\<rparr>],
            e_array := remove1 oid (e_array e)\<rparr>)"

definition transition_valid :: "'o tobj \<Rightarrow> bool" where
  "transition_valid t \<longleftrightarrow>
     \<not> t_removed t \<and> t_begin t \<noteq> None \<and> easing_formula (t_style t) \<noteq> None \<and> 0 \<le> t_time t"

text \<open>
  One call of \<open>transition(object)\<close> at time \<open>now\<close>: write the final value and stop when
  the time is over (or the duration is 0), otherwise write the eased value and queue the
  next animation frame; an invalid or removed object is dropped from the array.
\<close>

definition transition ::
  "('o \<Rightarrow> real \<Rightarrow> 'w \<Rightarrow> 'w) \<Rightarrow> int \<Rightarrow> nat \<Rightarrow> 'o engine \<times> 'w \<Rightarrow> 'o engine \<times> 'w" where
  "transition setOp now oid ew =
     (let (e, w) = ew; t = e_objs e ! oid in
      if transition_valid t then
        (let bt = (case t_beginTime t of None \<Rightarrow> now | Some b \<Rightarrow> b);
             e1 = e\<lparr>e_objs := (e_objs e)[oid := t\<lparr>t_beginTime := Some bt\<rparr>]\<rparr>;
             b = the (t_begin t);
             f = the (easing_formula (t_style t))
         in if real_of_int bt + t_time t \<le> real_of_int now \<or> t_time t = 0
            then (removeTransitionObject oid e1, setOp (t_object t) (t_target t) w)
            else (e1\<lparr>e_pending := e_pending e1 @ [oid]\<rparr>,
                  setOp (t_object t)
                    (b + (t_target t - b) * f (real_of_int (now - bt) / t_time t)) w))
      else (removeTransitionObject oid e, w))"

text \<open>
  \<open>opacityTransition(object, targetValue, transitionStyle, time)\<close>: cancel a running
  transition of the object, push a new transition object and run its first step.
\<close>

definition opacityTransition ::
  "('o \<Rightarrow> 'w \<Rightarrow> real option) \<Rightarrow> ('o \<Rightarrow> real \<Rightarrow> 'w \<Rightarrow> 'w) \<Rightarrow> int \<Rightarrow>
   'o \<Rightarrow> real \<Rightarrow> string \<Rightarrow> real \<Rightarrow> 'o engine \<times> 'w \<Rightarrow> 'o engine \<times> 'w" where
  "opacityTransition getOp setOp now obj target style time ew =
     (let (e, w) = ew;
          e1 = checkRestart obj e;
          t = \<lparr>t_object = obj, t_begin = getOp obj w, t_target = target, t_style = style,
               t_time = time, t_beginTime = None, t_removed = False\<rparr>;
          oid = length (e_objs e1);
          e2 = e1\<lparr>e_objs := e_objs e1 @ [t], e_array := e_array e1 @ [oid]\<rparr>
      in transition setOp now oid (e2, w))"

text \<open>
  One animation frame of the browser at time \<open>now\<close>: the callbacks queued before it run
  in order; callbacks they queue run in the next frame.
\<close>

definition animation_frame ::
  "('o \<Rightarrow> real \<Rightarrow> 'w \<Rightarrow> 'w) \<Rightarrow> int \<Rightarrow> 'o engine \<times> 'w \<Rightarrow> 'o engine \<times> 'w" where
  "animation_frame setOp now ew =
     (let (e, w) = ew
      in fold (transition setOp now) (e_pending e) (e\<lparr>e_pending := []\<rparr>, w))"

section \<open>Invariant\<close>

text \<open>
  \<open>queued_inv rest e\<close> holds while the callbacks \<open>rest\<close> of the current animation
  frame are still to run: the identities queued (in \<open>rest\<close> or for the next frame) are
  distinct stored objects, and the array holds exactly the queued objects that are not
  removed, of distinct animated objects. So every live transition has its callback
  queued, and a queued callback of a finished transition is one of a cancelled one.
\<close>

definition queued_inv :: "nat list \<Rightarrow> 'o engine \<Rightarrow> bool" where
  "queued_inv rest e \<longleftrightarrow>
     distinct (e_array e)
     \<and> distinct (map (\<lambda>oid. t_object (e_objs e ! oid)) (e_array e))
     \<and> distinct (rest @ e_pending e)
     \<and> list_all (\<lambda>oid. oid < length (e_objs e)) (rest @ e_pending e)
     \<and> set (e_array e) = {oid \<in> set (rest @ e_pending e). \<not> t_removed (e_objs e ! oid)}"

definition engine_inv :: "'o engine \<Rightarrow> bool" where
  "engine_inv e = queued_inv [] e"

text \<open>
  The store only grows, keeps the animated object of every entry, and never clears a
  \<open>removed\<close> flag.
\<close>

definition store_extends :: "'o engine \<Rightarrow> 'o engine \<Rightarrow> bool" where
  "store_extends e e' \<longleftrightarrow>
     length (e_objs e) \<le> length (e_objs e')
     \<and> (\<forall>i < length (e_objs e). t_object (e_objs e' ! i) = t_object (e_objs e ! i)
          \<and> (t_removed (e_objs e ! i) \<longrightarrow> t_removed (e_objs e' ! i)))"

text \<open>The operations of the engine, as the container issues them, and their runs.\<close>

datatype 'o engine_op = StartTransition 'o real string real int | AnimationFrame int

fun engine_step ::
  "('o \<Rightarrow> 'w \<Rightarrow> real option) \<Rightarrow> ('o \<Rightarrow> real \<Rightarrow> 'w \<Rightarrow> 'w) \<Rightarrow> 'o engine_op \<Rightarrow>
   'o engine \<times> 'w \<Rightarrow> 'o engine \<times> 'w" where
  "engine_step getOp setOp (StartTransition obj target style time now) ew =
     opacityTransition getOp setOp now obj target style time ew"
| "engine_step getOp setOp (AnimationFrame now) ew = animation_frame setOp now ew"

definition run_engine ::
  "('o \<Rightarrow> 'w \<Rightarrow> real option) \<Rightarrow> ('o \<Rightarrow> real \<Rightarrow> 'w \<Rightarrow> 'w) \<Rightarrow> 'o engine_op list \<Rightarrow>
   'o engine \<times> 'w \<Rightarrow> 'o engine \<times> 'w" where
  "run_engine getOp setOp ops ew = fold (engine_step getOp setOp) ops ew"

text \<open>A world of one animated object whose opacity may be undefined, for the witnesses.\<close>

definition single_get :: "unit \<Rightarrow> real option \<Rightarrow> real option" where
  "single_get u w = w"

definition single_set :: "unit \<Rightarrow> real \<Rightarrow> real option \<Rightarrow> real option" where
  "single_set u v w = map_option (\<lambda>_. v) w"

text \<open>A linear fade from 0 to 1 over 100 ms started at time 0, still running.\<close>

definition ex_running :: "unit engine" where
  "ex_running =
     \<lparr>e_objs = [\<lparr>t_object = (), t_begin = Some 0, t_target = 1, t_style = ''linear'',
                  t_time = 100, t_beginTime = Some 0, t_removed = False\<rparr>],
      e_array = [0], e_pending = [0]\<rparr>"

section \<open>Lemmas on the store and the invariant\<close>

lemma tobj_update_object[simp]:
  "i < length xs \<Longrightarrow> t_object ((xs[i := (xs ! i)\<lparr>t_beginTime := b\<rparr>]) ! j) = t_object (xs ! j)"
  "i < length xs \<Longrightarrow> t_object ((xs[i := (xs ! i)\<lparr>t_removed := r\<rparr>]) ! j) = t_object (xs ! j)"
  "i < length xs \<Longrightarrow> t_removed ((xs[i := (xs ! i)\<lparr>t_beginTime := b\<rparr>]) ! j) = t_removed (xs ! j)"
  by (cases "i = j"; simp)+

lemma transition_cases:
  fixes setOp :: "'o \<Rightarrow> real \<Rightarrow> 'w \<Rightarrow> 'w"
  obtains (dropped) "\<not> transition_valid (e_objs e ! oid)"
    "transition setOp now oid (e, w) = (removeTransitionObject oid e, w)"
  | (finished) b where "transition_valid (e_objs e ! oid)"
    "transition setOp now oid (e, w) =
         (removeTransitionObject oid (e\<lparr>e_objs := (e_objs e)[oid := (e_objs e ! oid)\<lparr>t_beginTime := Some b\<rparr>]\<rparr>),
          setOp (t_object (e_objs e ! oid)) (t_target (e_objs e ! oid)) w)"
  | (running) b v where "transition_valid (e_objs e ! oid)"
    "transition setOp now oid (e, w) =
         (e\<lparr>e_objs := (e_objs e)[oid := (e_objs e ! oid)\<lparr>t_beginTime := Some b\<rparr>],
            e_pending := e_pending e @ [oid]\<rparr>,
          setOp (t_object (e_objs e ! oid)) v w)"
proof (cases "transition_valid (e_objs e ! oid)")
  case False
  then show ?thesis using that(1) by (simp add: transition_def)
next
  case True
  define bt where "bt = (case t_beginTime (e_objs e ! oid) of None \<Rightarrow> now | Some b \<Rightarrow> b)"
  show ?thesis
  proof (cases "real_of_int bt + t_time (e_objs e ! oid) \<le> real_of_int now \<or> t_time (e_objs e ! oid) = 0")
    case fin: True
    show ?thesis using that(2)[of bt] True fin by (simp add: transition_def Let_def bt_def)
  next
    case run: False
    show ?thesis using that(3)[of bt] True run by (simp add: transition_def Let_def bt_def)
  qed
qed

lemma queued_inv_transition:
  assumes "queued_inv (oid # rest) e"
  shows "queued_inv rest (fst (transition setOp now oid (e, w)))"
proof -
  have lt: "oid < length (e_objs e)" using assms by (simp add: queued_inv_def)
  show ?thesis
  proof (cases rule: transition_cases[of e oid setOp now w])
    case dropped
    then show ?thesis using assms
      by (auto simp: queued_inv_def removeTransitionObject_def distinct_map_remove1)
  next
    case (finished b)
    then show ?thesis using assms lt
      by (auto simp: queued_inv_def removeTransitionObject_def)
  next
    case (running b v)
    then show ?thesis using assms lt
      by (auto simp: queued_inv_def transition_valid_def)
  qed
qed

lemma queued_inv_fold:
  "queued_inv rest e \<Longrightarrow> queued_inv [] (fst (fold (transition setOp now) rest (e, w)))"
proof (induction rest arbitrary: e w)
  case (Cons oid rest)
  obtain e' w' where tr: "transition setOp now oid (e, w) = (e', w')" by fastforce
  have "queued_inv rest e'" using queued_inv_transition[OF Cons.prems, of setOp now w] tr by simp
  then show ?case using Cons.IH tr by simp
qed simp

lemma engine_inv_animation_frame:
  "engine_inv e \<Longrightarrow> engine_inv (fst (animation_frame setOp now (e, w)))"
  using queued_inv_fold[of "e_pending e" "e\<lparr>e_pending := []\<rparr>" setOp now w]
  by (simp add: animation_frame_def engine_inv_def queued_inv_def)

lemma checkRestart_inv:
  assumes "engine_inv e"
  shows "engine_inv (checkRestart obj e)"
    and "list_all (\<lambda>oid. t_object (e_objs (checkRestart obj e) ! oid) \<noteq> obj) (e_array (checkRestart obj e))"
    and "length (e_objs (checkRestart obj e)) = length (e_objs e)"
    and "e_pending (checkRestart obj e) = e_pending e"
proof -
  have lt: "\<forall>x\<in>set (e_array e). x < length (e_objs e)"
    using assms by (auto simp: engine_inv_def queued_inv_def list_all_iff)
  have "engine_inv (checkRestart obj e) \<and>
        list_all (\<lambda>oid. t_object (e_objs (checkRestart obj e) ! oid) \<noteq> obj) (e_array (checkRestart obj e))"
  proof (cases "find (\<lambda>oid. t_object (e_objs e ! oid) = obj) (e_array e)")
    case None
    moreover have "\<forall>x\<in>set (e_array e). t_object (e_objs e ! x) \<noteq> obj"
      using None by (simp add: find_None_iff)
    ultimately show ?thesis using assms by (simp add: checkRestart_def list_all_iff)
  next
    case (Some oid)
    then have oid: "oid \<in> set (e_array e)" "t_object (e_objs e ! oid) = obj"
      by (auto simp: find_Some_iff)
    then have "oid < length (e_objs e)" using lt by blast
    with Some oid assms show ?thesis
      apply (simp add: checkRestart_def engine_inv_def queued_inv_def list_all_iff)
      apply (auto simp: nth_list_update distinct_map inj_on_def)
      done
  qed
  then show "engine_inv (checkRestart obj e)"
    "list_all (\<lambda>oid. t_object (e_objs (checkRestart obj e) ! oid) \<noteq> obj) (e_array (checkRestart obj e))"
    by simp_all
  show "length (e_objs (checkRestart obj e)) = length (e_objs e)"
    "e_pending (checkRestart obj e) = e_pending e"
    by (simp_all add: checkRestart_def split: option.split)
qed

lemma queued_inv_push:
  assumes "engine_inv e" "list_all (\<lambda>oid. t_object (e_objs e ! oid) \<noteq> t_object t) (e_array e)"
    "\<not> t_removed t"
  shows "queued_inv [length (e_objs e)]
           (e\<lparr>e_objs := e_objs e @ [t], e_array := e_array e @ [length (e_objs e)]\<rparr>)"
proof -
  have lt: "\<forall>x\<in>set (e_pending e). x < length (e_objs e)"
    "\<forall>x\<in>set (e_array e). x < length (e_objs e)"
    using assms(1) by (auto simp: engine_inv_def queued_inv_def list_all_iff)
  then have meq: "map (\<lambda>oid. t_object ((e_objs e @ [t]) ! oid)) (e_array e)
             = map (\<lambda>oid. t_object (e_objs e ! oid)) (e_array e)"
    by (simp add: nth_append)
  have "distinct (map (\<lambda>oid. t_object ((e_objs e @ [t]) ! oid)) (e_array e))"
    using assms(1) unfolding meq by (simp add: engine_inv_def queued_inv_def)
  with assms lt show ?thesis
    by (auto simp: engine_inv_def queued_inv_def list_all_iff nth_append)
qed

lemma engine_inv_opacityTransition:
  assumes "engine_inv e"
  shows "engine_inv (fst (opacityTransition getOp setOp now obj target style time (e, w)))"
proof -
  define e1 where "e1 = checkRestart obj e"
  define t where "t = \<lparr>t_object = obj, t_begin = getOp obj w, t_target = target, t_style = style,
               t_time = time, t_beginTime = None, t_removed = False\<rparr>"
  have "queued_inv [length (e_objs e1)]
          (e1\<lparr>e_objs := e_objs e1 @ [t], e_array := e_array e1 @ [length (e_objs e1)]\<rparr>)"
    using checkRestart_inv[OF assms, of obj] by (intro queued_inv_push) (simp_all add: e1_def t_def)
  from queued_inv_transition[OF this, of setOp now w] show ?thesis
    by (simp add: opacityTransition_def e1_def t_def engine_inv_def Let_def)
qed

lemma engine_inv_step:
  "engine_inv e \<Longrightarrow> engine_inv (fst (engine_step getOp setOp op (e, w)))"
  by (cases op) (simp_all add: engine_inv_opacityTransition engine_inv_animation_frame)

lemma engine_inv_run:
  "engine_inv e \<Longrightarrow> engine_inv (fst (run_engine getOp setOp ops (e, w)))"
proof (induction ops arbitrary: e w)
  case (Cons op ops)
  obtain e' w' where st: "engine_step getOp setOp op (e, w) = (e', w')" by fastforce
  then have "engine_inv e'" using engine_inv_step[OF Cons.prems, of getOp setOp op w] by simp
  then show ?case using Cons.IH st by (simp add: run_engine_def)
qed (simp add: run_engine_def)

lemma store_extends_refl[simp]: "store_extends e e"
  by (simp add: store_extends_def)

lemma store_extends_trans:
  "store_extends e1 e2 \<Longrightarrow> store_extends e2 e3 \<Longrightarrow> store_extends e1 e3"
  by (auto simp: store_extends_def)

lemma store_extends_transition:
  "oid < length (e_objs e) \<Longrightarrow> store_extends e (fst (transition setOp now oid (e, w)))"
  by (cases rule: transition_cases[of e oid setOp now w])
     (auto simp: store_extends_def removeTransitionObject_def nth_list_update)

lemma nth_list_update_tobj[simp]:
  "t_object ((xs[k := (xs ! k)\<lparr>t_removed := True\<rparr>]) ! i) = t_object (xs ! i)"
  by (cases "k < length xs") (simp_all add: nth_list_update list_update_beyond)

lemma nth_list_update_removed:
  "t_removed (xs ! i) \<Longrightarrow> t_removed ((xs[k := (xs ! k)\<lparr>t_removed := True\<rparr>]) ! i)"
  by (cases "k < length xs") (simp_all add: nth_list_update list_update_beyond)

lemma store_extends_checkRestart: "store_extends e (checkRestart obj e)"
  by (auto simp: store_extends_def checkRestart_def nth_list_update_removed split: option.split)

lemma store_extends_fold:
  "list_all (\<lambda>oid. oid < length (e_objs e)) rest \<Longrightarrow>
   store_extends e (fst (fold (transition setOp now) rest (e, w)))"
proof (induction rest arbitrary: e w)
  case (Cons oid rest)
  obtain e' w' where tr: "transition setOp now oid (e, w) = (e', w')" by fastforce
  have ext: "store_extends e e'"
    using store_extends_transition[of oid e setOp now w] Cons.prems tr by simp
  then have "list_all (\<lambda>oid. oid < length (e_objs e')) rest"
    using Cons.prems by (auto simp: store_extends_def list_all_iff)
  then show ?case using Cons.IH[of e' w'] tr store_extends_trans[OF ext] by simp
qed simp

lemma store_extends_animation_frame:
  "engine_inv e \<Longrightarrow> store_extends e (fst (animation_frame setOp now (e, w)))"
  using store_extends_fold[of "e\<lparr>e_pending := []\<rparr>" "e_pending e" setOp now w]
  by (simp add: animation_frame_def engine_inv_def queued_inv_def store_extends_def)

lemma store_extends_opacityTransition_restart:
  "store_extends (checkRestart obj e) (fst (opacityTransition getOp setOp now obj target style time (e, w)))"
proof -
  define e1 where "e1 = checkRestart obj e"
  define t where "t = \<lparr>t_object = obj, t_begin = getOp obj w, t_target = target, t_style = style,
               t_time = time, t_beginTime = None, t_removed = False\<rparr>"
  define e2 where "e2 = e1\<lparr>e_objs := e_objs e1 @ [t], e_array := e_array e1 @ [length (e_objs e1)]\<rparr>"
  have "store_extends e1 e2" by (auto simp: store_extends_def e2_def nth_append)
  moreover have "store_extends e2 (fst (transition setOp now (length (e_objs e1)) (e2, w)))"
    by (rule store_extends_transition) (simp add: e2_def)
  ultimately have "store_extends e1 (fst (transition setOp now (length (e_objs e1)) (e2, w)))"
    by (rule store_extends_trans)
  then show ?thesis by (simp add: opacityTransition_def Let_def e1_def t_def e2_def)
qed

lemma store_extends_opacityTransition:
  "store_extends e (fst (opacityTransition getOp setOp now obj target style time (e, w)))"
  by (rule store_extends_trans[OF store_extends_checkRestart store_extends_opacityTransition_restart])

lemma store_extends_run:
  "engine_inv e \<Longrightarrow> store_extends e (fst (run_engine getOp setOp ops (e, w)))"
proof (induction ops arbitrary: e w)
  case (Cons op ops)
  obtain e' w' where st: "engine_step getOp setOp op (e, w) = (e', w')" by fastforce
  have "store_extends e (fst (engine_step getOp setOp op (e, w)))"
    by (cases op) (simp_all add: store_extends_animation_frame[OF Cons.prems]
                                 store_extends_opacityTransition)
  then have "store_extends e e'" using st by simp
  moreover have "engine_inv e'" using engine_inv_step[OF Cons.prems, of getOp setOp op w] st by simp
  ultimately have "store_extends e (fst (run_engine getOp setOp ops (e', w')))"
    by (rule store_extends_trans[OF _ Cons.IH])
  then show ?case using st by (simp add: run_engine_def)
qed (simp add: run_engine_def)

lemma checkRestart_removes:
  assumes "engine_inv e" "oid \<in> set (e_array e)" "t_object (e_objs e ! oid) = obj"
  shows "t_removed (e_objs (checkRestart obj e) ! oid)"
proof -
  have "find (\<lambda>oid. t_object (e_objs e ! oid) = obj) (e_array e) \<noteq> None"
    using assms(2,3) by (auto simp: find_None_iff)
  then obtain x where x: "find (\<lambda>oid. t_object (e_objs e ! oid) = obj) (e_array e) = Some x"
    by blast
  then have "x \<in> set (e_array e)" "t_object (e_objs e ! x) = obj" by (auto simp: find_Some_iff)
  then have "x = oid" using assms
    by (auto simp: engine_inv_def queued_inv_def distinct_map inj_on_def)
  moreover have "oid < length (e_objs e)" using assms
    by (auto simp: engine_inv_def queued_inv_def list_all_iff)
  ultimately show ?thesis using x by (simp add: checkRestart_def)
qed

lemma transition_world:
  assumes "t_object (e_objs e ! oid) = obj" "P w" "\<And>v w. P w \<Longrightarrow> P (setOp obj v w)"
  shows "P (snd (transition setOp now oid (e, w)))"
  by (cases rule: transition_cases[of e oid setOp now w]) (simp_all add: assms)

lemma opacityTransition_world:
  assumes "P w" "\<And>v w. P w \<Longrightarrow> P (setOp obj v w)"
  shows "P (snd (opacityTransition getOp setOp now obj target style time (e, w)))"
  unfolding opacityTransition_def Let_def split_def fst_conv snd_conv
  by (rule transition_world[where obj = obj and P = P]) (simp_all add: nth_append assms)

lemma opacityTransition_objs:
  "\<exists>bt. e_objs (fst (opacityTransition getOp setOp now obj target style time (e, w))) =
         e_objs (checkRestart obj e) @
           [\<lparr>t_object = obj, t_begin = getOp obj w, t_target = target, t_style = style,
             t_time = time, t_beginTime = bt, t_removed = False\<rparr>]"
proof -
  define e1 where "e1 = checkRestart obj e"
  define t where "t = \<lparr>t_object = obj, t_begin = getOp obj w, t_target = target, t_style = style,
               t_time = time, t_beginTime = None, t_removed = False\<rparr>"
  define e2 where "e2 = e1\<lparr>e_objs := e_objs e1 @ [t], e_array := e_array e1 @ [length (e_objs e1)]\<rparr>"
  have "\<exists>bt. e_objs (fst (transition setOp now (length (e_objs e1)) (e2, w))) = e_objs e1 @ [t\<lparr>t_beginTime := bt\<rparr>]"
  proof (cases rule: transition_cases[of e2 "length (e_objs e1)" setOp now w])
    case dropped
    then show ?thesis by (rule_tac x = None in exI) (simp add: e2_def removeTransitionObject_def t_def)
  next
    case (finished b)
    then show ?thesis by (rule_tac x = "Some b" in exI) (simp add: e2_def removeTransitionObject_def)
  next
    case (running b v)
    then show ?thesis by (rule_tac x = "Some b" in exI) (simp add: e2_def)
  qed
  then show ?thesis by (simp add: opacityTransition_def Let_def e1_def[symmetric] t_def e2_def)
qed

lemma opacityTransition_invalid:
  assumes "\<forall>x\<in>set (e_array e). x < length (e_objs e)"
    "easing_formula style = None \<or> time < 0 \<or> getOp obj w = None"
  shows "snd (opacityTransition getOp setOp now obj target style time (e, w)) = w"
    "e_array (fst (opacityTransition getOp setOp now obj target style time (e, w)))
       = e_array (checkRestart obj e)"
    "e_pending (fst (opacityTransition getOp setOp now obj target style time (e, w)))
       = e_pending e"
proof -
  define e1 where "e1 = checkRestart obj e"
  define t where "t = \<lparr>t_object = obj, t_begin = getOp obj w, t_target = target, t_style = style,
               t_time = time, t_beginTime = None, t_removed = False\<rparr>"
  define e2 where "e2 = e1\<lparr>e_objs := e_objs e1 @ [t], e_array := e_array e1 @ [length (e_objs e1)]\<rparr>"
  have lt: "\<forall>x\<in>set (e_array e1). x < length (e_objs e1)"
    using assms(1) store_extends_checkRestart[of e obj]
    by (auto simp: e1_def checkRestart_def split: option.splits dest: subsetD[OF set_remove1_subset])
  have "\<not> transition_valid (e_objs e2 ! length (e_objs e1))"
    using assms(2) by (auto simp: transition_valid_def e2_def t_def)
  then have tr: "transition setOp now (length (e_objs e1)) (e2, w)
             = (removeTransitionObject (length (e_objs e1)) e2, w)"
    by (simp add: transition_def)
  have "remove1 (length (e_objs e1)) (e_array e1 @ [length (e_objs e1)]) = e_array e1"
    using lt by (auto simp: remove1_append remove1_idem)
  moreover have "e_pending e1 = e_pending e"
    by (simp add: e1_def checkRestart_def split: option.split)
  ultimately show "snd (opacityTransition getOp setOp now obj target style time (e, w)) = w"
    "e_array (fst (opacityTransition getOp setOp now obj target style time (e, w)))
       = e_array (checkRestart obj e)"
    "e_pending (fst (opacityTransition getOp setOp now obj target style time (e, w)))
       = e_pending e"
    using tr by (simp_all add: opacityTransition_def Let_def e1_def[symmetric] t_def[symmetric]
                  e2_def removeTransitionObject_def)
qed

section \<open>Properties of the transition engine\<close>

lemma engine_inv_init[simp]: "engine_inv init_engine"
  by (simp add: engine_inv_def queued_inv_def init_engine_def)

lemma removed_transition_noop:
  assumes "engine_inv e" "oid < length (e_objs e)" "t_removed (e_objs e ! oid)"
  shows "transition setOp now oid (e, w) = (e, w)"
proof -
  have "oid \<notin> set (e_array e)" using assms by (auto simp: engine_inv_def queued_inv_def)
  then show ?thesis using assms(3)
    by (simp add: transition_def transition_valid_def removeTransitionObject_def remove1_idem)
qed

text \<open>
  C12: every engine state reached from the empty array by any sequence of
  \<open>opacityTransition\<close> calls and animation frames satisfies the invariant: at most one
  live transition per animated object, and exactly the live transitions have a callback
  queued.
\<close>

theorem transition_engine_reachable_inv:
  "engine_inv (fst (run_engine getOp setOp ops (init_engine, w)))"
  by (rule engine_inv_run) simp

text \<open>
  C11: restarting a transition on an object that has one running cancels it for good:
  whatever happens afterwards, the old transition's queued callback neither writes an
  opacity nor changes the engine.
\<close>

theorem restart_cancels_previous:
  assumes "engine_inv e" "oid \<in> set (e_array e)" "t_object (e_objs e ! oid) = obj"
  shows "let E = fst (run_engine getOp setOp ops
                   (opacityTransition getOp setOp now obj target style time (e, w)))
         in transition setOp now' oid (E, w') = (E, w')"
proof -
  obtain e1 w1 where o: "opacityTransition getOp setOp now obj target style time (e, w) = (e1, w1)"
    by fastforce
  define E where "E = fst (run_engine getOp setOp ops (e1, w1))"
  have lt: "oid < length (e_objs e)" using assms
    by (auto simp: engine_inv_def queued_inv_def list_all_iff)
  have "store_extends (checkRestart obj e) e1"
    using store_extends_opacityTransition_restart[of obj e getOp setOp now target style time w] o
    by simp
  moreover have "store_extends e1 E" unfolding E_def
    using engine_inv_opacityTransition[OF assms(1), of getOp setOp now obj target style time w] o
    by (intro store_extends_run) simp
  ultimately have ext: "store_extends (checkRestart obj e) E" by (rule store_extends_trans)
  have "t_removed (e_objs E ! oid)" "oid < length (e_objs E)"
    using checkRestart_removes[OF assms] checkRestart_inv(3)[OF assms(1), of obj] lt ext
    by (auto simp: store_extends_def)
  moreover have "engine_inv E" unfolding E_def
    using engine_inv_opacityTransition[OF assms(1), of getOp setOp now obj target style time w] o
    by (intro engine_inv_run) simp
  ultimately have "transition setOp now' oid (E, w') = (E, w')"
    by (simp add: removed_transition_noop)
  then show ?thesis using o by (simp add: E_def Let_def)
qed

text \<open>A single transition run frame by frame.\<close>

lemma single_transition_run:
  fixes t0 :: int and ts :: "int list" and b tg T :: real
  assumes f: "easing_formula st = Some f" and T: "0 \<le> T"
  defines "o0 \<equiv> \<lparr>t_object = (), t_begin = Some b, t_target = tg, t_style = st, t_time = T,
                t_beginTime = Some t0, t_removed = False\<rparr>"
      and "fin \<equiv> \<lambda>ts. T = 0 \<or> (\<exists>t\<in>set ts. real_of_int t0 + T \<le> real_of_int t)"
  shows "run_engine single_get single_set (StartTransition () tg st T t0 # map AnimationFrame ts)
           (init_engine, Some b) =
         (\<lparr>e_objs = [o0], e_array = (if fin ts then [] else [0]),
            e_pending = (if fin ts then [] else [0])\<rparr>,
          Some (if fin ts then tg
                else b + (tg - b) * f (real_of_int (last (t0 # ts) - t0) / T)))"
proof (induction ts rule: rev_induct)
  case Nil
  have "transition_valid (o0\<lparr>t_beginTime := None\<rparr>)"
    using f T by (simp add: transition_valid_def o0_def)
  then show ?case using f T
    by (auto simp: run_engine_def opacityTransition_def checkRestart_def init_engine_def
          transition_def Let_def removeTransitionObject_def single_get_def single_set_def
          o0_def fin_def)
next
  case (snoc t ts)
  have v: "transition_valid o0" using f T by (simp add: transition_valid_def o0_def)
  show ?case
  proof (cases "fin ts")
    case True
    then have "fin (ts @ [t])" by (auto simp: fin_def)
    then show ?thesis using snoc True by (simp add: run_engine_def animation_frame_def)
  next
    case False
    then show ?thesis using snoc v f
      by (auto simp: run_engine_def animation_frame_def transition_def Let_def
            removeTransitionObject_def single_set_def o0_def fin_def)
  qed
qed

text \<open>
  C10: a transition of duration \<open>T \<ge> 0\<close> with a known style, started at \<open>t0\<close> from
  opacity \<open>b\<close>, writes at each animation frame the eased value
  \<open>b + (target - b) * f ((now - t0) / T)\<close> and, at the first frame with
  \<open>now \<ge> t0 + T\<close> (at once when \<open>T = 0\<close>), exactly the target, after which it stops.
\<close>

theorem transition_follows_easing:
  fixes t0 :: int and ts :: "int list"
  assumes "easing_formula st = Some f" "0 \<le> T"
  shows "snd (run_engine single_get single_set (StartTransition () tg st T t0 # map AnimationFrame ts)
                (init_engine, Some b)) =
         Some (if T = 0 \<or> (\<exists>t\<in>set ts. real_of_int t0 + T \<le> real_of_int t) then tg
               else b + (tg - b) * f (real_of_int (last (t0 # ts) - t0) / T))"
  using single_transition_run[OF assms, of tg t0 ts b] by simp

theorem transition_follows_easing_witness:
  "easing_formula ''linear'' = Some ease_linear \<and> (0::real) \<le> 100 \<and>
   snd (run_engine single_get single_set
          (StartTransition () 1 ''linear'' 100 0 # map AnimationFrame [50]) (init_engine, Some 0))
     = Some (1 / 2) \<and>
   snd (run_engine single_get single_set
          (StartTransition () 1 ''linear'' 100 0 # map AnimationFrame [50, 100]) (init_engine, Some 0))
     = Some 1"
  using transition_follows_easing[of "''linear''" ease_linear 100 1 0 "[50]" 0]
        transition_follows_easing[of "''linear''" ease_linear 100 1 0 "[50, 100]" 0]
  by (simp add: easing_formula_def ease_linear_def)

text \<open>
  C13: a request with an unknown style, a negative time or an object without opacity writes
  nothing, but it still cancels the running transition of the object, which stays at its
  intermediate opacity (the API comment says such a request is ignored).
\<close>

theorem invalid_request_cancels_running:
  assumes "engine_inv e" "easing_formula style = None \<or> time < 0 \<or> getOp obj w = None"
  shows "let (e', w') = opacityTransition getOp setOp now obj target style time (e, w)
         in w' = w \<and> list_all (\<lambda>oid. t_object (e_objs e' ! oid) \<noteq> obj) (e_array e')"
proof -
  have lt: "\<forall>x\<in>set (e_array e). x < length (e_objs e)"
    using assms(1) by (auto simp: engine_inv_def queued_inv_def list_all_iff)
  have inv1: "engine_inv (checkRestart obj e)"
    and other: "list_all (\<lambda>oid. t_object (e_objs (checkRestart obj e) ! oid) \<noteq> obj)
                  (e_array (checkRestart obj e))"
    using checkRestart_inv[OF assms(1), of obj] by simp_all
  then have lt1: "\<forall>x\<in>set (e_array (checkRestart obj e)). x < length (e_objs (checkRestart obj e))"
    by (auto simp: engine_inv_def queued_inv_def list_all_iff)
  obtain bt where objs: "e_objs (fst (opacityTransition getOp setOp now obj target style time (e, w))) =
         e_objs (checkRestart obj e) @
           [\<lparr>t_object = obj, t_begin = getOp obj w, t_target = target, t_style = style,
             t_time = time, t_beginTime = bt, t_removed = False\<rparr>]"
    using opacityTransition_objs[of getOp setOp now obj target style time e w] by (elim exE)
  note inv = opacityTransition_invalid[where getOp = getOp and setOp = setOp and now = now and
            target = target, OF lt assms(2)]
  have "\<forall>oid\<in>set (e_array (fst (opacityTransition getOp setOp now obj target style time (e, w)))).
          t_object (e_objs (fst (opacityTransition getOp setOp now obj target style time (e, w))) ! oid)
            \<noteq> obj"
  proof
    fix oid
    assume "oid \<in> set (e_array (fst (opacityTransition getOp setOp now obj target style time (e, w))))"
    then have m: "oid \<in> set (e_array (checkRestart obj e))" using inv(2) by simp
    then have "oid < length (e_objs (checkRestart obj e))" using lt1 by blast
    then show "t_object (e_objs (fst (opacityTransition getOp setOp now obj target style time (e, w))) ! oid)
            \<noteq> obj"
      using m other objs by (simp add: nth_append list_all_iff)
  qed
  then show ?thesis using inv(1)
    by (cases "opacityTransition getOp setOp now obj target style time (e, w)")
       (simp add: list_all_iff)
qed

lemma ex_running_inv: "engine_inv ex_running"
  by (auto simp: engine_inv_def queued_inv_def ex_running_def)

theorem restart_cancels_previous_witness:
  "engine_inv ex_running \<and> 0 \<in> set (e_array ex_running) \<and> t_object (e_objs ex_running ! 0) = () \<and>
   (let E = fst (run_engine single_get single_set [AnimationFrame 50]
                 (opacityTransition single_get single_set 20 () 0 ''linear'' 100
                   (ex_running, Some (1 / 2))))
    in transition single_set 60 0 (E, Some (3 / 10)) = (E, Some (3 / 10)))"
proof -
  have h: "0 \<in> set (e_array ex_running)" "t_object (e_objs ex_running ! 0) = ()"
    by (simp_all add: ex_running_def)
  show ?thesis
    using ex_running_inv h restart_cancels_previous[OF ex_running_inv h, of single_get single_set
      "[AnimationFrame 50]" 20 0 "''linear''" 100 "Some (1 / 2)" 60 "Some (3 / 10)"]
    by blast
qed

theorem invalid_request_cancels_running_witness:
  "engine_inv ex_running \<and> easing_formula ''fade'' = None \<and>
   (let (e', w') = opacityTransition single_get single_set 50 () 0 ''fade'' 100 (ex_running, Some (1 / 2))
    in w' = Some (1 / 2) \<and> list_all (\<lambda>oid. t_object (e_objs e' ! oid) \<noteq> ()) (e_array e')) \<and>
   e_array (fst (opacityTransition single_get single_set 50 () 0 ''fade'' 100 (ex_running, Some (1 / 2))))
     = []"
proof -
  have h: "easing_formula ''fade'' = None" by (simp add: easing_formula_def)
  have "e_array (fst (opacityTransition single_get single_set 50 () 0 ''fade'' 100
                    (ex_running, Some (1 / 2)))) = []"
    by (simp add: ex_running_def h opacityTransition_def checkRestart_def transition_def
        transition_valid_def removeTransitionObject_def)
  then show ?thesis
    using ex_running_inv h invalid_request_cancels_running[OF ex_running_inv, of "''fade''" 100
      single_get "()" "Some (1 / 2)" single_set 50 0]
    by blast
qed

end
