(* ===== verification/Container.thy ===== *)
theory Container
  imports Presentation Transition
begin

text \<open>
  The whole \<open>LayerContainer\<close> with its collaborators: the container record of
  \<open>Presentation\<close>, the frames of \<open>Frame\<close>, the load scheduling of \<open>Scheduler\<close> and the
  opacity transitions of \<open>Transition\<close>, composed as in \<open>LayerContainer.js\<close>.
  A state is the transition engine together with the system: the container, the
  observer's log of notifications, and the browser's queue of animation-frame callbacks
  (transition steps and the \<open>showAnimation\<close> loop), in the order they were requested.
  The animated objects of the engine are the \<open>LayerObject\<close>s, named by the generation of
  \<open>_layers\<close> they belong to and their index in it: \<open>reset\<close> releases every frame and
  starts a new generation, so a transition of a released frame never reaches a frame
  created later at the same index, as in the code where it holds a reference to the
  released object. Every operation takes the clock value \<open>now\<close> of \<open>new Date()\<close>.
\<close>

section \<open>Fade transitions\<close>

definition defaultFadeInTimeMs :: real where
  "defaultFadeInTimeMs = 50"

definition defaultFadeOutTimeMs :: real where
  "defaultFadeOutTimeMs = 200"

definition defaultFadeInTimingFunction :: string where
  "defaultFadeInTimingFunction = ''ease-out''"

definition defaultFadeOutTimingFunction :: string where
  "defaultFadeOutTimingFunction = ''ease-out''"

text \<open>
  The time and timing function of \<open>startTransitionFadeIn\<close>/\<open>startTransitionFadeOut\<close>.
  The callers never pass a time, so the configured time (a number \<open>\<ge> 0\<close>) or the default
  is used. The timing function is overridden under the condition
  \<open>!timingFunction && typeof timingFunction === "string"\<close>, which only the empty string
  satisfies.
\<close>

definition fadeIn_time :: "container \<Rightarrow> real" where
  "fadeIn_time c =
     (case c_anim c of
        Some a \<Rightarrow> (case an_fadeIn_time a of
                    Some t \<Rightarrow> if an_fadeIn a \<and> 0 \<le> t then t else defaultFadeInTimeMs
                  | None \<Rightarrow> defaultFadeInTimeMs)
      | None \<Rightarrow> defaultFadeInTimeMs)"

definition fadeIn_timing :: "container \<Rightarrow> string" where
  "fadeIn_timing c =
     (case c_anim c of
        Some a \<Rightarrow> (case an_fadeIn_timing a of
                    Some s \<Rightarrow> if an_fadeIn a \<and> s = [] then s else defaultFadeInTimingFunction
                  | None \<Rightarrow> defaultFadeInTimingFunction)
      | None \<Rightarrow> defaultFadeInTimingFunction)"

definition fadeOut_time :: "container \<Rightarrow> real" where
  "fadeOut_time c =
     (case c_anim c of
        Some a \<Rightarrow> (case an_fadeOut_time a of
                    Some t \<Rightarrow> if an_fadeOut a \<and> 0 \<le> t then t else defaultFadeOutTimeMs
                  | None \<Rightarrow> defaultFadeOutTimeMs)
      | None \<Rightarrow> defaultFadeOutTimeMs)"

definition fadeOut_timing :: "container \<Rightarrow> string" where
  "fadeOut_timing c =
     (case c_anim c of
        Some a \<Rightarrow> (case an_fadeOut_timing a of
                    Some s \<Rightarrow> if an_fadeOut a \<and> s = [] then s else defaultFadeOutTimingFunction
                  | None \<Rightarrow> defaultFadeOutTimingFunction)
      | None \<Rightarrow> defaultFadeOutTimingFunction)"

section \<open>System state\<close>

type_synonym frame_ref = "nat \<times> nat"

datatype raf_cb = RafTransition nat | RafShowAnimation

text \<open>
  The data an observer callback reads from the layer objects it is given when it is
  called: the frame time of each object's configuration and its load error.
\<close>

type_synonym frame_info = "int \<times> string option"

record system =
  s_c :: container
  s_gen :: nat
  s_obs :: "notification list"
  s_cb :: "(notification \<times> frame_info list) list"
  s_raf :: "raf_cb list"

type_synonym astate = "frame_ref engine \<times> system"

definition init_system :: system where
  "init_system = \<lparr>s_c = init_container, s_gen = 0, s_obs = [], s_cb = [], s_raf = []\<rparr>"

definition init_astate :: astate where
  "init_astate = (init_engine, init_system)"

text \<open>
  \<open>object.getOpacity()\<close> and \<open>object.setOpacity(v)\<close> of a \<open>LayerObject\<close> as seen by the
  transition engine: a frame of an earlier generation has been released and has no layer.
\<close>

definition frame_getOp :: "frame_ref \<Rightarrow> system \<Rightarrow> real option" where
  "frame_getOp r s =
     (case r of (g, i) \<Rightarrow>
        if g = s_gen s \<and> i < length (c_layers (s_c s))
        then frame_getOpacity (c_layers (s_c s) ! i) else None)"

definition update_frame :: "nat \<Rightarrow> (frame \<Rightarrow> frame) \<Rightarrow> system \<Rightarrow> system" where
  "update_frame i f s =
     s\<lparr>s_c := (s_c s)\<lparr>c_layers := (c_layers (s_c s))[i := f (c_layers (s_c s) ! i)]\<rparr>\<rparr>"

definition frame_setOp :: "frame_ref \<Rightarrow> real \<Rightarrow> system \<Rightarrow> system" where
  "frame_setOp r v s =
     (case r of (g, i) \<Rightarrow>
        if g = s_gen s \<and> i < length (c_layers (s_c s)) then update_frame i (frame_setOpacity v) s
        else s)"

text \<open>The callbacks the engine requested with \<open>requestAnimationFrame\<close> join the browser's queue.\<close>

definition flush_raf :: "astate \<Rightarrow> astate" where
  "flush_raf es =
     (case es of (e, s) \<Rightarrow>
        (e\<lparr>e_pending := []\<rparr>, s\<lparr>s_raf := s_raf s @ map RafTransition (e_pending e)\<rparr>))"

definition startTransitionFadeIn :: "int \<Rightarrow> nat \<Rightarrow> real \<Rightarrow> astate \<Rightarrow> astate" where
  "startTransitionFadeIn now i opacity es =
     (case es of (e, s) \<Rightarrow>
        flush_raf (opacityTransition frame_getOp frame_setOp now (s_gen s, i) opacity
                     (fadeIn_timing (s_c s)) (fadeIn_time (s_c s)) (e, s)))"

definition startTransitionFadeOut :: "int \<Rightarrow> nat \<Rightarrow> real \<Rightarrow> astate \<Rightarrow> astate" where
  "startTransitionFadeOut now i opacity es =
     (case es of (e, s) \<Rightarrow>
        flush_raf (opacityTransition frame_getOp frame_setOp now (s_gen s, i) opacity
                     (fadeOut_timing (s_c s)) (fadeOut_time (s_c s)) (e, s)))"

text \<open>The layer objects an observer callback receives (\<open>[layer]\<close>, a group, or none).\<close>

fun note_frames :: "notification \<Rightarrow> nat list" where
  "note_frames LoadAnimationStarted = []"
| "note_frames (LoadFrameStarted i) = [i]"
| "note_frames (LoadFrameComplete i) = [i]"
| "note_frames (LoadGroupProgress g) = g"
| "note_frames (LoadComplete g) = g"
| "note_frames (FrameContentReleased i) = [i]"
| "note_frames (FrameChanged i) = [i]"

definition frame_info :: "frame \<Rightarrow> frame_info" where
  "frame_info f = (cfg_time (f_config f), f_error f)"

text \<open>\<open>if (observer) observer.<callback>(objects)\<close>: the call and what it reads.\<close>

definition notify :: "notification \<Rightarrow> astate \<Rightarrow> astate" where
  "notify n es =
     (case es of (e, s) \<Rightarrow>
        (e, s\<lparr>s_obs := s_obs s @ [n],
              s_cb := s_cb s @ [(n, map (\<lambda>i. frame_info (c_layers (s_c s) ! i)) (note_frames n))]\<rparr>))"

fun run_effect :: "int \<Rightarrow> effect \<Rightarrow> astate \<Rightarrow> astate" where
  "run_effect now (FadeOut i opacity) es = startTransitionFadeOut now i opacity es"
| "run_effect now (FadeIn i opacity) es = startTransitionFadeIn now i opacity es"
| "run_effect now (Notify n) es = notify n es"

definition run_effects :: "int \<Rightarrow> effect list \<Rightarrow> astate \<Rightarrow> astate" where
  "run_effects now effs es = fold (run_effect now) effs es"

text \<open>
  A container operation of \<open>Presentation\<close> with its effects run in order. The effects only
  touch the frames' layers and the engine, which the operation leaves alone, so running
  them after the update of the fade stack is the order of the code.
\<close>

definition with_container :: "(container \<Rightarrow> container \<times> effect list) \<Rightarrow> int \<Rightarrow> astate \<Rightarrow> astate" where
  "with_container f now es =
     (case es of (e, s) \<Rightarrow>
        (case f (s_c s) of (c', effs) \<Rightarrow> run_effects now effs (e, s\<lparr>s_c := c'\<rparr>)))"

definition update_c :: "(container \<Rightarrow> container) \<Rightarrow> astate \<Rightarrow> astate" where
  "update_c f es = (case es of (e, s) \<Rightarrow> (e, s\<lparr>s_c := f (s_c s)\<rparr>))"

section \<open>Animation flow\<close>

definition stopShowAnimation :: "astate \<Rightarrow> astate" where
  "stopShowAnimation = update_c (\<lambda>c. c\<lparr>c_reqTime := None\<rparr>)"

text \<open>
  \<open>showAnimation\<close>: while the flow runs, request the next animation frame, and show the
  next frame when more than \<open>_animationFrameRate\<close> ms have passed since the last one.
\<close>

definition showAnimation :: "int \<Rightarrow> astate \<Rightarrow> astate" where
  "showAnimation now es =
     (case es of (e, s) \<Rightarrow>
        (case c_reqTime (s_c s) of
           None \<Rightarrow> es
         | Some t \<Rightarrow>
             (let s1 = s\<lparr>s_raf := s_raf s @ [RafShowAnimation]\<rparr> in
              if t + c_frameRate (s_c s) < now
              then with_container showNextFrame now (e, s1\<lparr>s_c := (s_c s1)\<lparr>c_reqTime := Some now\<rparr>\<rparr>)
              else (e, s1))))"

definition startShowAnimation :: "int \<Rightarrow> astate \<Rightarrow> astate" where
  "startShowAnimation now es =
     (if c_reqTime (s_c (snd es)) = None
      then showAnimation now (update_c (\<lambda>c. c\<lparr>c_reqTime := Some now\<rparr>) es)
      else es)"

definition startAnimation :: "int \<Rightarrow> astate \<Rightarrow> astate" where
  "startAnimation now es = startShowAnimation now es"

definition pauseAnimation :: "astate \<Rightarrow> astate" where
  "pauseAnimation es = stopShowAnimation es"

definition stopAnimation :: "int \<Rightarrow> astate \<Rightarrow> astate" where
  "stopAnimation now es = with_container fadeOutAll now (pauseAnimation es)"

section \<open>Loading\<close>

definition run_nextLayerLoad :: "astate \<Rightarrow> astate" where
  "run_nextLayerLoad =
     update_c (\<lambda>c. case nextLayerLoad (c_maxAsync c) (c_loadStep c) (c_layers c) of
                     (step, fs) \<Rightarrow> c\<lparr>c_loadStep := step, c_layers := fs\<rparr>)"

definition run_resetLoadStep :: "astate \<Rightarrow> astate" where
  "run_resetLoadStep =
     update_c (\<lambda>c. case resetLoadStep (c_layers c) of
                     (step, gstep) \<Rightarrow> c\<lparr>c_loadStep := step, c_gls := gstep\<rparr>)"

definition loadAllLayers :: "astate \<Rightarrow> astate" where
  "loadAllLayers es =
     (if c_visibility (s_c (snd es))
      then run_nextLayerLoad (run_resetLoadStep (notify LoadAnimationStarted es))
      else es)"

definition layerLoadStartCallback :: "nat \<Rightarrow> astate \<Rightarrow> astate" where
  "layerLoadStartCallback i es =
     (case es of (e, s) \<Rightarrow>
        notify (LoadFrameStarted i)
          (e, if getCurrentFrame (s_c s) \<noteq> Some i then update_frame i (frame_setOpacity 0) s else s))"

definition run_showLayer :: "int \<Rightarrow> nat \<Rightarrow> bool \<Rightarrow> astate \<Rightarrow> astate" where
  "run_showLayer now i force es = with_container (showLayer i force) now es"

text \<open>
  \<open>layerLoadEndCallback\<close>: group accounting and its notifications, showing the current
  frame again, the next loads, and the automatic start once everything is loaded.
\<close>

definition layerLoadEndCallback :: "int \<Rightarrow> nat \<Rightarrow> astate \<Rightarrow> astate" where
  "layerLoadEndCallback now i es =
     (case group_progress (c_layers (s_c (snd es))) (c_gls (s_c (snd es))) of
        (gls, grp, all_loaded) \<Rightarrow>
          (let es1 = notify (LoadFrameComplete i) (update_c (\<lambda>c. c\<lparr>c_gls := gls\<rparr>) es);
               es2 = (case grp of None \<Rightarrow> es1 | Some g \<Rightarrow> notify (LoadGroupProgress g) es1);
               es3 = (case grp of
                        Some g \<Rightarrow> if all_loaded then notify (LoadComplete g) es2 else es2
                      | None \<Rightarrow> es2);
               es4 = (if getCurrentFrame (s_c (snd es3)) = Some i then run_showLayer now i True es3
                      else es3);
               es5 = run_nextLayerLoad es4;
               c5 = s_c (snd es5)
           in if c_gls c5 = 0 \<and> (case c_anim c5 of Some a \<Rightarrow> an_autoStart a | None \<Rightarrow> False)
              then startAnimation now es5 else es5))"

section \<open>Layer events\<close>

text \<open>The events of the OpenLayers layer of frame \<open>i\<close>, with the container as its observer.\<close>

definition ev_loadstart :: "nat \<Rightarrow> astate \<Rightarrow> astate" where
  "ev_loadstart i es =
     layerLoadStartCallback i (fst es, update_frame i frame_loadstart (snd es))"

definition ev_loadend :: "int \<Rightarrow> nat \<Rightarrow> astate \<Rightarrow> astate" where
  "ev_loadend now i es =
     (case frame_loadend (c_layers (s_c (snd es)) ! i) of
        (f, informed) \<Rightarrow>
          (let es1 = (fst es, update_frame i (\<lambda>_. f) (snd es))
           in if informed then layerLoadEndCallback now i es1 else es1))"

definition ev_tileerror :: "string \<Rightarrow> nat \<Rightarrow> astate \<Rightarrow> astate" where
  "ev_tileerror err i es = (fst es, update_frame i (frame_tileerror err) (snd es))"

text \<open>
  \<open>_mapEvents.movestart\<close>: hide every frame but the current one (their content must be
  reloaded), tell the observer, and start the load flow again.
\<close>

definition movestart_frame :: "astate \<Rightarrow> nat \<Rightarrow> astate" where
  "movestart_frame es i =
     notify (FrameContentReleased i)
       (if getCurrentFrame (s_c (snd es)) \<noteq> Some i
        then (fst es, update_frame i (frame_setVisibility False) (snd es)) else es)"

definition movestart :: "astate \<Rightarrow> astate" where
  "movestart es =
     loadAllLayers (fold (\<lambda>i es. movestart_frame es i) [0..<length (c_layers (s_c (snd es)))] es)"

section \<open>Setters\<close>

definition setBeginTime :: "time_arg \<Rightarrow> container \<Rightarrow> container" where
  "setBeginTime t c =
     (case t of
        TimeUndefined \<Rightarrow> c
      | TimeDate d \<Rightarrow> c\<lparr>c_begin := Some d\<rparr>
      | TimeNumber n \<Rightarrow> c\<lparr>c_begin := Some n\<rparr>
      | TimeInvalid \<Rightarrow> c\<lparr>c_begin := None\<rparr>)"

definition setEndTime :: "time_arg \<Rightarrow> container \<Rightarrow> container" where
  "setEndTime t c =
     (case t of
        TimeUndefined \<Rightarrow> c
      | TimeDate d \<Rightarrow> c\<lparr>c_end := Some d\<rparr>
      | TimeNumber n \<Rightarrow> c\<lparr>c_end := Some n\<rparr>
      | TimeInvalid \<Rightarrow> c\<lparr>c_end := None\<rparr>)"

definition setResolutionTime :: "real option \<Rightarrow> container \<Rightarrow> container" where
  "setResolutionTime t c =
     (case t of Some r \<Rightarrow> if 1 \<le> r then c\<lparr>c_resolution := Some \<lfloor>r\<rfloor>\<rparr> else c | None \<Rightarrow> c)"

definition setFrameRate :: "int option \<Rightarrow> container \<Rightarrow> container" where
  "setFrameRate r c =
     (case r of Some x \<Rightarrow> c\<lparr>c_frameRate := (if x < 0 then 0 else x)\<rparr> | None \<Rightarrow> c)"

text \<open>
  The loop of \<open>setFadeOutOpacities\<close>: accept every value in \<open>[0, 1]\<close>, inserting it at the
  front (\<open>container.splice(0, 0, opacity)\<close>), and fail at the first other value.
\<close>

fun accept_opacities :: "real option list \<Rightarrow> real list \<Rightarrow> real list option" where
  "accept_opacities [] acc = Some acc"
| "accept_opacities (None # os) acc = None"
| "accept_opacities (Some x # os) acc =
     (if x < 0 \<or> 1 < x then None else accept_opacities os (x # acc))"

definition setFadeOutOpacities :: "real option list option \<Rightarrow> container \<Rightarrow> container" where
  "setFadeOutOpacities ops c =
     (case ops of
        None \<Rightarrow> c\<lparr>c_fadeOutOpacities := None\<rparr>
      | Some os \<Rightarrow>
          if os = [] then c\<lparr>c_fadeOutOpacities := None\<rparr>
          else (case accept_opacities os [] of
                  Some acc \<Rightarrow> c\<lparr>c_fadeOutOpacities := Some acc\<rparr>
                | None \<Rightarrow> c))"

definition setMaxAsyncLoadCount :: "int option \<Rightarrow> container \<Rightarrow> container" where
  "setMaxAsyncLoadCount m c =
     (case m of None \<Rightarrow> c\<lparr>c_maxAsync := -1\<rparr>
      | Some x \<Rightarrow> c\<lparr>c_maxAsync := (if x = 0 then -1 else x)\<rparr>)"

section \<open>Visibility, opacity, reset and loading of the animation\<close>

definition hide_frame :: "astate \<Rightarrow> nat \<Rightarrow> astate" where
  "hide_frame es i =
     notify (FrameContentReleased i) (fst es, update_frame i (frame_setVisibility False) (snd es))"

definition setVisibility :: "int \<Rightarrow> bool \<Rightarrow> astate \<Rightarrow> astate" where
  "setVisibility now v es =
     (if c_visibility (s_c (snd es)) \<noteq> v then
        (let es1 = update_c (\<lambda>c. c\<lparr>c_visibility := v\<rparr>) es in
         if \<not> v then
           (let es2 = stopAnimation now es1
            in fold (\<lambda>i es. hide_frame es i) [0..<length (c_layers (s_c (snd es2)))] es2)
         else loadAllLayers es1)
      else es)"

definition opacity_frame :: "real \<Rightarrow> frame \<Rightarrow> frame" where
  "opacity_frame v f =
     (case frame_getOpacity f of Some x \<Rightarrow> if 0 < x then frame_setOpacity v f else f | None \<Rightarrow> f)"

definition setOpacity :: "real \<Rightarrow> astate \<Rightarrow> astate" where
  "setOpacity v es =
     (if c_opacity (s_c (snd es)) \<noteq> v
      then update_c (\<lambda>c. c\<lparr>c_opacity := v, c_layers := map (opacity_frame v) (c_layers c)\<rparr>) es
      else es)"

text \<open>
  \<open>reset\<close>: stop, empty the fade stack, remove and release the frames one by one from the
  front of \<open>_layers\<close> telling the observer, and reset the load steps. The released frames
  are the last of their generation.
\<close>

definition reset :: "int \<Rightarrow> astate \<Rightarrow> astate" where
  "reset now es =
     (let es1 = update_c (\<lambda>c. c\<lparr>c_fade := []\<rparr>) (stopAnimation now es);
          n = length (c_layers (s_c (snd es1)));
          es2 = fold (\<lambda>i es. notify (FrameContentReleased i)
                                (fst es, update_frame i releaseContent (snd es))) [0..<n] es1;
          es3 = (fst es2, (snd es2)\<lparr>s_c := (s_c (snd es2))\<lparr>c_layers := []\<rparr>,
                                    s_gen := Suc (s_gen (snd es2))\<rparr>)
      in run_resetLoadStep es3)"

text \<open>\<open>for (layerTime = begin; layerTime <= end; layerTime += resolutionTime)\<close>\<close>

function frame_times :: "int \<Rightarrow> int \<Rightarrow> int \<Rightarrow> int list" where
  "frame_times t e r = (if 0 < r \<and> t \<le> e then t # frame_times (t + r) e r else [])"
  by pat_completeness auto
termination
  by (relation "measure (\<lambda>(t, e, r). nat (e - t + 1))") auto

declare frame_times.simps [simp del]

definition loadAnimation :: "int \<Rightarrow> astate \<Rightarrow> astate" where
  "loadAnimation now es =
     (let c = s_c (snd es); r = getResolutionTime c in
      case (c_map c, c_config c, c_begin c, c_end c) of
        (Some m, Some cfg, Some b, Some e) \<Rightarrow>
          if r \<noteq> 0 \<and> b \<le> e then
            loadAllLayers
              (update_c (\<lambda>c. c\<lparr>c_layers :=
                                 map (\<lambda>t. new_frame (cfg\<lparr>cfg_time := t\<rparr>)) (frame_times b e r)\<rparr>)
                 (reset now es))
          else es
      | _ \<Rightarrow> es)"

definition autoLoad :: "container \<Rightarrow> bool" where
  "autoLoad c = (case c_anim c of Some a \<Rightarrow> an_autoLoad a | None \<Rightarrow> False)"

definition setMap :: "int \<Rightarrow> nat option \<Rightarrow> astate \<Rightarrow> astate" where
  "setMap now m es =
     (if c_map (s_c (snd es)) \<noteq> m then
        (let es1 = update_c (\<lambda>c. c\<lparr>c_map := m\<rparr>) es in
         if m \<noteq> None \<and> autoLoad (s_c (snd es1)) then loadAnimation now es1 else es1)
      else es)"

definition setConfig :: "int \<Rightarrow> frame_config option \<Rightarrow> anim_config option \<Rightarrow> astate \<Rightarrow> astate" where
  "setConfig now cfg anim es =
     (let es1 = update_c (\<lambda>c. c\<lparr>c_config := cfg, c_anim := anim\<rparr>) es in
      case anim of
        None \<Rightarrow> es1
      | Some a \<Rightarrow>
          (let es2 = update_c (\<lambda>c.
                       (let c1 = setFrameRate (an_frameRate a) (setMaxAsyncLoadCount (an_maxAsyncLoadCount a)
                                   (setResolutionTime (an_resolutionTime a)
                                     (setEndTime (an_endTime a) (setBeginTime (an_beginTime a) c))))
                        in if an_fadeOut a then setFadeOutOpacities (an_fadeOut_opacities a) c1 else c1)) es1
           in if an_autoLoad a \<and> c_map (s_c (snd es2)) \<noteq> None then loadAnimation now es2 else es2))"

section \<open>The browser's animation frame\<close>

text \<open>
  One animation frame at time \<open>now\<close>: the callbacks queued before it run in order
  (transition steps and \<open>showAnimation\<close>); what they request runs in the next frame.
\<close>

fun raf_callback :: "int \<Rightarrow> raf_cb \<Rightarrow> astate \<Rightarrow> astate" where
  "raf_callback now (RafTransition oid) es = flush_raf (transition frame_setOp now oid es)"
| "raf_callback now RafShowAnimation es = showAnimation now es"

definition browser_frame :: "int \<Rightarrow> astate \<Rightarrow> astate" where
  "browser_frame now es =
     fold (raf_callback now) (s_raf (snd es)) (fst es, (snd es)\<lparr>s_raf := []\<rparr>)"

section \<open>The container's interface and its environment\<close>

datatype api_call =
    SetMap "nat option"
  | SetConfig "frame_config option" "anim_config option"
  | SetBeginTime time_arg
  | SetEndTime time_arg
  | SetResolutionTime "real option"
  | SetFrameRate "int option"
  | SetFadeOutOpacities "real option list option"
  | SetMaxAsyncLoadCount "int option"
  | SetVisibility bool
  | SetOpacity real
  | Reset
  | LoadAnimation
  | StartAnimation
  | PauseAnimation
  | StopAnimation
  | ShowFrame int
  | ShowNextFrame
  | ShowPreviousFrame

fun api_step :: "int \<Rightarrow> api_call \<Rightarrow> astate \<Rightarrow> astate" where
  "api_step now (SetMap m) es = setMap now m es"
| "api_step now (SetConfig cfg a) es = setConfig now cfg a es"
| "api_step now (SetBeginTime t) es = update_c (setBeginTime t) es"
| "api_step now (SetEndTime t) es = update_c (setEndTime t) es"
| "api_step now (SetResolutionTime t) es = update_c (setResolutionTime t) es"
| "api_step now (SetFrameRate r) es = update_c (setFrameRate r) es"
| "api_step now (SetFadeOutOpacities os) es = update_c (setFadeOutOpacities os) es"
| "api_step now (SetMaxAsyncLoadCount m) es = update_c (setMaxAsyncLoadCount m) es"
| "api_step now (SetVisibility v) es = setVisibility now v es"
| "api_step now (SetOpacity v) es = setOpacity v es"
| "api_step now Reset es = reset now es"
| "api_step now LoadAnimation es = loadAnimation now es"
| "api_step now StartAnimation es = startAnimation now es"
| "api_step now PauseAnimation es = pauseAnimation es"
| "api_step now StopAnimation es = stopAnimation now es"
| "api_step now (ShowFrame t) es = with_container (showFrame t) now es"
| "api_step now ShowNextFrame es = with_container showNextFrame now es"
| "api_step now ShowPreviousFrame es = with_container showPreviousFrame now es"

text \<open>
  The environment: a map move, the events of a frame's layer, and the browser's animation
  frames.
\<close>

datatype env_event = MoveStart | LoadStart nat | LoadEnd nat | TileError nat string | BrowserFrame

fun env_step :: "int \<Rightarrow> env_event \<Rightarrow> astate \<Rightarrow> astate" where
  "env_step now MoveStart es = movestart es"
| "env_step now (LoadStart i) es = ev_loadstart i es"
| "env_step now (LoadEnd i) es = ev_loadend now i es"
| "env_step now (TileError i err) es = ev_tileerror err i es"
| "env_step now BrowserFrame es = browser_frame now es"

text \<open>
  When the environment can cause an event: movestart only for a registered map, the
  layer events only for an existing frame, and \<open>loadstart\<close> only for a layer that is in
  the map and visible.
\<close>

definition env_enabled :: "env_event \<Rightarrow> astate \<Rightarrow> bool" where
  "env_enabled ev es =
     (let c = s_c (snd es) in
      case ev of
        MoveStart \<Rightarrow> c_map c \<noteq> None
      | LoadStart i \<Rightarrow> i < length (c_layers c) \<and>
          (case f_layer (c_layers c ! i) of Some l \<Rightarrow> ol_in_map l \<and> ol_visibility l | None \<Rightarrow> False)
      | LoadEnd i \<Rightarrow> i < length (c_layers c)
      | TileError i err \<Rightarrow> i < length (c_layers c)
      | BrowserFrame \<Rightarrow> True)"

datatype sys_event = Api int api_call | Env int env_event

inductive reachable :: "astate \<Rightarrow> bool" where
  init: "reachable init_astate"
| api: "reachable es \<Longrightarrow> reachable (api_step now a es)"
| env: "reachable es \<Longrightarrow> env_enabled ev es \<Longrightarrow> reachable (env_step now ev es)"

fun sys_step :: "sys_event \<Rightarrow> astate \<Rightarrow> astate" where
  "sys_step (Api now a) es = api_step now a es"
| "sys_step (Env now ev) es = env_step now ev es"

definition run_sys :: "sys_event list \<Rightarrow> astate \<Rightarrow> astate" where
  "run_sys evs es = fold sys_step evs es"

section \<open>Shapes\<close>

text \<open>
  A frame with the opacity of its layer forgotten, and a container with all frames so: the
  opacity transitions change nothing else.
\<close>

definition strip_opacity :: "frame \<Rightarrow> frame" where
  "strip_opacity f = f\<lparr>f_layer := map_option (\<lambda>l. l\<lparr>ol_opacity := 0\<rparr>) (f_layer f)\<rparr>"

definition c_shape :: "container \<Rightarrow> container" where
  "c_shape c = c\<lparr>c_layers := map strip_opacity (c_layers c)\<rparr>"

fun is_frame_changed :: "notification \<Rightarrow> bool" where
  "is_frame_changed (FrameChanged i) = True"
| "is_frame_changed n = False"

definition frame_changes :: "notification list \<Rightarrow> nat" where
  "frame_changes ns = length (filter is_frame_changed ns)"

text \<open>
  A running animation over four loaded frames, last frame shown at time 0, with the
  \<open>showAnimation\<close> loop queued twice (as after a pause and restart within one frame).
\<close>

definition ex_animating :: astate where
  "ex_animating =
     (init_engine,
      init_system\<lparr>s_c := (ex_container 4 [0, 1, 2, 3] 0 [])\<lparr>c_reqTime := Some 0\<rparr>,
                  s_raf := [RafShowAnimation, RafShowAnimation]\<rparr>)"

text \<open>The driver's progress within one browser frame, relative to the state before it.\<close>

definition drv_before :: "astate \<Rightarrow> astate \<Rightarrow> bool" where
  "drv_before es0 es \<longleftrightarrow>
     frame_changes (s_obs (snd es)) = frame_changes (s_obs (snd es0))
     \<and> c_reqTime (s_c (snd es)) = c_reqTime (s_c (snd es0))
     \<and> c_frameRate (s_c (snd es)) = c_frameRate (s_c (snd es0))"

definition drv_after :: "int \<Rightarrow> astate \<Rightarrow> astate \<Rightarrow> bool" where
  "drv_after now es0 es \<longleftrightarrow>
     frame_changes (s_obs (snd es0)) \<le> frame_changes (s_obs (snd es))
     \<and> frame_changes (s_obs (snd es)) \<le> Suc (frame_changes (s_obs (snd es0)))
     \<and> c_reqTime (s_c (snd es)) = Some now
     \<and> c_frameRate (s_c (snd es)) = c_frameRate (s_c (snd es0))
     \<and> (\<exists>t. c_reqTime (s_c (snd es0)) = Some t \<and> t + c_frameRate (s_c (snd es0)) < now)"

fun effect_notes :: "effect \<Rightarrow> notification list" where
  "effect_notes (Notify n) = [n]"
| "effect_notes (FadeIn i x) = []"
| "effect_notes (FadeOut i x) = []"


section \<open>Opacity transitions change only opacities\<close>

lemma strip_setOpacity[simp]: "strip_opacity (frame_setOpacity v f) = strip_opacity f"
  by (simp add: strip_opacity_def frame_setOpacity_def split: option.split)

lemma map_strip_update:
  "i < length xs \<Longrightarrow> strip_opacity (f (xs ! i)) = strip_opacity (xs ! i) \<Longrightarrow>
   map strip_opacity (xs[i := f (xs ! i)]) = map strip_opacity xs"
  by (metis length_map list_update_id map_update nth_map)

lemma frame_setOp_fields[simp]:
  "s_gen (frame_setOp r v s) = s_gen s" "s_obs (frame_setOp r v s) = s_obs s"
  "s_raf (frame_setOp r v s) = s_raf s"
  "c_shape (s_c (frame_setOp r v s)) = c_shape (s_c s)"
  by (auto simp: frame_setOp_def update_frame_def c_shape_def map_strip_update split: prod.split)

lemma flush_raf_simps[simp]:
  "s_c (snd (flush_raf es)) = s_c (snd es)" "s_gen (snd (flush_raf es)) = s_gen (snd es)"
  "s_obs (snd (flush_raf es)) = s_obs (snd es)"
  "s_raf (snd (flush_raf es)) = s_raf (snd es) @ map RafTransition (e_pending (fst es))"
  "e_pending (fst (flush_raf es)) = []"
  "e_objs (fst (flush_raf es)) = e_objs (fst es)" "e_array (fst (flush_raf es)) = e_array (fst es)"
  by (simp_all add: flush_raf_def split: prod.split)

lemma opacityTransition_view:
  "c_shape (s_c (snd (opacityTransition frame_getOp frame_setOp now r x st T (e, s)))) = c_shape (s_c s)
   \<and> s_gen (snd (opacityTransition frame_getOp frame_setOp now r x st T (e, s))) = s_gen s
   \<and> s_obs (snd (opacityTransition frame_getOp frame_setOp now r x st T (e, s))) = s_obs s"
  by (rule opacityTransition_world[where P = "\<lambda>w. c_shape (s_c w) = c_shape (s_c s)
            \<and> s_gen w = s_gen s \<and> s_obs w = s_obs s"]) simp_all

lemma transition_view:
  "c_shape (s_c (snd (transition frame_setOp now oid (e, s)))) = c_shape (s_c s)
   \<and> s_gen (snd (transition frame_setOp now oid (e, s))) = s_gen s
   \<and> s_obs (snd (transition frame_setOp now oid (e, s))) = s_obs s"
  by (rule transition_world[where P = "\<lambda>w. c_shape (s_c w) = c_shape (s_c s)
            \<and> s_gen w = s_gen s \<and> s_obs w = s_obs s", OF refl]) simp_all

lemma run_effect_view:
  "c_shape (s_c (snd (run_effect now eff es))) = c_shape (s_c (snd es))
   \<and> s_gen (snd (run_effect now eff es)) = s_gen (snd es)
   \<and> s_obs (snd (run_effect now eff es)) = s_obs (snd es) @ effect_notes eff"
  by (cases eff; cases es)
     (simp_all add: startTransitionFadeIn_def startTransitionFadeOut_def notify_def
        opacityTransition_view)

lemma run_effects_view:
  "c_shape (s_c (snd (run_effects now effs es))) = c_shape (s_c (snd es))
   \<and> s_gen (snd (run_effects now effs es)) = s_gen (snd es)
   \<and> s_obs (snd (run_effects now effs es)) = s_obs (snd es) @ concat (map effect_notes effs)"
proof (induction effs arbitrary: es)
  case (Cons eff effs)
  show ?case using Cons.IH[of "run_effect now eff es"] run_effect_view[of now eff es]
    by (simp add: run_effects_def)
qed (simp add: run_effects_def)

lemma with_container_view:
  "c_shape (s_c (snd (with_container f now es))) = c_shape (fst (f (s_c (snd es))))
   \<and> s_gen (snd (with_container f now es)) = s_gen (snd es)
   \<and> s_obs (snd (with_container f now es)) = s_obs (snd es) @ concat (map effect_notes (snd (f (s_c (snd es)))))"
proof (cases es)
  case (Pair e s)
  show ?thesis
  proof (cases "f (s_c s)")
    case (Pair c' effs)
    then show ?thesis using \<open>es = (e, s)\<close> run_effects_view[of now effs "(e, s\<lparr>s_c := c'\<rparr>)"]
      by (simp add: with_container_def)
  qed
qed

lemma showLayer_notes:
  "concat (map effect_notes (snd (showLayer i force c))) =
     (if i < length (c_layers c) \<and> (force \<or> allowShowLayer c (int i)) \<and> getCurrentFrame c \<noteq> Some i
      then [FrameChanged i] else [])"
  by (simp add: showLayer_def show_fade_outs_def Let_def comp_def)

lemma navigate_notes:
  "concat (map effect_notes (snd (navigate op c))) = [] \<or>
   (\<exists>j. concat (map effect_notes (snd (navigate op c))) = [FrameChanged j])"
proof -
  consider "navigate op c = (c, [])" | "navigate op c = fadeOutAll c"
    | j where "navigate op c = showLayer j False c"
    using navigate_cases2[of op c] by blast
  then show ?thesis
  proof cases
    case 3
    then show ?thesis by (simp only: showLayer_notes) auto
  qed (simp_all add: fadeOutAll_def comp_def)
qed

lemma c_shape_eqD:
  assumes "c_shape a = c_shape b"
  shows "c_reqTime a = c_reqTime b" "c_frameRate a = c_frameRate b" "c_fade a = c_fade b"
    "c_gls a = c_gls b" "c_loadStep a = c_loadStep b" "c_anim a = c_anim b"
    "c_visibility a = c_visibility b" "c_map a = c_map b" "c_maxAsync a = c_maxAsync b"
    "c_opacity a = c_opacity b" "c_fadeOutOpacities a = c_fadeOutOpacities b"
    "c_config a = c_config b" "c_begin a = c_begin b" "c_end a = c_end b"
    "c_resolution a = c_resolution b"
    "map strip_opacity (c_layers a) = map strip_opacity (c_layers b)"
  using arg_cong[OF assms, of c_reqTime] arg_cong[OF assms, of c_frameRate]
    arg_cong[OF assms, of c_fade] arg_cong[OF assms, of c_gls] arg_cong[OF assms, of c_loadStep]
    arg_cong[OF assms, of c_anim] arg_cong[OF assms, of c_visibility] arg_cong[OF assms, of c_map]
    arg_cong[OF assms, of c_maxAsync] arg_cong[OF assms, of c_opacity]
    arg_cong[OF assms, of c_fadeOutOpacities] arg_cong[OF assms, of c_config]
    arg_cong[OF assms, of c_begin] arg_cong[OF assms, of c_end] arg_cong[OF assms, of c_resolution]
    arg_cong[OF assms, of c_layers]
  by (simp_all add: c_shape_def)

lemma navigate_frame_changes:
  "frame_changes (concat (map effect_notes (snd (navigate op c)))) \<le> 1"
proof -
  consider (a) "concat (map effect_notes (snd (navigate op c))) = []"
    | (b) j where "concat (map effect_notes (snd (navigate op c))) = [FrameChanged j]"
    using navigate_notes[of op c] by blast
  then show ?thesis
  proof cases
    case a
    show ?thesis unfolding frame_changes_def a by simp
  next
    case b
    show ?thesis unfolding frame_changes_def b by simp
  qed
qed

lemma raf_transition_view:
  "c_shape (s_c (snd (raf_callback now (RafTransition oid) es))) = c_shape (s_c (snd es))
   \<and> s_obs (snd (raf_callback now (RafTransition oid) es)) = s_obs (snd es)"
  by (cases es) (simp add: transition_view)

lemma raf_callback_drv:
  assumes "0 \<le> c_frameRate (s_c (snd es0))" "drv_before es0 es \<or> drv_after now es0 es"
  shows "drv_before es0 (raf_callback now cb es) \<or> drv_after now es0 (raf_callback now cb es)"
proof (cases cb)
  case (RafTransition oid)
  have v: "c_shape (s_c (snd (raf_callback now cb es))) = c_shape (s_c (snd es))"
    "s_obs (snd (raf_callback now cb es)) = s_obs (snd es)"
    using raf_transition_view[of now oid es] RafTransition by simp_all
  show ?thesis using assms(2) v(2) c_shape_eqD(1,2)[OF v(1)]
    by (simp add: drv_before_def drv_after_def)
next
  case RafShowAnimation
  obtain e s where es: "es = (e, s)" by fastforce
  show ?thesis
  proof (cases "c_reqTime (s_c s)")
    case None
    then show ?thesis using assms(2) RafShowAnimation es by (simp add: showAnimation_def)
  next
    case (Some t)
    define s1 where "s1 = s\<lparr>s_raf := s_raf s @ [RafShowAnimation]\<rparr>"
    show ?thesis
    proof (cases "t + c_frameRate (s_c s) < now")
      case False
      then show ?thesis using assms(2) RafShowAnimation es Some
        by (auto simp: showAnimation_def drv_before_def drv_after_def)
    next
      case True
      define c1 where "c1 = (s_c s1)\<lparr>c_reqTime := Some now\<rparr>"
      have v: "c_shape (s_c (snd (with_container showNextFrame now (e, s1\<lparr>s_c := c1\<rparr>))))
                 = c_shape (fst (navigate Next c1))"
        "s_obs (snd (with_container showNextFrame now (e, s1\<lparr>s_c := c1\<rparr>)))
                 = s_obs s @ concat (map effect_notes (snd (navigate Next c1)))"
        using with_container_view[of showNextFrame now "(e, s1\<lparr>s_c := c1\<rparr>)"]
        by (simp_all add: s1_def)
      have pre: "frame_changes (s_obs s) = frame_changes (s_obs (snd es0))"
        "c_reqTime (s_c (snd es0)) = Some t" "c_frameRate (s_c s) = c_frameRate (s_c (snd es0))"
        using assms True Some es by (auto simp: drv_before_def drv_after_def)
      have nav: "c_reqTime (fst (navigate Next c1)) = Some now"
        "c_frameRate (fst (navigate Next c1)) = c_frameRate (s_c s)"
        by (subst navigate_only_fade; simp add: c1_def s1_def)+
      have res: "raf_callback now cb es = with_container showNextFrame now (e, s1\<lparr>s_c := c1\<rparr>)"
        using RafShowAnimation es Some True by (simp add: showAnimation_def s1_def c1_def)
      have "frame_changes (s_obs (snd (raf_callback now cb es)))
              = frame_changes (s_obs s) + frame_changes (concat (map effect_notes (snd (navigate Next c1))))"
        unfolding res v(2) by (simp add: frame_changes_def)
      then have "drv_after now es0 (raf_callback now cb es)"
        using pre nav c_shape_eqD(1,2)[OF v(1)] navigate_frame_changes[of Next c1] True res
        by (simp add: drv_after_def)
      then show ?thesis ..
    qed
  qed
qed

lemma fold_raf_drv:
  "0 \<le> c_frameRate (s_c (snd es0)) \<Longrightarrow> drv_before es0 es \<or> drv_after now es0 es \<Longrightarrow>
   drv_before es0 (fold (raf_callback now) cbs es) \<or> drv_after now es0 (fold (raf_callback now) cbs es)"
proof (induction cbs arbitrary: es)
  case (Cons cb cbs)
  then show ?case using raf_callback_drv[OF Cons.prems(1,2), of cb] by simp
qed simp

text \<open>
  C14: the animation advances at most one frame per browser animation frame, also when
  the \<open>showAnimation\<close> loop was queued several times by a pause and restart, and it
  advances only when more than \<open>_animationFrameRate\<close> ms have passed since the last
  advance, which then becomes the current time.
\<close>

theorem driver_one_frame_per_tick:
  assumes "0 \<le> c_frameRate (s_c (snd es))"
  shows "frame_changes (s_obs (snd (browser_frame now es))) = frame_changes (s_obs (snd es))
         \<or> frame_changes (s_obs (snd (browser_frame now es))) = Suc (frame_changes (s_obs (snd es)))
           \<and> c_reqTime (s_c (snd (browser_frame now es))) = Some now
           \<and> (\<exists>t. c_reqTime (s_c (snd es)) = Some t \<and> t + c_frameRate (s_c (snd es)) < now)"
proof -
  have "drv_before es (fst es, (snd es)\<lparr>s_raf := []\<rparr>)" by (simp add: drv_before_def)
  from fold_raf_drv[OF assms disjI1[OF this], where now = now and cbs = "s_raf (snd es)"]
  have "drv_before es (browser_frame now es) \<or> drv_after now es (browser_frame now es)"
    by (simp add: browser_frame_def)
  then show ?thesis by (auto simp: drv_before_def drv_after_def le_Suc_eq)
qed

theorem driver_one_frame_per_tick_witness:
  "0 \<le> c_frameRate (s_c (snd ex_animating)) \<and>
   (frame_changes (s_obs (snd (browser_frame 600 ex_animating))) = frame_changes (s_obs (snd ex_animating))
    \<or> frame_changes (s_obs (snd (browser_frame 600 ex_animating))) = Suc (frame_changes (s_obs (snd ex_animating)))
      \<and> c_reqTime (s_c (snd (browser_frame 600 ex_animating))) = Some 600
      \<and> (\<exists>t. c_reqTime (s_c (snd ex_animating)) = Some t \<and> t + c_frameRate (s_c (snd ex_animating)) < 600))"
proof -
  have h: "0 \<le> c_frameRate (s_c (snd ex_animating))"
    by (simp add: ex_animating_def init_system_def ex_container_def init_container_def)
  show ?thesis using h driver_one_frame_per_tick[OF h, of 600] by blast
qed

end
