(* ===== verification/Legend.thy ===== *)
theory Legend
  imports Config
begin

text \<open>
  Legend information: \<open>getLegendInfo\<close> of a frame (\<open>LayerObject.js\<close>), which builds one
  GeoServer \<open>GetLegendGraphic\<close> URL per layer id of the frame's OpenLayers layer, and
  \<open>getLegendInfo\<close> of the container (\<open>LayerContainer.js\<close>), which concatenates the
  frames' lists and drops duplicates (\<open>isLegendInfoDuplicate\<close>). The OpenLayers layer is
  an object of the store of \<open>Config\<close>. Strings are byte strings; \<open>encodeURIComponent\<close>
  escapes every byte outside its unreserved set, which is its result on UTF-8 text.
\<close>

section \<open>String helpers\<close>

text \<open>\<open>s.split(",")\<close>: the pieces between separators, empty ones included.\<close>

fun split_on :: "char \<Rightarrow> string \<Rightarrow> string list" where
  "split_on c [] = [[]]"
| "split_on c (x # xs) =
     (let r = split_on c xs in if x = c then [] # r else (x # hd r) # tl r)"

definition hex_digit :: "nat \<Rightarrow> char" where
  "hex_digit n = ''0123456789ABCDEF'' ! n"

definition uri_unreserved :: "char \<Rightarrow> bool" where
  "uri_unreserved c \<longleftrightarrow>
     c \<in> set (''ABCDEFGHIJKLMNOPQRSTUVWXYZabcdefghijklmnopqrstuvwxyz0123456789'' @ ''-_.!~*'' @ [CHR 0x27] @ ''()'')"

definition encode_char :: "char \<Rightarrow> string" where
  "encode_char c =
     (if uri_unreserved c then [c]
      else [CHR ''%'', hex_digit (of_char c div 16), hex_digit (of_char c mod 16)])"

definition encodeURIComponent :: "string \<Rightarrow> string" where
  "encodeURIComponent s = concat (map encode_char s)"

text \<open>\<open>String(n)\<close> of an integer.\<close>

fun nat_digits :: "nat \<Rightarrow> string" where
  "nat_digits n = (if n < 10 then [hex_digit n] else nat_digits (n div 10) @ [hex_digit (n mod 10)])"

text \<open>\<open>String(v)\<close> for the values a layer parameter may hold.\<close>

fun js_to_string :: "jsval \<Rightarrow> string" where
  "js_to_string (JStr s) = s"
| "js_to_string (JBool b) = (if b then ''true'' else ''false'')"
| "js_to_string (JNum n) = (if n < 0 then CHR ''-'' # nat_digits (nat (- n)) else nat_digits (nat n))"
| "js_to_string JUndef = ''undefined''"
| "js_to_string JNull = ''null''"
| "js_to_string (JRef a) = ''[object Object]''"
| "js_to_string _ = ''''"

text \<open>\<open>a || b\<close>\<close>

definition js_or :: "jsval \<Rightarrow> jsval \<Rightarrow> jsval" where
  "js_or a b = (if truthy a then a else b)"

section \<open>Legend information of a frame\<close>

text \<open>One entry: the layer's name, the legend URL and whether a legend is wanted.\<close>

type_synonym legend = "jsval \<times> string \<times> bool"

text \<open>
  The URL of the layer as the legend uses it: a string, or the first element of a
  non-empty array (which must then be a string for \<open>url.charAt\<close>).
\<close>

definition legend_url :: "jsval \<Rightarrow> string option js" where
  "legend_url url =
     (case url of
        JStr s \<Rightarrow> Inr (if s = [] then None else Some s)
      | JArr [] \<Rightarrow> Inr None
      | JArr (JStr s # _) \<Rightarrow> Inr (if s = [] then None else Some s)
      | JArr (u # _) \<Rightarrow> (if truthy u then Inl ''TypeError: url.charAt is not a function'' else Inr None)
      | _ \<Rightarrow> Inr None)"

text \<open>The query delimiter: \<open>?\<close> if the URL has none, else \<open>&\<close> unless it ends with one.\<close>

definition legend_query :: "string \<Rightarrow> string" where
  "legend_query url =
     (if CHR ''?'' \<notin> set url then url @ ''?''
      else if last url \<noteq> CHR ''?'' \<and> last url \<noteq> CHR ''&'' then url @ ''&''
      else url)"

text \<open>The legend URL up to the layer id.\<close>

definition legend_base :: "string \<Rightarrow> jsval \<Rightarrow> string" where
  "legend_base url imageFormat =
     legend_query url @ ''REQUEST=GetLegendGraphic&FORMAT='' @ encodeURIComponent (js_to_string imageFormat)
     @ ''&LAYER=''"

text \<open>\<open>params.layers || params.LAYERS || params.layer || params.LAYER\<close>\<close>

definition legend_ids :: "heap \<Rightarrow> jsval \<Rightarrow> jsval" where
  "legend_ids h params =
     js_or (js_or (js_or (get_prop h params ''layers'') (get_prop h params ''LAYERS''))
       (get_prop h params ''layer'')) (get_prop h params ''LAYER'')"

definition lo_getLegendInfo :: "heap \<Rightarrow> jsval \<Rightarrow> legend list js" where
  "lo_getLegendInfo h layer =
     (let params = get_prop h layer ''params'' in
      if truthy layer \<and> truthy params then
        (let ids = legend_ids h params;
             opts = get_prop h layer ''options''
         in js_bind
              (if truthy ids then
                 (case ids of JStr s \<Rightarrow> Inr (Some (split_on CHR '','' s))
                  | _ \<Rightarrow> Inl ''TypeError: layerIds.split is not a function'')
               else Inr None)
              (\<lambda>layerIds.
                 case layerIds of
                   Some idl \<Rightarrow>
                     if truthy opts \<and> truthy (get_prop h opts ''animation'') \<and> idl \<noteq> [] then
                       js_bind (legend_url (get_prop h layer ''url'')) (\<lambda>u.
                         case u of
                           Some url \<Rightarrow>
                             (let fmt = js_or (js_or (get_prop h params ''format'') (get_prop h params ''FORMAT''))
                                          (JStr ''image/png'');
                                  base = legend_base url fmt
                              in Inr (map (\<lambda>layerId. (get_prop h layer ''name'', base @ encodeURIComponent layerId,
                                                     truthy (get_path h layer [''options'', ''animation'', ''hasLegend''])))
                                        (filter (\<lambda>layerId. layerId \<noteq> []) idl)))
                         | None \<Rightarrow> Inr [])
                     else Inr []
                 | None \<Rightarrow> Inr []))
      else Inr [])"

section \<open>Legend information of the container\<close>

text \<open>
  \<open>isLegendInfoDuplicate\<close>: the same entry, or one with the same name, URL and flag;
  entries are values here, so both tests are equality.
\<close>

fun isLegendInfoDuplicate :: "legend list \<Rightarrow> legend \<Rightarrow> bool" where
  "isLegendInfoDuplicate [] x = False"
| "isLegendInfoDuplicate (y # ys) x = (y = x \<or> isLegendInfoDuplicate ys x)"

definition add_legends :: "legend list \<Rightarrow> legend list \<Rightarrow> legend list" where
  "add_legends info xs = fold (\<lambda>x info. if isLegendInfoDuplicate info x then info else info @ [x]) xs info"

text \<open>
  The container's loop over its frames, generic in how a frame gives its list (and may
  throw).
\<close>

fun lc_getLegendInfo :: "('f \<Rightarrow> legend list js) \<Rightarrow> 'f list \<Rightarrow> legend list \<Rightarrow> legend list js" where
  "lc_getLegendInfo g [] info = Inr info"
| "lc_getLegendInfo g (f # fs) info = js_bind (g f) (\<lambda>xs. lc_getLegendInfo g fs (add_legends info xs))"

text \<open>The reference: the entries of all frames in order, each kept at its first occurrence.\<close>

definition dedup_first :: "'a list \<Rightarrow> 'a list" where
  "dedup_first xs = rev (remdups (rev xs))"

text \<open>Percent-decoding, the inverse the legend server applies.\<close>

definition hex_value :: "char \<Rightarrow> nat" where
  "hex_value c = (if of_char c < (58::nat) then of_char c - 48 else of_char c - 55)"

fun uri_decode :: "string \<Rightarrow> string" where
  "uri_decode (c # a # b # rest) =
     (if c = CHR ''%'' then char_of (hex_value a * 16 + hex_value b) # uri_decode rest
      else c # uri_decode (a # b # rest))"
| "uri_decode s = s"


text \<open>
  An OpenLayers WMS layer with the layer ids \<open>"a,,b"\<close>, animation options asking for a
  legend, and a URL that already has a query.
\<close>

definition ex_legend_store :: heap where
  "ex_legend_store =
     [[(''params'', JRef 1), (''options'', JRef 2), (''url'', JStr ''http://x/wms?map=m''), (''name'', JStr ''N'')],
      [(''layers'', JStr ''a,,b'')], [(''animation'', JRef 3)], [(''hasLegend'', JBool True)]]"

section \<open>The container's list against its reference\<close>

lemma isLegendInfoDuplicate_iff[simp]: "isLegendInfoDuplicate ys x \<longleftrightarrow> x \<in> set ys"
  by (induction ys) auto

lemma dedup_first_snoc:
  "dedup_first (xs @ [x]) = (if x \<in> set xs then dedup_first xs else dedup_first xs @ [x])"
  by (simp add: dedup_first_def)

lemma dedup_first_distinct[simp]: "distinct xs \<Longrightarrow> dedup_first xs = xs"
  by (simp add: dedup_first_def distinct_remdups_id)

lemma remdups_skip: "x \<in> set B \<Longrightarrow> remdups (A @ x # B) = remdups (A @ B)"
  by (induction A) auto

lemma dedup_first_skip:
  "x \<in> set ys \<Longrightarrow> dedup_first (ys @ x # zs) = dedup_first (ys @ zs)"
  using remdups_skip[of x "rev ys" "rev zs"] by (simp add: dedup_first_def)

lemma add_legends_ref:
  "distinct info \<Longrightarrow> add_legends info xs = dedup_first (info @ xs)"
proof (induction xs arbitrary: info)
  case Nil
  then show ?case by (simp add: add_legends_def)
next
  case (Cons x xs)
  show ?case
  proof (cases "x \<in> set info")
    case True
    then show ?thesis using Cons by (simp add: add_legends_def dedup_first_skip)
  next
    case False
    then show ?thesis using Cons.IH[of "info @ [x]"] Cons.prems by (simp add: add_legends_def)
  qed
qed

lemma distinct_dedup_first[simp]: "distinct (dedup_first xs)"
  by (simp add: dedup_first_def)

section \<open>Percent-encoding\<close>

lemma hex_value_digit: "n < 16 \<Longrightarrow> hex_value (hex_digit n) = n"
proof -
  assume "n < 16"
  then have "n \<in> set [0..<16]" by simp
  then show ?thesis by (simp add: hex_value_def hex_digit_def upt_rec) (elim disjE; simp)
qed

lemma char_of_div_mod: "char_of (of_char c div 16 * 16 + of_char c mod (16::nat)) = c"
  by simp


lemma uri_decode_plain: "c \<noteq> CHR ''%'' \<Longrightarrow> uri_decode (c # r) = c # uri_decode r"
proof (cases r)
  case (Cons a r')
  then show "c \<noteq> CHR ''%'' \<Longrightarrow> uri_decode (c # r) = c # uri_decode r"
    by (cases r') simp_all
qed simp

lemma uri_decode_encode: "uri_decode (encodeURIComponent s) = s"
proof (induction s)
  case (Cons c s)
  show ?case
  proof (cases "uri_unreserved c")
    case True
    then have "c \<noteq> CHR ''%''" by (auto simp: uri_unreserved_def)
    then show ?thesis using True Cons
      by (simp add: encodeURIComponent_def encode_char_def uri_decode_plain)
  next
    case False
    have "of_char c div 16 < (16::nat)" using nat_of_char_less_256[of c] by (simp add: less_mult_imp_div_less)
    then show ?thesis using False Cons
      by (simp add: encodeURIComponent_def encode_char_def hex_value_digit)
  qed
qed (simp add: encodeURIComponent_def)


lemma set_dedup_first[simp]: "set (dedup_first xs) = set xs"
  by (simp add: dedup_first_def)

lemma dedup_first_dedup_append: "dedup_first (dedup_first A @ B) = dedup_first (A @ B)"
proof (induction B rule: rev_induct)
  case Nil
  then show ?case by simp
next
  case (snoc x B)
  then show ?case
    using dedup_first_snoc[of "dedup_first A @ B" x] dedup_first_snoc[of "A @ B" x] by simp
qed

lemma lc_getLegendInfo_gen:
  "distinct info \<Longrightarrow>
   lc_getLegendInfo g fs info =
     (if \<forall>f \<in> set fs. \<not> isl (g f) then Inr (dedup_first (info @ concat (map (\<lambda>f. projr (g f)) fs)))
      else Inl (projl (g (hd (filter (\<lambda>f. isl (g f)) fs)))))"
proof (induction fs arbitrary: info)
  case Nil
  then show ?case by simp
next
  case (Cons f fs)
  show ?case
  proof (cases "g f")
    case (Inl e)
    then show ?thesis by (simp add: sum.disc)
  next
    case (Inr xs)
    have "distinct (add_legends info xs)" using Cons.prems by (simp add: add_legends_ref)
    then show ?thesis
      using Inr Cons.IH[of "add_legends info xs"] Cons.prems
      by (simp add: add_legends_ref dedup_first_dedup_append)
  qed
qed


text \<open>
  C26: The container's \<open>getLegendInfo\<close> returns the legends of all frames in frame order,
  each kept only at its first occurrence; when a frame's \<open>getLegendInfo\<close> throws, the
  first such exception is the result.
\<close>

theorem lc_getLegendInfo_ref:
  "lc_getLegendInfo g fs [] =
     (if \<forall>f \<in> set fs. \<not> isl (g f) then Inr (dedup_first (concat (map (\<lambda>f. projr (g f)) fs)))
      else Inl (projl (g (hd (filter (\<lambda>f. isl (g f)) fs)))))"
  using lc_getLegendInfo_gen[of "[]" g fs] by simp

theorem lc_getLegendInfo_ref_witness:
  "lc_getLegendInfo (\<lambda>n::nat. Inr [(JNull, ''u'' @ [hex_digit n], True), (JNull, ''u0'', True)]) [0, 1] []
     = Inr [(JNull, ''u0'', True), (JNull, ''u1'', True)]"
  using lc_getLegendInfo_ref[of "\<lambda>n::nat. Inr [(JNull, ''u'' @ [hex_digit n], True), (JNull, ''u0'', True)]" "[0, 1]"]
  by (simp add: dedup_first_def hex_digit_def)

text \<open>
  C28: A layer whose \<open>params.layers\<close> is an array, which the comment of
  \<open>getLegendInfo\<close> allows, makes \<open>getLegendInfo\<close> throw: arrays have no \<open>split\<close>.
\<close>

theorem legend_array_ids_throw:
  assumes "truthy layer" "truthy (get_prop h layer ''params'')"
    "get_prop h (get_prop h layer ''params'') ''layers'' = JArr ids"
  shows "lo_getLegendInfo h layer = Inl ''TypeError: layerIds.split is not a function''"
  using assms by (simp add: lo_getLegendInfo_def legend_ids_def js_or_def Let_def)

theorem legend_array_ids_throw_witness:
  "lo_getLegendInfo [[(''params'', JRef 1)], [(''layers'', JArr [JStr ''a'', JStr ''b''])]] (JRef 0)
     = Inl ''TypeError: layerIds.split is not a function''"
  by (rule legend_array_ids_throw[where ids = "[JStr ''a'', JStr ''b'']"])
     (simp_all add: get_prop_def obj_props_def)


lemma lo_getLegendInfo_Inr:
  assumes "lo_getLegendInfo h layer = Inr info" "info \<noteq> []"
  shows "\<exists>s url. legend_ids h (get_prop h layer ''params'') = JStr s
            \<and> info = map (\<lambda>i. (get_prop h layer ''name'',
                  legend_base url (js_or (js_or (get_path h layer [''params'', ''format''])
                                           (get_path h layer [''params'', ''FORMAT''])) (JStr ''image/png''))
                  @ encodeURIComponent i,
                  truthy (get_path h layer [''options'', ''animation'', ''hasLegend''])))
                (filter (\<lambda>i. i \<noteq> []) (split_on CHR '','' s))"
  using assms
  by (auto simp: lo_getLegendInfo_def Let_def js_bind_Inr split: if_splits sum.splits option.splits jsval.splits)

lemma decode_legend_urls:
  "map (\<lambda>(n, u, b). uri_decode (drop (length B) u)) (map (\<lambda>i. (N, B @ encodeURIComponent i, H)) ids) = ids"
  by (induction ids) (simp_all add: uri_decode_encode)




end
