(* ===== verification/AnimationLayer.thy ===== *)
theory AnimationLayer
  imports Container Legend "HOL-Library.Sublist"
begin

text \<open>
  The OpenLayers layer \<open>OpenLayers.Layer.Animation\<close> (\<open>Animation.js\<close>) that wraps a
  \<open>LayerContainer\<close>. It is the container's observer: every observer callback builds an
  event object from the frames it is given (\<open>doCallback\<close>) and triggers it for the
  layer's listeners in a \<open>setTimeout(..., 0)\<close> task. The handlers of the controller
  events and of the layer's own \<open>added\<close>/\<open>removed\<close> events also call the container from
  \<open>setTimeout\<close> tasks. The model keeps the browser's queue of those tasks, in the order
  they were scheduled, and runs them as the browser does: a task runs to completion, and
  an exception it throws is reported and ends the task.
\<close>

section \<open>Events of the layer\<close>

text \<open>The event names \<open>doCallback\<close> is called with, one per observer callback.\<close>

fun event_name :: "notification \<Rightarrow> string" where
  "event_name LoadAnimationStarted = ''animationloadstarted''"
| "event_name (LoadFrameStarted i) = ''frameloadstarted''"
| "event_name (LoadFrameComplete i) = ''frameloadcomplete''"
| "event_name (LoadGroupProgress g) = ''animationloadgroupprogress''"
| "event_name (LoadComplete g) = ''animationloadcomplete''"
| "event_name (FrameContentReleased i) = ''animationframecontentreleased''"
| "event_name (FrameChanged i) = ''framechanged''"

text \<open>
  The event object \<open>{layer : _me, events : [{time, error}, ...]}\<close> with the name it is
  triggered under; the layer itself is implicit.
\<close>

type_synonym anim_event = "string \<times> frame_info list"

text \<open>Errors thrown by the layer's code.\<close>

datatype js_error = TypeError string | ControllerError

text \<open>
  A controller given to \<open>registerController\<close>: an \<open>OpenLayers.Events\<close> object (named by
  an identity) or any other object.
\<close>

datatype controller = EventsObject nat | OtherObject

text \<open>The \<open>setTimeout\<close> tasks the layer schedules.\<close>

datatype task =
    TaskPeriod time_arg time_arg "real option"
  | TaskReload
  | TaskShowFrame int
  | TaskStart
  | TaskPause
  | TaskStop
  | TaskPrevious
  | TaskNext
  | TaskFrameRate "int option"
  | TaskAdded nat
  | TaskRemoved
  | TaskTrigger anim_event

text \<open>
  The layer: its container (with the frames and the transition engine), the attributes of
  the OpenLayers layer it overrides (visibility, opacity, z-index, map), the registered
  controllers (once per registration), the \<open>setTimeout\<close> queue, the events triggered
  for the listeners and the exceptions reported. The container keeps the log of its
  observer calls with the data each call read (\<open>s_cb\<close>); \<open>al_seen\<close> counts the calls
  whose \<open>doCallback\<close> has run.
\<close>

record anim_layer =
  al_sys :: astate
  al_visibility :: bool
  al_opacity :: real
  al_zIndex :: "int option"
  al_map :: "nat option"
  al_controllers :: "nat list"
  al_timeouts :: "task list"
  al_triggered :: "anim_event list"
  al_errors :: "js_error list"
  al_seen :: nat

text \<open>\<open>initialize\<close>: a new container; OpenLayers layers are visible with opacity 1.\<close>

definition init_layer :: anim_layer where
  "init_layer =
     \<lparr>al_sys = init_astate, al_visibility = True, al_opacity = 1, al_zIndex = None,
      al_map = None, al_controllers = [], al_timeouts = [], al_triggered = [], al_errors = [],
      al_seen = 0\<rparr>"

section \<open>The layer as the container's observer\<close>

text \<open>
  The observer callbacks the container made during a call: each runs \<open>doCallback\<close>,
  which schedules the trigger of its event object.
\<close>

definition trigger_task :: "notification \<times> frame_info list \<Rightarrow> task" where
  "trigger_task c = TaskTrigger (event_name (fst c), snd c)"

definition collect :: "anim_layer \<Rightarrow> anim_layer" where
  "collect al =
     (let cbs = s_cb (snd (al_sys al)) in
      al\<lparr>al_timeouts := al_timeouts al @ map trigger_task (drop (al_seen al) cbs),
         al_seen := length cbs\<rparr>)"

definition container_call :: "(astate \<Rightarrow> astate) \<Rightarrow> anim_layer \<Rightarrow> anim_layer" where
  "container_call f al = collect (al\<lparr>al_sys := f (al_sys al)\<rparr>)"

text \<open>\<open>_layerContainer.setZIndex(...)\<close>: the container has no such method.\<close>

definition container_setZIndex :: "js_error" where
  "container_setZIndex = TypeError ''_layerContainer.setZIndex is not a function''"

section \<open>Tasks\<close>

text \<open>
  One \<open>setTimeout\<close> task at time \<open>now\<close>: the new layer and the exception it throws, if any.
\<close>

fun run_task :: "int \<Rightarrow> task \<Rightarrow> anim_layer \<Rightarrow> anim_layer \<times> js_error option" where
  "run_task now (TaskPeriod b e r) al =
     (let al1 = container_call (\<lambda>es. update_c (setResolutionTime r)
                  (update_c (setEndTime e) (update_c (setBeginTime b) es))) al
      in (if al_map al1 \<noteq> None then container_call (loadAnimation now) al1 else al1, None))"
| "run_task now TaskReload al =
     (if al_map al \<noteq> None then container_call (loadAnimation now) al else al, None)"
| "run_task now (TaskShowFrame t) al = (container_call (api_step now (ShowFrame t)) al, None)"
| "run_task now TaskStart al = (container_call (api_step now StartAnimation) al, None)"
| "run_task now TaskPause al = (container_call (api_step now PauseAnimation) al, None)"
| "run_task now TaskStop al = (container_call (api_step now StopAnimation) al, None)"
| "run_task now TaskPrevious al = (container_call (api_step now ShowPreviousFrame) al, None)"
| "run_task now TaskNext al = (container_call (api_step now ShowNextFrame) al, None)"
| "run_task now (TaskFrameRate v) al = (container_call (api_step now (SetFrameRate v)) al, None)"
| "run_task now (TaskAdded m) al =
     (container_call (api_step now (SetMap (Some m))) al, Some container_setZIndex)"
| "run_task now TaskRemoved al =
     (container_call (api_step now (SetMap None)) (container_call (api_step now Reset) al), None)"
| "run_task now (TaskTrigger ev) al = (al\<lparr>al_triggered := al_triggered al @ [ev]\<rparr>, None)"

text \<open>The browser runs the oldest task; an uncaught exception is reported.\<close>

definition run_timeout :: "int \<Rightarrow> anim_layer \<Rightarrow> anim_layer" where
  "run_timeout now al =
     (case al_timeouts al of
        [] \<Rightarrow> al
      | t # ts \<Rightarrow>
          (case run_task now t (al\<lparr>al_timeouts := ts\<rparr>) of
             (al', None) \<Rightarrow> al'
           | (al', Some err) \<Rightarrow> al'\<lparr>al_errors := al_errors al' @ [err]\<rparr>))"

text \<open>
  The tasks queued at one moment, run in order; the tasks they schedule wait behind them.
\<close>

definition run_timeouts :: "int \<Rightarrow> anim_layer \<Rightarrow> anim_layer" where
  "run_timeouts now al = (run_timeout now ^^ length (al_timeouts al)) al"

section \<open>Controller and layer events\<close>

text \<open>
  The controller events with their event objects (\<open>None\<close> for an \<open>undefined\<close> event
  object where the handler tests it).
\<close>

datatype ctrl_event =
    PeriodChanged "(time_arg \<times> time_arg \<times> real option) option"
  | Reload
  | TimeChanged "int option"
  | Start
  | Pause
  | Stop
  | Previous
  | Next
  | FrameRateChanged "int option option"

text \<open>The \<open>setTimeout\<close> tasks a controller event handler schedules.\<close>

fun ctrl_tasks :: "ctrl_event \<Rightarrow> task list" where
  "ctrl_tasks (PeriodChanged ev) = (case ev of None \<Rightarrow> [] | Some (b, e, r) \<Rightarrow> [TaskPeriod b e r])"
| "ctrl_tasks Reload = [TaskReload]"
| "ctrl_tasks (TimeChanged ev) = (case ev of None \<Rightarrow> [] | Some t \<Rightarrow> [TaskShowFrame t])"
| "ctrl_tasks Start = [TaskStart]"
| "ctrl_tasks Pause = [TaskPause]"
| "ctrl_tasks Stop = [TaskStop]"
| "ctrl_tasks Previous = [TaskPrevious]"
| "ctrl_tasks Next = [TaskNext]"
| "ctrl_tasks (FrameRateChanged ev) = (case ev of None \<Rightarrow> [] | Some v \<Rightarrow> [TaskFrameRate v])"

definition ctrl_handler :: "ctrl_event \<Rightarrow> anim_layer \<Rightarrow> anim_layer" where
  "ctrl_handler ev al = al\<lparr>al_timeouts := al_timeouts al @ ctrl_tasks ev\<rparr>"

text \<open>
  A controller event is delivered once for every registration of the controller
  (\<open>controller.on(_controllerEvents)\<close> adds the listeners again).
\<close>

definition deliver :: "nat \<Rightarrow> ctrl_event \<Rightarrow> anim_layer \<Rightarrow> anim_layer" where
  "deliver k ev al = fold (\<lambda>_. ctrl_handler ev) (filter (\<lambda>c. c = k) (al_controllers al)) al"

text \<open>
  The layer's own \<open>added\<close>/\<open>removed\<close> events, handled only when \<open>event.layer === _me\<close>:
  the map the layer was added to, or removal.
\<close>

definition layer_added :: "nat \<Rightarrow> anim_layer \<Rightarrow> anim_layer" where
  "layer_added m al = al\<lparr>al_map := Some m, al_timeouts := al_timeouts al @ [TaskAdded m]\<rparr>"

definition layer_removed :: "anim_layer \<Rightarrow> anim_layer" where
  "layer_removed al = al\<lparr>al_map := None, al_timeouts := al_timeouts al @ [TaskRemoved]\<rparr>"

section \<open>Public methods\<close>

definition registerController :: "controller option \<Rightarrow> anim_layer \<Rightarrow> js_error + anim_layer" where
  "registerController c al =
     (case c of
        None \<Rightarrow> Inr al
      | Some OtherObject \<Rightarrow> Inl ControllerError
      | Some (EventsObject k) \<Rightarrow> Inr (al\<lparr>al_controllers := al_controllers al @ [k]\<rparr>))"

definition unregisterController :: "controller option \<Rightarrow> anim_layer \<Rightarrow> js_error + anim_layer" where
  "unregisterController c al =
     (case c of
        None \<Rightarrow> Inr al
      | Some OtherObject \<Rightarrow> Inl ControllerError
      | Some (EventsObject k) \<Rightarrow> Inr (al\<lparr>al_controllers := remove1 k (al_controllers al)\<rparr>))"

definition doSetConfig ::
  "int \<Rightarrow> frame_config option \<Rightarrow> anim_config option \<Rightarrow> anim_layer \<Rightarrow> anim_layer" where
  "doSetConfig now cfg a al =
     container_call (setConfig now cfg a)
       (container_call (setOpacity (al_opacity al))
          (container_call (setVisibility now (al_visibility al)) al))"

definition layer_setVisibility :: "int \<Rightarrow> bool \<Rightarrow> anim_layer \<Rightarrow> anim_layer" where
  "layer_setVisibility now v al = container_call (setVisibility now v) (al\<lparr>al_visibility := v\<rparr>)"

definition layer_setOpacity :: "real \<Rightarrow> anim_layer \<Rightarrow> anim_layer" where
  "layer_setOpacity v al = container_call (setOpacity v) (al\<lparr>al_opacity := v\<rparr>)"

text \<open>
  \<open>setZIndex\<close>: the parent implementation sets the layer's z-index, then the call to the
  container throws.
\<close>

definition layer_setZIndex :: "int \<Rightarrow> anim_layer \<Rightarrow> anim_layer \<times> js_error option" where
  "layer_setZIndex idx al = (al\<lparr>al_zIndex := Some idx\<rparr>, Some container_setZIndex)"


section \<open>Synchronous reading of the controller events\<close>

text \<open>
  What a controller event asks of the container, as direct calls made at once: the
  abstract behaviour the asynchronous handlers implement. \<open>mapped\<close> says whether the
  layer is in a map.
\<close>

fun ctrl_spec :: "int \<Rightarrow> bool \<Rightarrow> ctrl_event \<Rightarrow> astate \<Rightarrow> astate" where
  "ctrl_spec now mapped (PeriodChanged ev) es =
     (case ev of
        None \<Rightarrow> es
      | Some (b, e, r) \<Rightarrow>
          (let es1 = update_c (setResolutionTime r) (update_c (setEndTime e) (update_c (setBeginTime b) es))
           in if mapped then loadAnimation now es1 else es1))"
| "ctrl_spec now mapped Reload es = (if mapped then loadAnimation now es else es)"
| "ctrl_spec now mapped (TimeChanged ev) es =
     (case ev of None \<Rightarrow> es | Some t \<Rightarrow> api_step now (ShowFrame t) es)"
| "ctrl_spec now mapped Start es = api_step now StartAnimation es"
| "ctrl_spec now mapped Pause es = api_step now PauseAnimation es"
| "ctrl_spec now mapped Stop es = api_step now StopAnimation es"
| "ctrl_spec now mapped Previous es = api_step now ShowPreviousFrame es"
| "ctrl_spec now mapped Next es = api_step now ShowNextFrame es"
| "ctrl_spec now mapped (FrameRateChanged ev) es =
     (case ev of None \<Rightarrow> es | Some v \<Rightarrow> api_step now (SetFrameRate v) es)"

text \<open>A container operation only appends to the log of observer calls.\<close>

definition cb_grows :: "(astate \<Rightarrow> astate) \<Rightarrow> bool" where
  "cb_grows f \<longleftrightarrow> (\<forall>es. prefix (s_cb (snd es)) (s_cb (snd (f es))))"

section \<open>The public methods as one interface\<close>

text \<open>
  The public methods the layer declares (\<open>registerController\<close> to \<open>setZIndex\<close>) and
  what they return: the layer itself (for chaining), the container's configuration, the
  legend entries, or nothing.
\<close>

datatype layer_call =
    LRegisterController "controller option"
  | LUnregisterController "controller option"
  | LDoSetConfig "frame_config option" "anim_config option"
  | LGetConfig
  | LGetLegendInfo
  | LSetVisibility bool
  | LSetOpacity real
  | LSetZIndex int

datatype layer_result = RThis | RConfig "frame_config option" | RLegend "legend list" | RNone

text \<open>
  One call at time \<open>now\<close>: the layer after the call (a method that throws may have
  changed it first) and the value returned or the exception thrown. \<open>legend_of\<close> is a
  frame's own \<open>getLegendInfo\<close>.
\<close>

definition layer_api ::
  "('f \<Rightarrow> legend list js) \<Rightarrow> (anim_layer \<Rightarrow> 'f list) \<Rightarrow> int \<Rightarrow> layer_call \<Rightarrow> anim_layer
   \<Rightarrow> anim_layer \<times> (js_error + layer_result)" where
  "layer_api legend_of frames now call al =
     (case call of
        LRegisterController c \<Rightarrow>
          (case registerController c al of Inl e \<Rightarrow> (al, Inl e) | Inr al' \<Rightarrow> (al', Inr RThis))
      | LUnregisterController c \<Rightarrow>
          (case unregisterController c al of Inl e \<Rightarrow> (al, Inl e) | Inr al' \<Rightarrow> (al', Inr RThis))
      | LDoSetConfig cfg a \<Rightarrow> (doSetConfig now cfg a al, Inr RThis)
      | LGetConfig \<Rightarrow> (al, Inr (RConfig (c_config (s_c (snd (al_sys al))))))
      | LGetLegendInfo \<Rightarrow>
          (case lc_getLegendInfo legend_of (frames al) [] of
             Inl e \<Rightarrow> (al, Inl (TypeError e))
           | Inr info \<Rightarrow> (al, Inr (RLegend info)))
      | LSetVisibility v \<Rightarrow> (layer_setVisibility now v al, Inr RNone)
      | LSetOpacity x \<Rightarrow> (layer_setOpacity x al, Inr RNone)
      | LSetZIndex idx \<Rightarrow>
          (case layer_setZIndex idx al of
             (al', Some e) \<Rightarrow> (al', Inl e)
           | (al', None) \<Rightarrow> (al', Inr RNone)))"

section \<open>Container operations only append observer calls\<close>

lemma cb_grows_id[simp]: "cb_grows (\<lambda>es. es)"
  unfolding cb_grows_def by (intro allI prefix_order.refl)

lemma cb_grows_comp:
  "cb_grows f \<Longrightarrow> cb_grows g \<Longrightarrow> cb_grows (\<lambda>es. g (f es))"
  unfolding cb_grows_def by (blast intro: prefix_order.trans)


lemma cb_growsD: "cb_grows f \<Longrightarrow> prefix (s_cb (snd es)) (s_cb (snd (f es)))"
  unfolding cb_grows_def by blast

lemma cb_grows_eq: "(\<And>es. s_cb (snd (f es)) = s_cb (snd es)) \<Longrightarrow> cb_grows f"
  unfolding cb_grows_def by simp

lemma cb_flush_raf[simp]: "s_cb (snd (flush_raf es)) = s_cb (snd es)"
  by (simp add: flush_raf_def split: prod.split)

lemma cb_grows_fold:
  "(\<And>x. cb_grows (g x)) \<Longrightarrow> cb_grows (fold g xs)"
proof (induction xs)
  case (Cons x xs)
  then show ?case using cb_grows_comp[of "g x" "fold g xs"] by (simp add: comp_def)
qed (simp add: cb_grows_def)


lemma cb_update_c[simp]: "s_cb (snd (update_c f es)) = s_cb (snd es)"
  by (simp add: update_c_def split: prod.split)

lemma cb_grows_update_c[simp]: "cb_grows (update_c f)"
  by (simp add: cb_grows_def)

lemma cb_grows_notify[simp]: "cb_grows (notify n)"
  by (simp add: cb_grows_def notify_def split: prod.split)

lemma cb_frame_setOp[simp]: "s_cb (frame_setOp r v s) = s_cb s"
  by (simp add: frame_setOp_def update_frame_def split: prod.split)

lemma cb_opacityTransition:
  "s_cb (snd (opacityTransition frame_getOp frame_setOp now r x st T (e, s))) = s_cb s"
  by (rule opacityTransition_world[where P = "\<lambda>w. s_cb w = s_cb s"]) simp_all

lemma cb_startTransition[simp]:
  "s_cb (snd (startTransitionFadeIn now i x es)) = s_cb (snd es)"
  "s_cb (snd (startTransitionFadeOut now i x es)) = s_cb (snd es)"
  by (cases es; simp add: startTransitionFadeIn_def startTransitionFadeOut_def cb_opacityTransition)+

lemma cb_transition[simp]:
  "s_cb (snd (transition frame_setOp now oid (e, s))) = s_cb s"
  by (rule transition_world[where P = "\<lambda>w. s_cb w = s_cb s", OF refl]) simp_all

lemma cb_grows_run_effect[simp]: "cb_grows (run_effect now eff)"
proof (cases eff)
  case (Notify n)
  have "run_effect now (Notify n) = notify n" by (rule ext) simp
  then show ?thesis using Notify by simp
qed (simp_all add: cb_grows_eq)

lemma cb_grows_run_effects[simp]: "cb_grows (run_effects now effs)"
  unfolding run_effects_def by (rule cb_grows_fold) simp

lemma cb_grows_with_container[simp]: "cb_grows (with_container f now)"
  unfolding cb_grows_def
proof
  fix es :: astate
  obtain e s where es: "es = (e, s)" by fastforce
  obtain c' effs where f: "f (s_c s) = (c', effs)" by fastforce
  show "prefix (s_cb (snd es)) (s_cb (snd (with_container f now es)))"
    using cb_growsD[OF cb_grows_run_effects, of "(e, s\<lparr>s_c := c'\<rparr>)" now effs]
    by (simp add: with_container_def es f)
qed

lemma cb_grows_update_frame[simp]: "cb_grows (\<lambda>es. (fst es, update_frame i f (snd es)))"
  by (rule cb_grows_eq) (simp add: update_frame_def)


lemma cb_growsE: "cb_grows f \<Longrightarrow> prefix xs (s_cb (snd es)) \<Longrightarrow> prefix xs (s_cb (snd (f es)))"
  by (blast intro: prefix_order.trans cb_growsD)

lemma cb_fold_mono:
  "(\<And>x es. prefix xs (s_cb (snd es)) \<Longrightarrow> prefix xs (s_cb (snd (g x es)))) \<Longrightarrow>
   prefix xs (s_cb (snd es)) \<Longrightarrow> prefix xs (s_cb (snd (fold g ys es)))"
  by (induction ys arbitrary: es) simp_all

lemma cb_mono_basic[simp]:
  "prefix xs (s_cb (snd es)) \<Longrightarrow> prefix xs (s_cb (snd (notify n es)))"
  "prefix xs (s_cb (snd es)) \<Longrightarrow> prefix xs (s_cb (snd (with_container f now es)))"
  "prefix xs (s_cb (snd es)) \<Longrightarrow> prefix xs (s_cb (snd (run_effects now effs es)))"
  by (simp_all add: cb_growsE)

lemma cb_update_frame[simp]: "s_cb (update_frame i f s) = s_cb s"
  by (simp add: update_frame_def)

lemma cb_mono_eq[simp]:
  "s_cb (snd (stopShowAnimation es)) = s_cb (snd es)" "s_cb (snd (pauseAnimation es)) = s_cb (snd es)"
  "s_cb (snd (run_nextLayerLoad es)) = s_cb (snd es)" "s_cb (snd (run_resetLoadStep es)) = s_cb (snd es)"
  by (simp_all add: stopShowAnimation_def pauseAnimation_def run_nextLayerLoad_def run_resetLoadStep_def)

lemma cb_showAnimation[simp]:
  "prefix xs (s_cb (snd es)) \<Longrightarrow> prefix xs (s_cb (snd (showAnimation now es)))"
  by (cases es) (auto simp: showAnimation_def Let_def split: option.split)

lemma cb_mono_flow[simp]:
  "prefix xs (s_cb (snd es)) \<Longrightarrow> prefix xs (s_cb (snd (startShowAnimation now es)))"
  "prefix xs (s_cb (snd es)) \<Longrightarrow> prefix xs (s_cb (snd (startAnimation now es)))"
  "prefix xs (s_cb (snd es)) \<Longrightarrow> prefix xs (s_cb (snd (stopAnimation now es)))"
  "prefix xs (s_cb (snd es)) \<Longrightarrow> prefix xs (s_cb (snd (loadAllLayers es)))"
  "prefix xs (s_cb (snd es)) \<Longrightarrow> prefix xs (s_cb (snd (run_showLayer now i force es)))"
  by (simp_all add: startShowAnimation_def startAnimation_def stopAnimation_def
        loadAllLayers_def run_showLayer_def)


lemma cb_mono_callbacks[simp]:
  "prefix xs (s_cb (snd es)) \<Longrightarrow> prefix xs (s_cb (snd (layerLoadStartCallback i es)))"
  "prefix xs (s_cb (snd es)) \<Longrightarrow> prefix xs (s_cb (snd (layerLoadEndCallback now i es)))"
  by (cases es; auto simp: layerLoadStartCallback_def layerLoadEndCallback_def Let_def
        split: prod.split option.split)+

lemma cb_mono_events[simp]:
  "prefix xs (s_cb (snd es)) \<Longrightarrow> prefix xs (s_cb (snd (ev_loadstart i es)))"
  "prefix xs (s_cb (snd es)) \<Longrightarrow> prefix xs (s_cb (snd (ev_loadend now i es)))"
  "prefix xs (s_cb (snd es)) \<Longrightarrow> prefix xs (s_cb (snd (ev_tileerror err i es)))"
  "prefix xs (s_cb (snd es)) \<Longrightarrow> prefix xs (s_cb (snd (movestart_frame es i)))"
  "prefix xs (s_cb (snd es)) \<Longrightarrow> prefix xs (s_cb (snd (hide_frame es i)))"
  by (auto simp: ev_loadstart_def ev_loadend_def ev_tileerror_def movestart_frame_def hide_frame_def
        Let_def split: prod.split)

lemma cb_fold_frames[simp]:
  "prefix xs (s_cb (snd es)) \<Longrightarrow> prefix xs (s_cb (snd (fold (\<lambda>i es. movestart_frame es i) is es)))"
  "prefix xs (s_cb (snd es)) \<Longrightarrow> prefix xs (s_cb (snd (fold (\<lambda>i es. hide_frame es i) is es)))"
  "prefix xs (s_cb (snd es)) \<Longrightarrow>
     prefix xs (s_cb (snd (fold (\<lambda>i es. notify (FrameContentReleased i)
                                (fst es, update_frame i releaseContent (snd es))) is es)))"
  by (rule cb_fold_mono; simp)+

lemma cb_mono_ops[simp]:
  "prefix xs (s_cb (snd es)) \<Longrightarrow> prefix xs (s_cb (snd (movestart es)))"
  "prefix xs (s_cb (snd es)) \<Longrightarrow> prefix xs (s_cb (snd (setVisibility now v es)))"
  "prefix xs (s_cb (snd es)) \<Longrightarrow> prefix xs (s_cb (snd (setOpacity x es)))"
  "prefix xs (s_cb (snd es)) \<Longrightarrow> prefix xs (s_cb (snd (reset now es)))"
  by (simp_all add: movestart_def setVisibility_def setOpacity_def reset_def Let_def)


lemma cb_mono_load[simp]:
  "prefix xs (s_cb (snd es)) \<Longrightarrow> prefix xs (s_cb (snd (loadAnimation now es)))"
  "prefix xs (s_cb (snd es)) \<Longrightarrow> prefix xs (s_cb (snd (setMap now m es)))"
  "prefix xs (s_cb (snd es)) \<Longrightarrow> prefix xs (s_cb (snd (setConfig now cfg a es)))"
  by (auto simp: loadAnimation_def setMap_def setConfig_def Let_def split: option.split)

lemma cb_mono_steps[simp]:
  "prefix xs (s_cb (snd es)) \<Longrightarrow> prefix xs (s_cb (snd (api_step now op es)))"
  "prefix xs (s_cb (snd es)) \<Longrightarrow> prefix xs (s_cb (snd (raf_callback now cb es)))"
  by (cases op; simp; fail) (cases cb; cases es; simp add: cb_growsE)

lemma cb_mono_env[simp]:
  "prefix xs (s_cb (snd es)) \<Longrightarrow> prefix xs (s_cb (snd (env_step now ev es)))"
proof (cases ev)
  case BrowserFrame
  assume "prefix xs (s_cb (snd es))"
  then show ?thesis using BrowserFrame
    by (simp add: browser_frame_def cb_fold_mono)
qed simp_all


section \<open>Controller events: the queued tasks refine direct calls\<close>


lemma fold_ctrl_handler:
  "fold ctrl_handler evs al = al\<lparr>al_timeouts := al_timeouts al @ concat (map ctrl_tasks evs)\<rparr>"
  by (induction evs arbitrary: al) (simp_all add: ctrl_handler_def)



lemma drop_cb_chain:
  "prefix a b \<Longrightarrow> prefix b c \<Longrightarrow> drop (length a) b @ drop (length b) c = drop (length a) c"
  by (auto simp: prefix_def)

lemma run_ctrl_tasks:
  assumes "al_timeouts al = ctrl_tasks ev @ rest" "al_seen al = length (s_cb (snd (al_sys al)))"
  shows "(run_timeout now ^^ length (ctrl_tasks ev)) al =
           al\<lparr>al_sys := ctrl_spec now (al_map al \<noteq> None) ev (al_sys al),
              al_timeouts := rest @ map trigger_task (drop (al_seen al)
                 (s_cb (snd (ctrl_spec now (al_map al \<noteq> None) ev (al_sys al))))),
              al_seen := length (s_cb (snd (ctrl_spec now (al_map al \<noteq> None) ev (al_sys al))))\<rparr>"
proof (cases ev)
  case (PeriodChanged p)
  then show ?thesis
    using assms
    by (cases p) (auto simp: run_timeout_def container_call_def collect_def Let_def
        intro!: drop_cb_chain[symmetric])
qed (use assms in \<open>auto simp: run_timeout_def container_call_def collect_def Let_def
    split: option.splits\<close>)


lemma ctrl_spec_cb: "prefix xs (s_cb (snd es)) \<Longrightarrow> prefix xs (s_cb (snd (ctrl_spec now m ev es)))"
  by (cases ev) (auto simp: Let_def split: option.splits)

lemma run_ctrl_round:
  assumes "al_timeouts al = concat (map ctrl_tasks evs) @ rest"
    "al_seen al = length (s_cb (snd (al_sys al)))"
  shows "(run_timeout now ^^ length (concat (map ctrl_tasks evs))) al =
           al\<lparr>al_sys := fold (ctrl_spec now (al_map al \<noteq> None)) evs (al_sys al),
              al_timeouts := rest @ map trigger_task (drop (al_seen al)
                 (s_cb (snd (fold (ctrl_spec now (al_map al \<noteq> None)) evs (al_sys al))))),
              al_seen := length (s_cb (snd (fold (ctrl_spec now (al_map al \<noteq> None)) evs (al_sys al))))\<rparr>"
  using assms
proof (induction evs arbitrary: al rest)
  case Nil
  then show ?case by simp
next
  case (Cons ev evs)
  let ?m = "al_map al \<noteq> None"
  let ?es1 = "ctrl_spec now ?m ev (al_sys al)"
  let ?es2 = "fold (ctrl_spec now ?m) evs ?es1"
  have pre: "prefix (s_cb (snd ?es1)) (s_cb (snd ?es2))"
    by (induction evs arbitrary: rule: rev_induct) (auto intro: ctrl_spec_cb)
  define al1 where "al1 = (run_timeout now ^^ length (ctrl_tasks ev)) al"
  have al1: "al1 =
          al\<lparr>al_sys := ?es1,
             al_timeouts := (concat (map ctrl_tasks evs) @ rest) @ map trigger_task (drop (al_seen al) (s_cb (snd ?es1))),
             al_seen := length (s_cb (snd ?es1))\<rparr>"
    unfolding al1_def using Cons.prems by (intro run_ctrl_tasks) simp_all
  have "prefix (s_cb (snd (al_sys al))) (s_cb (snd ?es1))"
    by (rule ctrl_spec_cb) simp
  then have chain: "drop (al_seen al) (s_cb (snd ?es1)) @ drop (length (s_cb (snd ?es1))) (s_cb (snd ?es2))
                    = drop (al_seen al) (s_cb (snd ?es2))"
    using Cons.prems(2) pre by (simp add: drop_cb_chain)
  have "(run_timeout now ^^ length (concat (map ctrl_tasks (ev # evs)))) al =
          (run_timeout now ^^ length (concat (map ctrl_tasks evs))) al1"
    by (simp add: al1_def funpow_add[symmetric] add.commute[of "length (ctrl_tasks ev)"] del: funpow.simps)
      (simp add: funpow_add)
  also have "\<dots> = al1\<lparr>al_sys := fold (ctrl_spec now (al_map al1 \<noteq> None)) evs (al_sys al1),
              al_timeouts := (rest @ map trigger_task (drop (al_seen al) (s_cb (snd ?es1)))) @
                 map trigger_task (drop (al_seen al1) (s_cb (snd (fold (ctrl_spec now (al_map al1 \<noteq> None)) evs (al_sys al1))))),
              al_seen := length (s_cb (snd (fold (ctrl_spec now (al_map al1 \<noteq> None)) evs (al_sys al1))))\<rparr>"
    by (rule Cons.IH) (simp_all add: al1)
  finally show ?case
    using chain by (simp add: al1 flip: map_append)
qed


lemma run_triggers:
  "al_timeouts al = map trigger_task cs \<Longrightarrow>
   (run_timeout now ^^ length cs) al =
     al\<lparr>al_timeouts := [],
        al_triggered := al_triggered al @ map (\<lambda>c. (event_name (fst c), snd c)) cs\<rparr>"
proof (induction cs arbitrary: al)
  case Nil
  then show ?case by simp
next
  case (Cons c cs)
  have "(run_timeout now ^^ length (c # cs)) al = (run_timeout now ^^ length cs) (run_timeout now al)"
    by (simp add: funpow_Suc_right del: funpow.simps)
  also have "run_timeout now al = al\<lparr>al_timeouts := map trigger_task cs,
                al_triggered := al_triggered al @ [(event_name (fst c), snd c)]\<rparr>"
    using Cons.prems by (simp add: run_timeout_def trigger_task_def)
  finally show ?case
    by (simp add: Cons.IH)
qed

lemma fold_ctrl_handler_triggered: "al_triggered (fold ctrl_handler evs al) = al_triggered al"
  by (simp add: fold_ctrl_handler)

lemma run_timeouts_triggers:
  "al_timeouts al = map trigger_task cs \<Longrightarrow>
   run_timeouts now al =
     al\<lparr>al_timeouts := [],
        al_triggered := al_triggered al @ map (\<lambda>c. (event_name (fst c), snd c)) cs\<rparr>"
  unfolding run_timeouts_def by (simp only: length_map run_triggers)

lemma ctrl_dispatch:
  assumes "al_timeouts al = []" "al_seen al = length (s_cb (snd (al_sys al)))"
  shows "run_timeouts now (run_timeouts now (fold ctrl_handler evs al)) =
           al\<lparr>al_sys := fold (ctrl_spec now (al_map al \<noteq> None)) evs (al_sys al),
              al_timeouts := [],
              al_triggered := al_triggered al @ map (\<lambda>c. (event_name (fst c), snd c))
                (drop (al_seen al) (s_cb (snd (fold (ctrl_spec now (al_map al \<noteq> None)) evs (al_sys al))))),
              al_seen := length (s_cb (snd (fold (ctrl_spec now (al_map al \<noteq> None)) evs (al_sys al))))\<rparr>"
proof -
  let ?es' = "fold (ctrl_spec now (al_map al \<noteq> None)) evs (al_sys al)"
  define al1 where "al1 = al\<lparr>al_timeouts := concat (map ctrl_tasks evs)\<rparr>"
  have a1: "fold ctrl_handler evs al = al1"
    using assms(1) by (simp add: fold_ctrl_handler al1_def)
  have r1: "run_timeouts now al1 =
      al1\<lparr>al_sys := ?es',
         al_timeouts := map trigger_task (drop (al_seen al) (s_cb (snd ?es'))),
         al_seen := length (s_cb (snd ?es'))\<rparr>"
    unfolding run_timeouts_def using assms
    by (simp add: al1_def run_ctrl_round[where rest = "[]", simplified])
  show ?thesis
    using run_timeouts_triggers[of "run_timeouts now al1" "drop (al_seen al) (s_cb (snd ?es'))" now]
    by (simp add: a1 r1) (simp add: al1_def)
qed

lemma event_name_documented: "''animationloadframeprogress'' \<noteq> event_name n"
  by (cases n) simp_all

text \<open>
  C15: The controller events, handled by scheduling \<open>setTimeout\<close> tasks, do to the
  container what the direct calls of \<open>ctrl_spec\<close> do, in the order the events came; once
  the tasks and the triggers they schedule have run, the queue is empty and the
  listeners have been given one event per observer call, in order, each with the frame
  data the call read.
\<close>

theorem controller_events_refine:
  fixes al :: anim_layer and now :: int and evs :: "ctrl_event list"
  assumes "al_timeouts al = []" "al_seen al = length (s_cb (snd (al_sys al)))"
  defines "es' \<equiv> fold (ctrl_spec now (al_map al \<noteq> None)) evs (al_sys al)"
  shows "al_sys (run_timeouts now (run_timeouts now (fold ctrl_handler evs al))) = es'
       \<and> al_timeouts (run_timeouts now (run_timeouts now (fold ctrl_handler evs al))) = []
       \<and> al_triggered (run_timeouts now (run_timeouts now (fold ctrl_handler evs al))) =
           al_triggered al @ map (\<lambda>c. (event_name (fst c), snd c)) (drop (al_seen al) (s_cb (snd es')))"
  unfolding es'_def by (simp add: ctrl_dispatch[OF assms(1,2)])

theorem controller_events_refine_witness:
  "al_sys (run_timeouts 0 (run_timeouts 0 (fold ctrl_handler [Start, Next] init_layer))) =
     fold (ctrl_spec 0 False) [Start, Next] init_astate"
  using controller_events_refine[of init_layer 0 "[Start, Next]"]
  by (simp add: init_layer_def init_astate_def init_system_def)



section \<open>The \<open>added\<close> handler\<close>




section \<open>The public methods\<close>

text \<open>
  C18: A public method of the layer throws exactly when it is \<open>setZIndex\<close> (always, since
  the container has no such method), \<open>registerController\<close>/\<open>unregisterController\<close> with
  an object that is not an \<open>OpenLayers.Events\<close>, or \<open>getLegendInfo\<close> when a frame's legend
  information throws.
\<close>

theorem layer_api_throws_iff:
  "isl (snd (layer_api legend_of frames now call al)) \<longleftrightarrow>
     (\<exists>idx. call = LSetZIndex idx)
     \<or> call = LRegisterController (Some OtherObject) \<or> call = LUnregisterController (Some OtherObject)
     \<or> (call = LGetLegendInfo \<and> (\<exists>f \<in> set (frames al). isl (legend_of f)))"
  by (cases call)
     (auto simp: layer_api_def registerController_def unregisterController_def layer_setZIndex_def
        lc_getLegendInfo_gen split: option.splits controller.splits sum.splits)

theorem layer_api_throws_iff_witness:
  "isl (snd (layer_api (\<lambda>f :: nat. Inr []) (\<lambda>al. [0]) 0 (LSetZIndex 3) init_layer))
   \<and> \<not> isl (snd (layer_api (\<lambda>f :: nat. Inr []) (\<lambda>al. [0]) 0 LGetLegendInfo init_layer))"
  using layer_api_throws_iff[of "\<lambda>f :: nat. Inr []" "\<lambda>al. [0]" 0 "LSetZIndex 3" init_layer]
    layer_api_throws_iff[of "\<lambda>f :: nat. Inr []" "\<lambda>al. [0]" 0 LGetLegendInfo init_layer]
  by simp

end
