(* ===== verification/ConfigApi.thy ===== *)
theory ConfigApi
  imports Config
begin

text \<open>
  The public interface of \<open>OpenLayers.Layer.Animation.ConfigUtils\<close> (the object
  \<open>ConfigUtils.js\<close> returns) as one step function over the object store of \<open>Config\<close>,
  and the constructors of \<open>OpenLayers.Layer.Animation.Wms\<close> and
  \<open>OpenLayers.Layer.Animation.Wmts\<close> up to the configuration they hand to
  \<open>doSetConfig\<close>. The store invariant \<open>store_ok\<close> (distinct property names, no reference
  to a missing object) is the type discipline of the store: every call keeps it.
\<close>

section \<open>The interface of ConfigUtils\<close>

text \<open>
  One constructor per function of the returned object, with its arguments. The grid
  buffer is given as a number (\<open>None\<close>: \<open>undefined\<close> or \<open>null\<close>).
\<close>

datatype cu_call =
    CloneAnimationConfig jsval jsval
  | CloneWmsAnimationConfig jsval jsval
  | CloneWmtsAnimationConfig jsval jsval
  | GetTimeFromConfig jsval
  | GetAnimation jsval
  | GetAnimationName jsval
  | GetAnimationHasLegend jsval
  | SetAnimationHasLegend jsval jsval
  | GetLayer jsval
  | SetLayer jsval jsval
  | GetLayerName jsval
  | SetLayerName jsval jsval
  | SetFrameStyleClass jsval jsval
  | SetGridBuffer jsval "int option"

text \<open>A call: the value returned (\<open>undefined\<close> for the setters) and the store after it.\<close>

definition configUtils :: "heap \<Rightarrow> cu_call \<Rightarrow> (jsval \<times> heap) js" where
  "configUtils h c =
     (case c of
        CloneAnimationConfig config time \<Rightarrow> Inr (cloneAnimationConfig h config time)
      | CloneWmsAnimationConfig config time \<Rightarrow> Inr (cloneWmsAnimationConfig h config time)
      | CloneWmtsAnimationConfig config time \<Rightarrow> Inr (cloneWmtsAnimationConfig h config time)
      | GetTimeFromConfig config \<Rightarrow> Inr (getTimeFromConfig h config, h)
      | GetAnimation config \<Rightarrow> Inr (getAnimation h config, h)
      | GetAnimationName config \<Rightarrow> Inr (getAnimationName h config, h)
      | GetAnimationHasLegend config \<Rightarrow> Inr (getAnimationHasLegend h config, h)
      | SetAnimationHasLegend config v \<Rightarrow> js_bind (setAnimationHasLegend h config v) (\<lambda>h'. Inr (JUndef, h'))
      | GetLayer config \<Rightarrow> Inr (getLayer h config, h)
      | SetLayer config v \<Rightarrow> js_bind (setLayer h config v) (\<lambda>h'. Inr (JUndef, h'))
      | GetLayerName config \<Rightarrow> Inr (getLayerName h config, h)
      | SetLayerName config v \<Rightarrow> js_bind (setLayerName h config v) (\<lambda>h'. Inr (JUndef, h'))
      | SetFrameStyleClass config v \<Rightarrow> js_bind (setFrameStyleClass h config v) (\<lambda>h'. Inr (JUndef, h'))
      | SetGridBuffer config b \<Rightarrow> js_bind (setGridBuffer h config b) (\<lambda>h'. Inr (JUndef, h')))"

text \<open>The values a call is given.\<close>

fun cu_args :: "cu_call \<Rightarrow> jsval list" where
  "cu_args (CloneAnimationConfig c t) = [c, t]"
| "cu_args (CloneWmsAnimationConfig c t) = [c, t]"
| "cu_args (CloneWmtsAnimationConfig c t) = [c, t]"
| "cu_args (GetTimeFromConfig c) = [c]"
| "cu_args (GetAnimation c) = [c]"
| "cu_args (GetAnimationName c) = [c]"
| "cu_args (GetAnimationHasLegend c) = [c]"
| "cu_args (SetAnimationHasLegend c v) = [c, v]"
| "cu_args (GetLayer c) = [c]"
| "cu_args (SetLayer c v) = [c, v]"
| "cu_args (GetLayerName c) = [c]"
| "cu_args (SetLayerName c v) = [c, v]"
| "cu_args (SetFrameStyleClass c v) = [c, v]"
| "cu_args (SetGridBuffer c b) = [c]"

section \<open>The WMS and WMTS constructors\<close>

text \<open>
  \<open>Wms.initialize(name, url, params, options, myOptions)\<close> after the parent
  initialisation (\<open>AnimationLayer.init_layer\<close>): when any of \<open>url\<close>, \<open>params\<close>,
  \<open>options\<close> is given, \<open>setConfig(url, params, options)\<close>; the result is the wrapper
  configuration handed to \<open>doSetConfig\<close>, or \<open>None\<close> when the constructor sets none.
\<close>

definition wms_initialize :: "heap \<Rightarrow> jsval \<Rightarrow> jsval \<Rightarrow> jsval \<Rightarrow> (jsval option \<times> heap) js" where
  "wms_initialize h url params options =
     (if truthy url \<or> truthy params \<or> truthy options
      then js_bind (wms_setConfig h url params options) (\<lambda>(w, h'). Inr (Some w, h'))
      else Inr (None, h))"

text \<open>
  \<open>Wmts.initialize(config, myName, myOptions)\<close> after the parent initialisation:
  \<open>setConfig(config)\<close> when a configuration is given.
\<close>

definition wmts_initialize :: "heap \<Rightarrow> jsval \<Rightarrow> (jsval option \<times> heap) js" where
  "wmts_initialize h config =
     (if truthy config
      then js_bind (wmts_setConfig h config) (\<lambda>(w, h'). Inr (Some w, h'))
      else Inr (None, h))"

section \<open>The store invariant\<close>

definition store_ok :: "heap \<Rightarrow> bool" where
  "store_ok h \<longleftrightarrow> heap_wf h \<and> heap_closed h"

text \<open>Whether a value is an object of the store.\<close>

definition is_obj :: "heap \<Rightarrow> jsval \<Rightarrow> bool" where
  "is_obj h v \<longleftrightarrow> (case v of JRef a \<Rightarrow> a < length h | _ \<Rightarrow> False)"

text \<open>A store that satisfies the invariant and has at least \<open>n\<close> objects.\<close>

definition store_grown :: "nat \<Rightarrow> heap \<Rightarrow> bool" where
  "store_grown n h \<longleftrightarrow> store_ok h \<and> n \<le> length h"

section \<open>Every call keeps the store invariant\<close>

lemma refs_below_mono: "refs_below n v \<Longrightarrow> n \<le> m \<Longrightarrow> refs_below m v"
  by (induction v) auto

lemma set_update_sub: "set (AList.update k x al) \<subseteq> insert (k, x) (set al)"
  by (induction al) auto

lemma store_ok_put:
  assumes "store_ok h" "refs_below (length h) x"
  shows "store_ok (put h v k x)"
proof -
  have wf: "heap_wf (put h v k x)" using assms(1) by (simp add: store_ok_def)
  have "heap_closed (put h v k x)"
  proof (cases v)
    case (JRef a)
    show ?thesis
    proof (cases "a < length h")
      case True
      have sub: "set (AList.update k x (h ! a)) \<subseteq> insert (k, x) (set (h ! a))"
        by (rule set_update_sub)
      have "h ! a \<in> set h" using True by simp
      then have "\<forall>(k', y) \<in> set (AList.update k x (h ! a)). refs_below (length h) y"
        using assms sub by (fastforce simp: store_ok_def heap_closed_def)
      then show ?thesis
        using assms JRef True by (auto simp: store_ok_def heap_closed_def put_def dest!: set_update_subset_insert[THEN subsetD])
    qed (use assms JRef in \<open>simp add: store_ok_def put_def list_update_beyond\<close>)
  qed (use assms in \<open>simp_all add: store_ok_def put_def\<close>)
  with wf show ?thesis by (simp add: store_ok_def)
qed

lemma store_ok_alloc:
  "store_ok h \<Longrightarrow> store_ok (snd (alloc h []))"
  unfolding store_ok_def alloc_def heap_wf_def heap_closed_def
  by (fastforce intro: refs_below_mono [of "length h"])

lemma store_ok_set_prop:
  "store_ok h \<Longrightarrow> refs_below (length h) x \<Longrightarrow> set_prop h v k x = Inr h' \<Longrightarrow> store_ok h' \<and> length h' = length h"
  by (auto simp: set_prop_Inr store_ok_put)

lemma store_ok_fold_put:
  "store_ok h \<Longrightarrow> \<forall>(k, x) \<in> set ps. refs_below (length h) x \<Longrightarrow>
   store_ok (fold (\<lambda>(k, x) h. put h dst k x) ps h)"
proof (induction ps arbitrary: h)
  case (Cons kx ps)
  obtain k x where kx: "kx = (k, x)" by fastforce
  with Cons.prems have "store_ok (put h dst k x)" by (simp add: store_ok_put)
  with Cons kx show ?case by simp
qed simp

lemma enum_props_closed:
  "heap_closed h \<Longrightarrow> \<forall>(k, x) \<in> set (enum_props h src). refs_below (length h) x"
  by (auto simp: enum_props_def heap_closed_def obj_props_def split: jsval.splits if_splits)

lemma store_ok_extend:
  "store_ok h \<Longrightarrow> store_ok (extend h dst src)"
  unfolding extend_def
  by (rule store_ok_fold_put) (auto simp: store_ok_def dest: enum_props_closed)

lemma get_prop_below:
  "store_ok h \<Longrightarrow> refs_below (length h) (get_prop h v k)"
  by (simp add: store_ok_def get_prop_closed)

lemma refs_below_Suc: "refs_below n v \<Longrightarrow> refs_below (Suc n) v"
  by (erule refs_below_mono) simp

lemma store_ok_snoc: "store_ok h \<Longrightarrow> store_ok (h @ [[]])"
  using store_ok_alloc by (simp add: alloc_def)

lemmas store_simps = store_ok_put store_ok_snoc refs_below_Suc get_prop_below set_prop_Inr js_bind_Inr alloc_def

lemma grown_setLayer:
  "store_ok h \<Longrightarrow> refs_below (length h) v \<Longrightarrow> setLayer h config v = Inr h' \<Longrightarrow> store_grown (length h) h'"
  by (auto simp: setLayer_def store_grown_def store_simps split: if_splits prod.splits)

lemma grown_setLayerName:
  "store_ok h \<Longrightarrow> refs_below (length h) v \<Longrightarrow> setLayerName h config v = Inr h' \<Longrightarrow> store_grown (length h) h'"
  by (auto simp: setLayerName_def store_grown_def store_simps split: if_splits prod.splits)

lemma grown_setAnimationHasLegend:
  "store_ok h \<Longrightarrow> refs_below (length h) v \<Longrightarrow> setAnimationHasLegend h config v = Inr h' \<Longrightarrow> store_grown (length h) h'"
  by (auto simp: setAnimationHasLegend_def store_grown_def store_simps split: if_splits prod.splits)

lemma grown_setFrameStyleClass:
  "store_ok h \<Longrightarrow> refs_below (length h) v \<Longrightarrow> setFrameStyleClass h config v = Inr h' \<Longrightarrow> store_grown (length h) h'"
  by (auto simp: setFrameStyleClass_def store_grown_def store_simps split: if_splits prod.splits)

lemma grown_setGridBuffer:
  "store_ok h \<Longrightarrow> setGridBuffer h config b = Inr h' \<Longrightarrow> store_grown (length h) h'"
  by (auto simp: setGridBuffer_def store_grown_def store_simps split: if_splits prod.splits option.splits)

lemma grown_put: "store_grown n h \<Longrightarrow> refs_below (length h) x \<Longrightarrow> store_grown n (put h v k x)"
  by (simp add: store_grown_def store_ok_put)

lemma grown_extend: "store_grown n h \<Longrightarrow> store_grown n (extend h d s)"
  by (simp add: store_grown_def store_ok_extend)

lemma grown_snoc: "store_grown n h \<Longrightarrow> store_grown n (h @ [[]])"
  by (simp add: store_grown_def store_ok_snoc)

lemma grown_if: "store_grown n a \<Longrightarrow> store_grown n b \<Longrightarrow> store_grown n (if c then a else b)"
  by simp

lemma grown_get: "store_grown n h \<Longrightarrow> refs_below (length h) (get_prop h v k)"
  by (simp add: store_grown_def get_prop_below)

lemma grown_get_path: "store_grown n h \<Longrightarrow> refs_below (length h) (get_path h v (k # ks))"
proof (induction ks arbitrary: v k)
  case (Cons k' ks)
  then show ?case by simp
qed (simp add: grown_get)

lemma grown_arg: "store_grown n h \<Longrightarrow> refs_below n x \<Longrightarrow> refs_below (length h) x"
  by (auto simp: store_grown_def intro: refs_below_mono)

lemma grown_fresh: "store_grown n h \<Longrightarrow> m < length h \<Longrightarrow> refs_below (length h) (JRef m)"
  by simp

lemma grown_len: "store_grown n h \<Longrightarrow> n \<le> length h"
  by (simp add: store_grown_def)


lemmas grown_rules = grown_if grown_put grown_extend grown_snoc grown_get grown_get_path grown_fresh
lemmas store_length_simps = length_put length_extend length_append list.size refs_below.simps

lemma grown_cloneWms:
  assumes "store_ok h" "refs_below (length h) time"
  shows "store_grown (length h) (snd (cloneWmsAnimationConfig h config time))
   \<and> refs_below (length (snd (cloneWmsAnimationConfig h config time))) (fst (cloneWmsAnimationConfig h config time))"
proof -
  have h: "store_grown (length h) h" using assms(1) by (simp add: store_grown_def)
  have tm: "\<And>H. store_grown (length h) H \<Longrightarrow> refs_below (length H) time"
    using assms(2) grown_arg by blast
  show ?thesis
    unfolding cloneWmsAnimationConfig_def Let_def alloc_def
    apply (simp only: prod.case split_conv)
    apply (simp only: snd_conv fst_conv split: if_split)
    apply (intro conjI impI)
    apply ((rule grown_rules h tm | simp only: store_length_simps | linarith)+)
    done
qed

lemma grown_cloneWmts:
  assumes "store_ok h" "refs_below (length h) time"
  shows "store_grown (length h) (snd (cloneWmtsAnimationConfig h config time))
   \<and> refs_below (length (snd (cloneWmtsAnimationConfig h config time))) (fst (cloneWmtsAnimationConfig h config time))"
proof -
  have h: "store_grown (length h) h" using assms(1) by (simp add: store_grown_def)
  have tm: "\<And>H. store_grown (length h) H \<Longrightarrow> refs_below (length H) time"
    using assms(2) grown_arg by blast
  show ?thesis
    unfolding cloneWmtsAnimationConfig_def Let_def alloc_def
    apply (simp only: prod.case split_conv)
    apply (simp only: snd_conv fst_conv split: if_split)
    apply (intro conjI impI)
    apply ((rule grown_rules h tm | simp only: store_length_simps | linarith)+)
    done
qed

lemma grown_clone:
  "store_ok h \<Longrightarrow> refs_below (length h) time \<Longrightarrow>
   store_grown (length h) (snd (cloneAnimationConfig h config time))
   \<and> refs_below (length (snd (cloneAnimationConfig h config time))) (fst (cloneAnimationConfig h config time))"
  using grown_cloneWms[of h time config] grown_cloneWmts[of h time config]
  by (auto simp: cloneAnimationConfig_def store_grown_def)

lemma readers_below:
  assumes "store_ok h"
  shows "refs_below (length h) (getTimeFromConfig h c)" "refs_below (length h) (getAnimation h c)"
    "refs_below (length h) (getAnimationName h c)" "refs_below (length h) (getAnimationHasLegend h c)"
    "refs_below (length h) (getLayer h c)" "refs_below (length h) (getLayerName h c)"
  using assms
  by (simp_all add: getTimeFromConfig_def time_of_params_def getAnimation_def getAnimationName_def
        getAnimationHasLegend_def getLayer_def getLayerName_def get_prop_below Let_def)

section \<open>The constructors\<close>

lemma set_default_obj:
  "a < length h \<Longrightarrow> \<exists>h'. set_default h (JRef a) k d = Inr h' \<and> length h' = length h"
  by (simp add: set_default_def set_prop_def)

lemma set_default_prim:
  "\<forall>b. v \<noteq> JRef b \<Longrightarrow> isl (set_default h v k d)"
  by (cases v) (simp_all add: set_default_def set_prop_def nullish_def)

lemma js_bind_isl: "isl r \<Longrightarrow> isl (js_bind r f)"
  by (cases r) simp_all

lemma wms_defaults_ok:
  assumes "a < length h" "b < length h"
  shows "\<not> isl (js_bind (js_bind (set_default h (JRef a) k1 d1) (\<lambda>h8.
            js_bind (set_default h8 (JRef a) k2 d2) (\<lambda>h9.
            js_bind (set_default h9 (JRef b) k3 d3) (\<lambda>h10.
            js_bind (set_default h10 (JRef b) k4 d4) (\<lambda>h11.
            js_bind (set_default h11 (JRef b) k5 d5) (\<lambda>h12. Inr (w, h12)))))))
            (\<lambda>(w, h'). Inr (Some w, h')))"
proof -
  obtain h8 where 8: "set_default h (JRef a) k1 d1 = Inr h8" "length h8 = length h"
    using set_default_obj[OF assms(1)] by blast
  obtain h9 where 9: "set_default h8 (JRef a) k2 d2 = Inr h9" "length h9 = length h"
    using set_default_obj[of a h8 k2 d2] assms 8 by auto
  obtain h10 where 10: "set_default h9 (JRef b) k3 d3 = Inr h10" "length h10 = length h"
    using set_default_obj[of b h9 k3 d3] assms 9 by auto
  obtain h11 where 11: "set_default h10 (JRef b) k4 d4 = Inr h11" "length h11 = length h"
    using set_default_obj[of b h10 k4 d4] assms 10 by auto
  obtain h12 where 12: "set_default h11 (JRef b) k5 d5 = Inr h12"
    using set_default_obj[of b h11 k5 d5] assms 11 by auto
  show ?thesis using 8 9 10 11 12 by simp
qed

lemma wms_defaults_fail:
  assumes "a < length h" "\<forall>b. opts \<noteq> JRef b"
  shows "isl (js_bind (set_default h (JRef a) k1 d1) (\<lambda>h8.
            js_bind (set_default h8 (JRef a) k2 d2) (\<lambda>h9.
            js_bind (set_default h9 opts k3 d3) f)))"
proof -
  obtain h8 where 8: "set_default h (JRef a) k1 d1 = Inr h8" "length h8 = length h"
    using set_default_obj[OF assms(1)] by blast
  obtain h9 where 9: "set_default h8 (JRef a) k2 d2 = Inr h9"
    using set_default_obj[of a h8 k2 d2] assms 8 by auto
  show ?thesis using 8 9 set_default_prim[OF assms(2)] by (simp add: js_bind_isl)
qed

lemma wms_initialize_throws:
  assumes "refs_below (length h) options"
  shows "isl (wms_initialize h url params options) \<longleftrightarrow>
           (truthy url \<or> truthy params \<or> truthy options)
           \<and> (\<not> truthy url \<or> \<not> truthy (get_prop h params ''layers'') \<or> (truthy options \<and> \<not> is_obj h options))"
proof (cases "\<not> truthy url \<or> \<not> truthy params \<or> \<not> truthy (get_prop h params ''layers'')")
  case True
  have "\<not> truthy params \<Longrightarrow> \<not> truthy (get_prop h params ''layers'')"
    by (cases params) auto
  then show ?thesis using True by (auto simp: wms_initialize_def wms_setConfig_def)
next
  case False
  then obtain a where p: "params = JRef a" "a < length h" and u: "truthy url"
    and l: "truthy (get_prop h params ''layers'')"
    using truthy_get_prop_obj by blast
  show ?thesis
  proof (cases "truthy options \<and> \<not> is_obj h options")
    case True
    then have "\<forall>b. options \<noteq> JRef b" using assms by (auto simp: is_obj_def split: jsval.splits)
    then show ?thesis using True u l p
      unfolding wms_initialize_def wms_setConfig_def Let_def alloc_def
      by (simp only: prod.case split_conv) (simp add: wms_defaults_fail js_bind_isl)
  next
    case opt: False
    have g: "(\<not> truthy url \<or> \<not> truthy params \<or> \<not> truthy (get_prop h params ''layers'')) = False"
      "(truthy url \<or> truthy params \<or> truthy options) = True"
      using u l p by simp_all
    have l': "truthy (get_prop h (JRef a) ''layers'')" using l p by simp
    have "\<not> isl (wms_initialize h url params options)"
    proof (cases "truthy options")
      case True
      with opt assms obtain b where b: "options = JRef b" "b < length h"
        by (auto simp: is_obj_def split: jsval.splits)
      show ?thesis
        unfolding wms_initialize_def wms_setConfig_def Let_def alloc_def p b
        apply (simp only: u l' truthy.simps if_False if_True prod.case split_conv simp_thms)
        apply (rule wms_defaults_ok)
        using p b by (simp_all add: store_length_simps)
    next
      case False
      show ?thesis
        unfolding wms_initialize_def wms_setConfig_def Let_def alloc_def p
        apply (simp only: u l' False truthy.simps if_False if_True prod.case split_conv simp_thms)
        apply (rule wms_defaults_ok)
        using p by (simp_all add: store_length_simps)
    qed
    then show ?thesis using opt u l by simp
  qed
qed

lemma wmts_defaults_ok:
  assumes "a < length h"
  shows "\<not> isl (js_bind (js_bind (set_default h (JRef a) k1 d1) (\<lambda>h3.
            js_bind (set_default h3 (JRef a) k2 d2) (\<lambda>h4.
            js_bind (set_default h4 (JRef a) k3 d3) (\<lambda>h5. Inr (w, h5)))))
            (\<lambda>(w, h'). Inr (Some w, h')))"
proof -
  obtain h3 where 3: "set_default h (JRef a) k1 d1 = Inr h3" "length h3 = length h"
    using set_default_obj[OF assms(1)] by blast
  obtain h4 where 4: "set_default h3 (JRef a) k2 d2 = Inr h4" "length h4 = length h"
    using set_default_obj[of a h3 k2 d2] assms 3 by auto
  obtain h5 where 5: "set_default h4 (JRef a) k3 d3 = Inr h5"
    using set_default_obj[of a h4 k3 d3] assms 4 by auto
  show ?thesis using 3 4 5 by simp
qed

lemma wmts_initialize_throws:
  "isl (wmts_initialize h config) \<longleftrightarrow>
     truthy config \<and> (\<not> truthy (get_prop h config ''url'') \<or> \<not> truthy (get_prop h config ''layer'')
                      \<or> \<not> truthy (get_prop h config ''matrixSet'') \<or> nullish (get_prop h config ''style''))"
proof (cases "truthy config \<and> truthy (get_prop h config ''url'') \<and> truthy (get_prop h config ''layer'')
                \<and> truthy (get_prop h config ''matrixSet'') \<and> \<not> nullish (get_prop h config ''style'')")
  case True
  then obtain a where c: "config = JRef a" "a < length h" using truthy_get_prop_obj by blast
  have g: "truthy (get_prop h (JRef a) ''url'')" "truthy (get_prop h (JRef a) ''layer'')"
    "truthy (get_prop h (JRef a) ''matrixSet'')" "\<not> nullish (get_prop h (JRef a) ''style'')"
    using True c by simp_all
  have "\<not> isl (wmts_initialize h config)"
    unfolding wmts_initialize_def wmts_setConfig_def Let_def alloc_def c
    apply (simp only: g truthy.simps if_False if_True prod.case split_conv simp_thms)
    apply (rule wmts_defaults_ok)
    using c by (simp add: store_length_simps)
  then show ?thesis using True by simp
qed (auto simp: wmts_initialize_def wmts_setConfig_def)

section \<open>Properties of the interface\<close>





end
