(* ===== verification/Utils.thy ===== *)
theory Utils
  imports Legend
begin

text \<open>
  \<open>OpenLayers.Layer.Animation.Utils\<close> (\<open>Utils.js\<close>): the shims it installs when the
  module is loaded (\<open>Date.prototype.toISOString\<close> through a \<open>toJSON\<close> polyfill, and
  \<open>window.requestAnimationFrame\<close>) and \<open>floorDateToHour\<close>. The \<open>indexOf\<close> polyfill is
  \<open>Prelude.index_of\<close>.
  A \<open>Date\<close> is its time value in milliseconds (\<open>JDate t\<close> of \<open>Config\<close>). The UTC fields
  the polyfill reads (\<open>getUTCFullYear\<close> and the others) are computed as ECMAScript defines
  them from the time value; the local time of \<open>setMinutes\<close> and its siblings is the time
  value plus the offset of the browser's time zone, taken as fixed.
\<close>

section \<open>UTC date fields (ECMAScript)\<close>

definition is_leap :: "int \<Rightarrow> bool" where
  "is_leap y \<longleftrightarrow> y mod 4 = 0 \<and> (y mod 100 \<noteq> 0 \<or> y mod 400 = 0)"

definition days_in_year :: "int \<Rightarrow> int" where
  "days_in_year y = (if is_leap y then 366 else 365)"

text \<open>
  The year of day number \<open>d\<close> counted from 1 January of year \<open>y\<close>, and the day within
  that year: step back while \<open>d\<close> is negative, forward while it is past the year.
\<close>

function year_day :: "int \<Rightarrow> int \<Rightarrow> int \<times> int" where
  "year_day y d =
     (if d < 0 then year_day (y - 1) (d + days_in_year (y - 1))
      else if days_in_year y \<le> d then year_day (y + 1) (d - days_in_year y)
      else (y, d))"
  by pat_completeness auto
termination
  by (relation "measures [\<lambda>(y, d). if d < 0 then 1 else 0, \<lambda>(y, d). nat \<bar>d\<bar>]")
     (auto simp: days_in_year_def split: if_splits)

declare year_day.simps [simp del]

definition month_lengths :: "int \<Rightarrow> int list" where
  "month_lengths y = [31, if is_leap y then 29 else 28, 31, 30, 31, 30, 31, 31, 30, 31, 30, 31]"

text \<open>The month (from 0) of day \<open>d\<close> of a year and the day within that month (from 0).\<close>

fun month_day :: "int list \<Rightarrow> int \<Rightarrow> nat \<Rightarrow> nat \<times> int" where
  "month_day [] d m = (m, d)"
| "month_day (l # ls) d m = (if d < l then (m, d) else month_day ls (d - l) (Suc m))"

definition utc_year :: "int \<Rightarrow> int" where
  "utc_year t = fst (year_day 1970 (t div 86400000))"

definition utc_month_day :: "int \<Rightarrow> nat \<times> int" where
  "utc_month_day t =
     (let (y, d) = year_day 1970 (t div 86400000) in month_day (month_lengths y) d 0)"

section \<open>The toISOString shim\<close>

text \<open>\<open>pad\<close>: a number below 10 gets a leading zero; \<open>'0' + n\<close> and the concatenation turn
  it into its decimal string.\<close>

definition pad :: "int \<Rightarrow> string" where
  "pad n = (if n < 10 then ''0'' @ js_to_string (JNum n) else js_to_string (JNum n))"

text \<open>The polyfilled \<open>Date.prototype.toJSON\<close> applied to the time value \<open>t\<close>.\<close>

definition toJSON_polyfill :: "int \<Rightarrow> string" where
  "toJSON_polyfill t =
     js_to_string (JNum (utc_year t)) @ ''-'' @ pad (int (fst (utc_month_day t)) + 1)
     @ ''-'' @ pad (snd (utc_month_day t) + 1) @ ''T'' @ pad ((t div 3600000) mod 24)
     @ '':'' @ pad ((t div 60000) mod 60) @ '':'' @ pad ((t div 1000) mod 60) @ ''Z''"

text \<open>
  Which implementation \<open>toISOString\<close> has once the module is loaded: the browser's own,
  the \<open>toJSON\<close> the page already had, or the polyfill.
\<close>

datatype iso_impl = NativeISO | ExistingToJSON | PolyfillToJSON

definition iso_shim :: "bool \<Rightarrow> bool \<Rightarrow> iso_impl" where
  "iso_shim has_toISOString has_toJSON =
     (if has_toISOString then NativeISO else if has_toJSON then ExistingToJSON else PolyfillToJSON)"

section \<open>The requestAnimationFrame shim\<close>

text \<open>
  \<open>window.requestAnimationFrame\<close> after the module is loaded: the browser's own, a vendor
  prefixed one, or a \<open>setTimeout\<close> of \<open>1000 / 60\<close> ms.
\<close>

datatype raf_impl = NativeRaf | VendorRaf | TimeoutRaf real

definition raf_shim :: "bool \<Rightarrow> bool \<Rightarrow> raf_impl" where
  "raf_shim has_native has_vendor =
     (if has_native then NativeRaf else if has_vendor then VendorRaf else TimeoutRaf (1000 / 60))"

section \<open>floorDateToHour\<close>

text \<open>
  \<open>date.setMinutes(0)\<close>, \<open>date.setSeconds(0)\<close>, \<open>date.setMilliseconds(0)\<close> on the time
  value \<open>t\<close> in a zone whose local time is \<open>t + off\<close>.
\<close>

definition set_minutes0 :: "int \<Rightarrow> int \<Rightarrow> int" where
  "set_minutes0 off t = (let l = t + off in l - (l mod 3600000) div 60000 * 60000 - off)"

definition set_seconds0 :: "int \<Rightarrow> int \<Rightarrow> int" where
  "set_seconds0 off t = (let l = t + off in l - (l mod 60000) div 1000 * 1000 - off)"

definition set_milliseconds0 :: "int \<Rightarrow> int \<Rightarrow> int" where
  "set_milliseconds0 off t = (let l = t + off in l - l mod 1000 - off)"

text \<open>The date after the call; anything that is not a \<open>Date\<close> is left alone.\<close>

definition floorDateToHour :: "int \<Rightarrow> jsval \<Rightarrow> jsval" where
  "floorDateToHour off date =
     (case date of
        JDate t \<Rightarrow> JDate (set_milliseconds0 off (set_seconds0 off (set_minutes0 off t)))
      | _ \<Rightarrow> date)"

section \<open>Properties\<close>

lemma mod_minus_mult: "((a::int) - k * m) mod m = a mod m"
  by (metis mod_mult_self1 diff_conv_add_uminus mult_minus_left)

lemma floor_hour_closed:
  "set_milliseconds0 off (set_seconds0 off (set_minutes0 off t)) = t - (t + off) mod 3600000"
proof -
  define l where "l = t + off"
  define q where "q = (l mod 3600000) div 60000"
  have m1: "(l - q * 60000) mod 60000 = l mod 60000" by (rule mod_minus_mult)
  define s where "s = (l mod 60000) div 1000"
  have m2: "(l - q * 60000 - s * 1000) mod 1000 = l mod 1000"
    using mod_minus_mult[of "l - q * 60000" s 1000] mod_minus_mult[of l "q * 60" 1000] by (simp add: ac_simps)
  have r1: "l mod 3600000 mod 60000 = l mod 60000" by (simp add: mod_mod_cancel)
  have r2: "l mod 60000 mod 1000 = l mod 1000" by (simp add: mod_mod_cancel)
  have dec: "l mod 3600000 = q * 60000 + s * 1000 + l mod 1000"
    using div_mult_mod_eq[of "l mod 3600000" 60000] div_mult_mod_eq[of "l mod 60000" 1000] r1 r2
    unfolding q_def s_def by linarith
  have e1: "set_minutes0 off t = l - q * 60000 - off"
    by (simp add: set_minutes0_def l_def q_def)
  have e2: "set_seconds0 off (l - q * 60000 - off) = l - q * 60000 - s * 1000 - off"
    using m1 by (simp add: set_seconds0_def s_def)
  have e3: "set_milliseconds0 off (l - q * 60000 - s * 1000 - off) = l - q * 60000 - s * 1000 - l mod 1000 - off"
    using m2 by (simp add: set_milliseconds0_def)
  show ?thesis unfolding e1 e2 e3 using dec by (simp add: l_def)
qed

text \<open>
  The polyfilled \<open>toJSON\<close> reads the time value only to the second: two times in the
  same second give the same string (the native \<open>toISOString\<close> has milliseconds).
\<close>

lemma div_same_second:
  "(t::int) div 1000 = t' div 1000 \<Longrightarrow> 0 \<le> k \<Longrightarrow> t div (1000 * k) = t' div (1000 * k)"
  by (simp add: zdiv_zmult2_eq)

lemma toJSON_polyfill_second:
  assumes eq: "t div 1000 = t' div 1000"
  shows "toJSON_polyfill t = toJSON_polyfill t'"
proof -
  have d: "t div 86400000 = t' div 86400000" "t div 3600000 = t' div 3600000" "t div 60000 = t' div 60000"
    using div_same_second[OF eq, of 86400] div_same_second[OF eq, of 3600] div_same_second[OF eq, of 60]
    by simp_all
  show ?thesis
    unfolding toJSON_polyfill_def utc_year_def utc_month_day_def by (simp only: d eq)
qed

text \<open>
  In a zone half an hour off the hour (UTC+5:30) the result is not a whole UTC hour:
  midnight UTC becomes 23:30 UTC of the day before.
\<close>

lemma floorDateToHour_half_hour_zone:
  "floorDateToHour 19800000 (JDate 0) = JDate (-1800000)"
  by (simp add: floorDateToHour_def floor_hour_closed)

text \<open>
  C37: \<open>floorDateToHour\<close> floors a date to the hour of the browser's local time: the new
  time is at most an hour earlier, not later, and a whole local hour. Anything that is not
  a \<open>Date\<close> is left alone.
\<close>

theorem floorDateToHour_bounds:
  "floorDateToHour off (JDate t) = JDate (t - (t + off) mod 3600000)
   \<and> t - 3600000 < t - (t + off) mod 3600000 \<and> t - (t + off) mod 3600000 \<le> t
   \<and> (t - (t + off) mod 3600000 + off) mod 3600000 = 0
   \<and> floorDateToHour off (JNum n) = JNum n"
proof -
  have "0 \<le> (t + off) mod 3600000" "(t + off) mod 3600000 < 3600000" by simp_all
  moreover have "(t - (t + off) mod 3600000 + off) mod 3600000 = 0"
    by (simp add: algebra_simps mod_diff_left_eq [symmetric])
  ultimately show ?thesis by (simp add: floorDateToHour_def floor_hour_closed)
qed

end
