(* ===== verification/LoadLoop.thy ===== *)
theory LoadLoop
  imports Container
begin

text \<open>
  The loop of \<open>loadAnimation\<close> (\<open>LayerContainer.js\<close>),
  \<open>for (layerTime = begin; layerTime <= end; layerTime += resolutionTime)\<close>, ends only
  because \<open>resolutionTime\<close> is positive: with \<open>begin <= end\<close> and a resolution of zero or
  less it would run forever. The loop is entered when \<open>getResolutionTime()\<close> is not
  zero, and \<open>setResolutionTime\<close> only stores values of at least one. This theory shows
  that in every state the container reaches the resolution is unset or at least one, so
  \<open>Container.frame_times\<close> (whose guard \<open>0 < r\<close> is there for the definition to be
  total) is the loop, and counts its iterations.
\<close>

section \<open>The invariant\<close>

definition res_ok :: "container \<Rightarrow> bool" where
  "res_ok c \<longleftrightarrow> (case c_resolution c of None \<Rightarrow> True | Some r \<Rightarrow> 1 \<le> r)"

section \<open>Operations that leave the resolution alone\<close>

lemma res_frame_setOp [simp]: "c_resolution (s_c (frame_setOp r v s)) = c_resolution (s_c s)"
  by (simp add: frame_setOp_def update_frame_def split: prod.split)

lemma res_update_frame [simp]: "c_resolution (s_c (update_frame i f s)) = c_resolution (s_c s)"
  by (simp add: update_frame_def)

lemma res_flush_raf [simp]: "c_resolution (s_c (snd (flush_raf es))) = c_resolution (s_c (snd es))"
  by (simp add: flush_raf_def split: prod.split)

lemma res_update_c [simp]: "c_resolution (s_c (snd (update_c f es))) = c_resolution (f (s_c (snd es)))"
  by (simp add: update_c_def split: prod.split)

lemma res_notify [simp]: "c_resolution (s_c (snd (notify n es))) = c_resolution (s_c (snd es))"
  by (simp add: notify_def split: prod.split)

lemma res_opacityTransition:
  "c_resolution (s_c (snd (opacityTransition frame_getOp frame_setOp now r x st T (e, s)))) = c_resolution (s_c s)"
  by (rule opacityTransition_world[where P = "\<lambda>w. c_resolution (s_c w) = c_resolution (s_c s)"]) simp_all

lemma res_transition [simp]:
  "c_resolution (s_c (snd (transition frame_setOp now oid (e, s)))) = c_resolution (s_c s)"
  by (rule transition_world[where P = "\<lambda>w. c_resolution (s_c w) = c_resolution (s_c s)", OF refl]) simp_all

lemma res_startTransition [simp]:
  "c_resolution (s_c (snd (startTransitionFadeIn now i x es))) = c_resolution (s_c (snd es))"
  "c_resolution (s_c (snd (startTransitionFadeOut now i x es))) = c_resolution (s_c (snd es))"
  by (cases es; simp add: startTransitionFadeIn_def startTransitionFadeOut_def res_opacityTransition)+

lemma res_run_effect [simp]: "c_resolution (s_c (snd (run_effect now eff es))) = c_resolution (s_c (snd es))"
  by (cases eff) simp_all

lemma res_fold:
  "(\<And>x es. c_resolution (s_c (snd (g x es))) = c_resolution (s_c (snd es))) \<Longrightarrow>
   c_resolution (s_c (snd (fold g xs es))) = c_resolution (s_c (snd es))"
  by (induction xs arbitrary: es) simp_all

lemma res_run_effects [simp]: "c_resolution (s_c (snd (run_effects now effs es))) = c_resolution (s_c (snd es))"
  unfolding run_effects_def by (rule res_fold) simp

lemma res_with_container [simp]:
  "c_resolution (s_c (snd (with_container f now es))) = c_resolution (fst (f (s_c (snd es))))"
  by (simp add: with_container_def split: prod.split)

lemma res_navigate_op: "c_resolution (fst (navigate op c)) = c_resolution c"
  using arg_cong[OF navigate_only_fade[of op c], of c_resolution] by simp

lemma res_navigate [simp]:
  "c_resolution (fst (showFrame t c)) = c_resolution c" "c_resolution (fst (showNextFrame c)) = c_resolution c"
  "c_resolution (fst (showPreviousFrame c)) = c_resolution c"
  "c_resolution (fst (showLayer i force c)) = c_resolution c" "c_resolution (fst (fadeOutAll c)) = c_resolution c"
  using res_navigate_op[of "ShowAt t" c] res_navigate_op[of Next c] res_navigate_op[of Previous c]
  by (simp_all add: showLayer_state fadeOutAll_def)

lemma res_stopShowAnimation [simp]:
  "c_resolution (s_c (snd (stopShowAnimation es))) = c_resolution (s_c (snd es))"
  by (simp add: stopShowAnimation_def)

lemma res_showAnimation [simp]:
  "c_resolution (s_c (snd (showAnimation now es))) = c_resolution (s_c (snd es))"
proof (cases es)
  case (Pair e s)
  then show ?thesis
    by (cases "c_reqTime (s_c s)") (simp_all add: showAnimation_def Let_def)
qed

lemma res_flow [simp]:
  "c_resolution (s_c (snd (startShowAnimation now es))) = c_resolution (s_c (snd es))"
  "c_resolution (s_c (snd (startAnimation now es))) = c_resolution (s_c (snd es))"
  "c_resolution (s_c (snd (pauseAnimation es))) = c_resolution (s_c (snd es))"
  "c_resolution (s_c (snd (stopAnimation now es))) = c_resolution (s_c (snd es))"
  by (simp_all add: startShowAnimation_def startAnimation_def pauseAnimation_def stopAnimation_def)

lemma res_load [simp]:
  "c_resolution (s_c (snd (run_nextLayerLoad es))) = c_resolution (s_c (snd es))"
  "c_resolution (s_c (snd (run_resetLoadStep es))) = c_resolution (s_c (snd es))"
  "c_resolution (s_c (snd (loadAllLayers es))) = c_resolution (s_c (snd es))"
  "c_resolution (s_c (snd (layerLoadStartCallback i es))) = c_resolution (s_c (snd es))"
  "c_resolution (s_c (snd (run_showLayer now i force es))) = c_resolution (s_c (snd es))"
  by (cases es; simp add: run_nextLayerLoad_def run_resetLoadStep_def loadAllLayers_def
        layerLoadStartCallback_def run_showLayer_def split: prod.split)+

lemma res_loadEnd [simp]:
  "c_resolution (s_c (snd (layerLoadEndCallback now i es))) = c_resolution (s_c (snd es))"
  by (simp add: layerLoadEndCallback_def Let_def split: prod.split option.split)

lemma res_events [simp]:
  "c_resolution (s_c (snd (ev_loadstart i es))) = c_resolution (s_c (snd es))"
  "c_resolution (s_c (snd (ev_loadend now i es))) = c_resolution (s_c (snd es))"
  "c_resolution (s_c (snd (ev_tileerror err i es))) = c_resolution (s_c (snd es))"
  "c_resolution (s_c (snd (movestart_frame es i))) = c_resolution (s_c (snd es))"
  "c_resolution (s_c (snd (hide_frame es i))) = c_resolution (s_c (snd es))"
  by (auto simp: ev_loadstart_def ev_loadend_def ev_tileerror_def movestart_frame_def hide_frame_def
        Let_def split: prod.split)

lemma res_raf_callback [simp]:
  "c_resolution (s_c (snd (raf_callback now cb es))) = c_resolution (s_c (snd es))"
  by (cases cb; cases es) simp_all

lemma res_ops1 [simp]:
  "c_resolution (s_c (snd (movestart es))) = c_resolution (s_c (snd es))"
  "c_resolution (s_c (snd (setOpacity x es))) = c_resolution (s_c (snd es))"
  "c_resolution (s_c (snd (browser_frame now es))) = c_resolution (s_c (snd es))"
  by (simp_all add: movestart_def setOpacity_def browser_frame_def res_fold)

lemma res_setVisibility [simp]:
  "c_resolution (s_c (snd (setVisibility now v es))) = c_resolution (s_c (snd es))"
  by (simp add: setVisibility_def Let_def res_fold)

lemma res_reset [simp]:
  "c_resolution (s_c (snd (reset now es))) = c_resolution (s_c (snd es))"
  by (simp add: reset_def Let_def res_fold)

lemma res_loadAnimation [simp]:
  "c_resolution (s_c (snd (loadAnimation now es))) = c_resolution (s_c (snd es))"
  by (simp add: loadAnimation_def Let_def split: option.split)

lemma res_setMap [simp]:
  "c_resolution (s_c (snd (setMap now m es))) = c_resolution (s_c (snd es))"
  by (simp add: setMap_def Let_def)

lemma res_setters [simp]:
  "c_resolution (setBeginTime t c) = c_resolution c" "c_resolution (setEndTime t c) = c_resolution c"
  "c_resolution (setFrameRate fr c) = c_resolution c" "c_resolution (setMaxAsyncLoadCount m c) = c_resolution c"
  "c_resolution (setFadeOutOpacities os c) = c_resolution c"
  by (simp_all add: setBeginTime_def setEndTime_def setFrameRate_def setMaxAsyncLoadCount_def
        setFadeOutOpacities_def split: time_arg.split option.split)

lemma s_c_update_c: "s_c (snd (update_c f es)) = f (s_c (snd es))"
  by (simp add: update_c_def split: prod.split)

lemma res_ok_setResolutionTime:
  "res_ok c \<Longrightarrow> c_resolution c' = c_resolution c \<Longrightarrow> res_ok (setResolutionTime t c')"
  by (auto simp: res_ok_def setResolutionTime_def split: option.split)

section \<open>Every reachable state keeps the invariant\<close>

lemma res_ok_api: "res_ok (s_c (snd es)) \<Longrightarrow> res_ok (s_c (snd (api_step now a es)))"
proof (cases a)
  case (SetResolutionTime t)
  assume ok: "res_ok (s_c (snd es))"
  have "res_ok (setResolutionTime t (s_c (snd es)))" by (rule res_ok_setResolutionTime [OF ok refl])
  then show ?thesis using SetResolutionTime by (simp add: s_c_update_c)
next
  case (SetConfig cfg an)
  assume ok: "res_ok (s_c (snd es))"
  show ?thesis
  proof (cases an)
    case None
    then show ?thesis using SetConfig ok by (simp add: setConfig_def res_ok_def s_c_update_c)
  next
    case (Some x)
    define c' where "c' = setEndTime (an_endTime x)
                            (setBeginTime (an_beginTime x) ((s_c (snd es))\<lparr>c_config := cfg, c_anim := Some x\<rparr>))"
    have "res_ok (setResolutionTime (an_resolutionTime x) c')"
      by (rule res_ok_setResolutionTime [OF ok]) (simp add: c'_def)
    then show ?thesis using SetConfig Some
      by (simp add: setConfig_def Let_def res_ok_def s_c_update_c c'_def)
  qed
qed (simp_all add: res_ok_def)

lemma res_ok_env: "res_ok (s_c (snd es)) \<Longrightarrow> res_ok (s_c (snd (env_step now ev es)))"
  by (cases ev) (simp_all add: res_ok_def)

lemma reachable_res_ok: "reachable es \<Longrightarrow> res_ok (s_c (snd es))"
proof (induction rule: reachable.induct)
  case init
  then show ?case
    by (simp add: res_ok_def init_astate_def init_system_def init_container_def)
next
  case (api es now a)
  from api.IH show ?case by (rule res_ok_api)
next
  case (env es ev now)
  then show ?case by (simp add: res_ok_env)
qed

section \<open>The loop\<close>

lemma frame_times_closed:
  "0 < r \<Longrightarrow> frame_times t e r =
     (if t \<le> e then map (\<lambda>k. t + int k * r) [0..<nat ((e - t) div r) + 1] else [])"
proof (induction t e r rule: frame_times.induct)
  case (1 t e r)
  show ?case
  proof (cases "t \<le> e")
    case False
    then show ?thesis by (simp add: frame_times.simps)
  next
    case le: True
    show ?thesis
    proof (cases "t + r \<le> e")
      case True
      have "e - t = (e - (t + r)) + r" by simp
      then have d: "(e - t) div r = (e - (t + r)) div r + 1"
        using "1.prems" div_add_self2[of r "e - (t + r)"] by simp
      have n: "nat ((e - t) div r) + 1 = Suc (nat ((e - (t + r)) div r) + 1)"
        using d True "1.prems" by (simp add: nat_add_distrib pos_imp_zdiv_nonneg_iff)
      have "frame_times t e r = t # frame_times (t + r) e r"
        using le "1.prems" by (simp add: frame_times.simps)
      also have "\<dots> = t # map (\<lambda>k. t + r + int k * r) [0..<nat ((e - (t + r)) div r) + 1]"
        using "1.IH" le "1.prems" True by simp
      also have "\<dots> = map (\<lambda>k. t + int k * r) [0..<nat ((e - t) div r) + 1]"
        unfolding n map_upt_Suc by (simp add: algebra_simps)
      finally show ?thesis using le by simp
    next
      case False
      then have "(e - t) div r = 0" using le by simp
      moreover have "frame_times (t + r) e r = []" using False by (simp add: frame_times.simps)
      ultimately show ?thesis using le "1.prems" by (simp add: frame_times.simps)
    qed
  qed
qed

text \<open>
  C36: the loop of \<open>loadAnimation\<close> terminates: in every state the container reaches, a
  resolution that lets the loop start (\<open>getResolutionTime() != 0\<close>) is at least one, so
  for \<open>begin <= end\<close> the loop runs exactly \<open>(end - begin) div resolution + 1\<close> times and
  creates the frames \<open>begin, begin + resolution, ...\<close> up to \<open>end\<close>.
\<close>

theorem loadAnimation_loop_terminates:
  assumes "reachable es" and "getResolutionTime (s_c (snd es)) \<noteq> 0"
  shows "1 \<le> getResolutionTime (s_c (snd es))
         \<and> (\<forall>b e. b \<le> e \<longrightarrow> frame_times b e (getResolutionTime (s_c (snd es))) =
               map (\<lambda>k. b + int k * getResolutionTime (s_c (snd es)))
                 [0..<nat ((e - b) div getResolutionTime (s_c (snd es))) + 1])"
proof -
  have "1 \<le> getResolutionTime (s_c (snd es))"
    using reachable_res_ok[OF assms(1)] assms(2)
    by (auto simp: res_ok_def getResolutionTime_def split: option.splits)
  then show ?thesis by (simp add: frame_times_closed)
qed

theorem loadAnimation_loop_terminates_witness:
  "frame_times 0 2500 (getResolutionTime (s_c (snd (api_step 0 (SetResolutionTime (Some 1000)) init_astate))))
   = [0, 1000, 2000]"
proof -
  let ?es = "api_step 0 (SetResolutionTime (Some 1000)) init_astate"
  have r: "reachable ?es" by (rule reachable.api [OF reachable.init])
  have g: "getResolutionTime (s_c (snd ?es)) = 1000"
    by (simp add: init_astate_def init_system_def init_container_def getResolutionTime_def
          setResolutionTime_def update_c_def)
  from loadAnimation_loop_terminates [OF r] g
  show ?thesis by (simp add: upt_rec)
qed

end
