(* ===== verification/Spec2Isabelle.thy ===== *)
theory Spec2Isabelle
  imports AnimationLayer Legend ConfigApi Utils LoadLoop
begin

text \<open>
  Verification of openlayers-animation (fmidev), the OpenLayers 2 add-in that shows a
  time series of WMS or WMTS layers as an animation. The sources are under
  \<open>src/src/addins/lib/OpenLayers/Layer/Animation/\<close>. Each theory starts with a text that
  says what it models. The parts of the program, the theories that model them, and
  what the lemmas of each theory show:

  \<^item> \<open>Prelude\<close>: the array helpers the code uses. \<open>index_of\<close> is the \<open>indexOf\<close> polyfill
    of \<open>Utils.js\<close>, \<open>splice1\<close> is \<open>splice(i, 1)\<close>, and \<open>strides\<close> gives the index sequences
    of the loops \<open>for (i = a; i < n; i += step)\<close>.
  \<^item> \<open>Frame\<close>: one animation frame, \<open>internal/LayerObject.js\<close>. The frame is a record of
    its configuration, its OpenLayers layer (map, visibility, opacity, z-index and the
    tile styles of its div) and its load state. Every public method is one definition:
    \<open>loadLayer\<close>, \<open>releaseContent\<close>, \<open>frame_setVisibility\<close>, \<open>frame_setZIndex\<close>,
    \<open>setCssTransition\<close> and the getters, all collected in \<open>frame_api\<close>. The layer events
    \<open>loadstart\<close>, \<open>loadend\<close> and \<open>tileerror\<close> are definitions too, and \<open>frame_step\<close> is the
    inductive step relation over all of them. The lemmas show that a frame in a load
    state has its layer in the map and visible, for every step and every method. They
    show that a frame becomes ready only after a requested load, and where a ready frame
    can go. They also give the z-index and CSS transition round trips.
  \<^item> \<open>Scheduler\<close>: the load scheduling of \<open>internal/LayerContainer.js\<close>. It models
    \<open>resetLoadStep\<close>, \<open>nextLayerLoad\<close> (loading coarse to fine within
    \<open>_maxAsyncLoadCount\<close>) and the group accounting of \<open>layerLoadEndCallback\<close> with
    \<open>groupLoadStepCheck\<close>. The lemmas show that the load step is the least power of two
    that covers the frames, and that the cap on parallel loads holds. They show that the
    finest complete group is recorded, independent of the order of completions, and that
    \<open>loadComplete\<close> fires exactly when every frame is loaded.
  \<^item> \<open>Presentation\<close>: the container state and the fade stack \<open>_fadeOutLayers\<close>. It models
    \<open>showLayer\<close>, \<open>allowShowLayer\<close>, \<open>fadeOutAll\<close> and the navigation calls \<open>showFrame\<close>,
    \<open>showNextFrame\<close> and \<open>showPreviousFrame\<close>. The operations return the effects they
    cause (transitions, observer calls) in order. The lemmas show that the fade stack
    stays distinct and bounded, that \<open>showNextFrame\<close> cycles, that
    \<open>showPreviousFrame\<close> does not wrap when the frame count is a multiple of the step,
    and that only loaded frames are shown.
  \<^item> \<open>Transition\<close>: \<open>internal/TransitionUtils.js\<close>, with the easing formulas,
    \<open>_transitionArray\<close> and the transition objects in an explicit store indexed by
    identity, because a restart writes a flag that a pending closure reads. The lemmas
    show that a transition follows its easing formula and ends at the target. They show
    that a restart cancels the old transition for good, that every reachable engine state
    keeps one live transition per object, and that an invalid request cancels a running
    transition.
  \<^item> \<open>Container\<close>: the whole \<open>LayerContainer\<close> composed over the frames, the scheduler and
    the engine, as \<open>api_step\<close> (its public calls) and \<open>env_step\<close> (map moves, layer
    events, the browser's animation frame), with the reachable states \<open>reachable\<close>.
    The lemmas show that the \<open>requestAnimationFrame\<close> loop advances at most one frame
    per browser frame.
  \<^item> \<open>LoadLoop\<close>: the loop of \<open>loadAnimation\<close>. In every reachable state the resolution
    is unset or at least one, so the loop ends, and it has exactly
    \<open>(end - begin) div resolution + 1\<close> iterations.
  \<^item> \<open>Config\<close> and \<open>ConfigApi\<close>: the configuration objects, \<open>internal/ConfigUtils.js\<close>,
    the per-period layer information of the container, the configuration each frame is
    built with in \<open>loadAnimation\<close>, and \<open>setConfig\<close> and the constructors of \<open>Wms.js\<close>
    and \<open>Wmts.js\<close>. The code shares and updates objects in place, so they live in an
    explicit store: a list of property lists, addressed by \<open>JRef\<close>. A write through a
    value that is not an object throws, as in strict mode. \<open>configUtils\<close> is the
    module's interface as one step function. The lemmas give the accessor round trips
    and the clone's time. They show that every interface call keeps the store
    well-formed. They show that WMS frames without \<open>options.animation\<close> make
    \<open>loadAnimation\<close> throw, that a configuration with both parts leaks layer ids into
    the caller's object, and when the constructors throw.
  \<^item> \<open>Legend\<close>: \<open>getLegendInfo\<close> of a frame and of the container, with
    \<open>encodeURIComponent\<close> on bytes. The lemmas show that the container's list equals the
    frames' lists concatenated with duplicates dropped. They show that the legend URLs
    decode back to the layer ids, and that array layer ids throw.
  \<^item> \<open>AnimationLayer\<close>: \<open>Animation.js\<close>, the layer that wraps the container and is its
    observer. The browser's \<open>setTimeout\<close> queue is explicit, and \<open>layer_api\<close> is the
    public interface. The lemmas show that controller events handled through queued
    tasks refine direct container calls, and that the observer log only grows. They show
    exactly which public calls throw (among them \<open>setZIndex\<close>, because the container has
    none), and that \<open>animationloadframeprogress\<close> is never triggered.
  \<^item> \<open>Utils\<close>: \<open>Utils.js\<close>. It models the \<open>toISOString\<close> shim with its \<open>toJSON\<close>
    polyfill (which drops the milliseconds), the \<open>requestAnimationFrame\<close> shim, and
    \<open>floorDateToHour\<close>, which floors to the local hour.

  Bounds and fuel: no model needs fuel. Every loop of the code is a structural
  recursion, a fold over an index list, or a \<open>function\<close> with a termination measure:
  \<open>grow_load_step\<close> (the distance from \<open>2^p\<close> to \<open>n\<close>), \<open>load_rounds\<close> and
  \<open>first_incomplete\<close> (the step halves), \<open>frame_times\<close> (the distance to \<open>end\<close>; its guard
  \<open>0 < r\<close> never matters for reachable states, see \<open>LoadLoop\<close>), and \<open>year_day\<close> (the
  distance of the day number from its year). Code that runs later in the browser (the
  \<open>setTimeout\<close> tasks, animation-frame callbacks and layer events) is an explicit queue
  or an environment step, not a loop of the model. Clock values are integer
  milliseconds. Numbers of the configuration objects are integers.

  Not modelled:
  \<^item> \<open>src/lib/openlayers-animation-1.0.4.js\<close> is the release bundle. It is a built copy
    of an earlier version of the same sources (0 ms default fades, extra guards for a
    destroyed map), so it is not modelled separately.
  \<^item> \<open>src/Gruntfile.js\<close> is build tooling.
  \<^item> The OpenLayers library, the DOM and the browser are modelled only through the
    attributes the code reads and writes. This covers the layer's map, visibility,
    opacity, z-index and tiles, the event queues, and the clock.
  \<^item> The names and options passed to the parent \<open>initialize\<close> are not modelled.
  \<^item> The container's configuration is abstract (\<open>frame_config\<close> and \<open>anim_config\<close>), so
    \<open>doSetConfig\<close> is not connected to the configuration objects of \<open>Config\<close>.
  \<^item> The layer's \<open>getLegendInfo\<close> reads frames of that store through a parameter.
\<close>

end
